(* ===== verification/Py_Prelude.thy ===== *)
theory Py_Prelude
  imports Main "HOL-Library.Sublist"
begin

text \<open>
  The prelude of the development: the pieces of Python's and the web stack's behaviour
  that every handler of \<^verbatim>\<open>src/main.py\<close> relies on, written once.
  \<^item> \<open>py_error\<close> and \<open>'a result\<close>: exceptions as values (\<open>Inl\<close> is the exception);
  \<^item> \<open>py_index0\<close>: the expression \<^verbatim>\<open>xs[0]\<close>, which raises IndexError on an empty list;
  \<^item> \<open>py_split\<close> and \<open>str_join\<close>: \<^verbatim>\<open>s.split(c)\<close> with a one-character separator and
    \<^verbatim>\<open>sep.join(ps)\<close>, with the law that joining the pieces gives the string back;
  \<^item> \<open>nat_str\<close>, \<open>int_str\<close>: \<^verbatim>\<open>str(n)\<close> of a Python int (and the \<^verbatim>\<open>{n}\<close> f-string
    field), and \<open>parse_int\<close>, the reading of a query-string value as an int, with the
    round trip \<open>parse_int (int_str i) = Some i\<close>;
  The collection \<open>py_simps\<close> gathers the evaluation rules of these helpers.
\<close>

named_theorems py_simps "evaluation rules of the Python helpers"

section \<open>Exceptions as values\<close>

datatype py_error =
    IndexError
  | KeyError string
  | ValidationError string
  | NotFound
  | UpstreamUnavailable
  | SettingsError string
  | TypeError
  | AttributeError

type_synonym 'a result = "py_error + 'a"

definition py_index0 :: "'a list \<Rightarrow> 'a result" where
  "py_index0 xs = (case xs of [] \<Rightarrow> Inl IndexError | x # _ \<Rightarrow> Inr x)"

section \<open>Splitting and joining strings\<close>

text \<open>
  \<^verbatim>\<open>s.split(c)\<close>: the pieces between the occurrences of \<open>c\<close>, so that \<^verbatim>\<open>"".split(c)\<close>
  is \<^verbatim>\<open>[""]\<close> and \<^verbatim>\<open>"a,,b".split(",")\<close> is \<^verbatim>\<open>["a", "", "b"]\<close>.
\<close>

fun py_split :: "char \<Rightarrow> string \<Rightarrow> string list" where
  "py_split c [] = [[]]"
| "py_split c (x # xs) =
     (if x = c then [] # py_split c xs
      else (let ps = py_split c xs in (x # hd ps) # tl ps))"

fun str_join :: "string \<Rightarrow> string list \<Rightarrow> string" where
  "str_join sep [] = []"
| "str_join sep [p] = p"
| "str_join sep (p # q # ps) = p @ sep @ str_join sep (q # ps)"

section \<open>Decimal digits\<close>

definition digit_char :: "nat \<Rightarrow> char" where
  "digit_char d = ''0123456789'' ! d"

fun nat_str :: "nat \<Rightarrow> string" where
  "nat_str n = (if n < 10 then [digit_char n] else nat_str (n div 10) @ [digit_char (n mod 10)])"

definition int_str :: "int \<Rightarrow> string" where
  "int_str i = (if i < 0 then CHR ''-'' # nat_str (nat (- i)) else nat_str (nat i))"

definition is_digit :: "char \<Rightarrow> bool" where
  "is_digit c = (48 \<le> (of_char c :: nat) \<and> (of_char c :: nat) \<le> 57)"

definition digit_val :: "char \<Rightarrow> nat" where
  "digit_val c = of_char c - 48"

definition nat_of_digits :: "string \<Rightarrow> nat" where
  "nat_of_digits s = foldl (\<lambda>acc c. 10 * acc + digit_val c) 0 s"

definition parse_nat :: "string \<Rightarrow> nat option" where
  "parse_nat s = (if s \<noteq> [] \<and> list_all is_digit s then Some (nat_of_digits s) else None)"

text \<open>
  The reading of a query-string value declared \<^verbatim>\<open>int\<close>: an optional sign and decimal
  digits. Anything else is a validation error of the framework (HTTP 422).
\<close>

definition parse_int :: "string \<Rightarrow> int option" where
  "parse_int s =
     (case s of
        [] \<Rightarrow> None
      | c # r \<Rightarrow>
          (if c = CHR ''-'' then map_option (\<lambda>n. - int n) (parse_nat r)
           else if c = CHR ''+'' then map_option int (parse_nat r)
           else map_option int (parse_nat s)))"

section \<open>Lemmas\<close>

subsection \<open>Indexing\<close>

lemma py_index0_Nil [simp, py_simps]: "py_index0 [] = Inl IndexError"
  by (simp add: py_index0_def)

lemma py_index0_Cons [simp, py_simps]: "py_index0 (x # xs) = Inr x"
  by (simp add: py_index0_def)

lemma py_index0_Inr_iff: "py_index0 xs = Inr x \<longleftrightarrow> xs \<noteq> [] \<and> x = hd xs"
  by (cases xs) auto

lemma py_index0_Inl_iff: "py_index0 xs = Inl e \<longleftrightarrow> xs = [] \<and> e = IndexError"
  by (cases xs) auto

subsection \<open>Split and join\<close>

lemma py_split_ne [simp]: "py_split c s \<noteq> []"
  by (cases s) (simp_all add: Let_def)

lemma py_split_Cons_other:
  "x \<noteq> c \<Longrightarrow> py_split c (x # xs) = (x # hd (py_split c xs)) # tl (py_split c xs)"
  by (simp add: Let_def)

lemma py_split_pieces: "p \<in> set (py_split c s) \<Longrightarrow> c \<notin> set p"
proof (induction s arbitrary: p)
  case Nil
  then show ?case by simp
next
  case (Cons x xs)
  let ?ps = "py_split c xs"
  have hd_in: "hd ?ps \<in> set ?ps" by simp
  have tl_sub: "set (tl ?ps) \<subseteq> set ?ps" by (cases ?ps) auto
  show ?case
  proof (cases "x = c")
    case True
    with Cons show ?thesis by auto
  next
    case False
    with Cons.prems have "p = x # hd ?ps \<or> p \<in> set (tl ?ps)"
      by (simp add: Let_def)
    with False Cons.IH hd_in tl_sub show ?thesis by auto
  qed
qed

lemma str_join_Cons_append:
  "str_join sep ((a @ p) # ps) = a @ str_join sep (p # ps)"
  by (cases ps) simp_all

lemma str_join_hd_tl:
  "ps \<noteq> [] \<Longrightarrow> str_join sep ((x # hd ps) # tl ps) = x # str_join sep ps"
  using str_join_Cons_append [of sep "[x]" "hd ps" "tl ps"] by simp

lemma str_join_py_split: "str_join [c] (py_split c s) = s"
proof (induction s)
  case Nil
  then show ?case by simp
next
  case (Cons x xs)
  then show ?case
  proof (cases "x = c")
    case True
    have "py_split c xs = hd (py_split c xs) # tl (py_split c xs)" by simp
    then have "str_join [c] ([] # py_split c xs) = c # str_join [c] (py_split c xs)"
      using True by (metis append.left_neutral append_Cons str_join.simps(3))
    with True Cons.IH show ?thesis by simp
  next
    case False
    with Cons.IH show ?thesis by (simp add: Let_def str_join_hd_tl)
  qed
qed

subsection \<open>Digits and the int round trip\<close>

declare nat_str.simps [simp del]

lemma digit_lt10_cases:
  "d < (10::nat) \<Longrightarrow>
     d = 0 \<or> d = 1 \<or> d = 2 \<or> d = 3 \<or> d = 4 \<or> d = 5 \<or> d = 6 \<or> d = 7 \<or> d = 8 \<or> d = 9"
  by presburger

lemma digit_val_digit_char [simp]: "d < 10 \<Longrightarrow> digit_val (digit_char d) = d"
  by (auto simp: digit_val_def digit_char_def dest!: digit_lt10_cases)

lemma is_digit_digit_char [simp]: "d < 10 \<Longrightarrow> is_digit (digit_char d)"
  by (auto simp: is_digit_def digit_char_def dest!: digit_lt10_cases)

lemma nat_str_0: "nat_str 0 = ''0''"
  by (subst nat_str.simps) (simp add: digit_char_def)

lemma nat_str_1: "nat_str 1 = ''1''"
  by (subst nat_str.simps) (simp add: digit_char_def)

lemma nat_str_numeral:
  "nat_str (numeral k) =
     (if numeral k < (10::nat) then [digit_char (numeral k)]
      else nat_str (numeral k div 10) @ [digit_char (numeral k mod 10)])"
  by (rule nat_str.simps)

text \<open>Evaluation of \<open>nat_str\<close> on numerals only: unlike \<open>nat_str.simps\<close> these rules do
  not unfold a symbolic argument.\<close>

lemmas nat_str_eval = nat_str_0 nat_str_1 nat_str_1 [unfolded One_nat_def] nat_str_numeral digit_char_def

lemma nat_str_ne [simp]: "nat_str n \<noteq> []"
  by (subst nat_str.simps) simp

lemma nat_str_digits: "list_all is_digit (nat_str n)"
proof (induction n rule: nat_str.induct)
  case (1 n)
  then show ?case by (subst nat_str.simps) simp
qed

lemma nat_of_digits_snoc:
  "nat_of_digits (s @ [c]) = 10 * nat_of_digits s + digit_val c"
  by (simp add: nat_of_digits_def)

lemma nat_of_digits_nat_str [simp]: "nat_of_digits (nat_str n) = n"
proof (induction n rule: nat_str.induct)
  case (1 n)
  show ?case
  proof (cases "n < 10")
    case True
    then show ?thesis by (subst nat_str.simps) (simp add: nat_of_digits_def)
  next
    case False
    with "1.IH" show ?thesis by (subst nat_str.simps) (simp add: nat_of_digits_snoc)
  qed
qed

lemma parse_nat_nat_str [simp]: "parse_nat (nat_str n) = Some n"
  by (simp add: parse_nat_def nat_str_digits)

lemma nat_str_hd_digit: "is_digit (hd (nat_str n))"
  using nat_str_digits [of n] by (cases "nat_str n") auto

lemma sign_not_digit [simp]: "\<not> is_digit CHR ''-''" "\<not> is_digit CHR ''+''"
  by (simp_all add: is_digit_def)

lemma parse_int_int_str [simp]: "parse_int (int_str i) = Some i"
proof (cases "i < 0")
  case True
  then show ?thesis by (simp add: int_str_def parse_int_def)
next
  case False
  obtain c r where cr: "nat_str (nat i) = c # r"
    using nat_str_ne by (cases "nat_str (nat i)") auto
  have "is_digit c" using nat_str_hd_digit [of "nat i"] cr by simp
  then have "c \<noteq> CHR ''-''" "c \<noteq> CHR ''+''" by auto
  have "parse_nat (c # r) = Some (nat i)"
    using parse_nat_nat_str [of "nat i"] cr by simp
  with False cr \<open>c \<noteq> CHR ''-''\<close> \<open>c \<noteq> CHR ''+''\<close> show ?thesis
    by (simp add: int_str_def parse_int_def)
qed

lemma int_str_nonneg: "0 \<le> i \<Longrightarrow> int_str i = nat_str (nat i)"
  by (simp add: int_str_def)

lemma int_str_inj: "int_str i = int_str j \<Longrightarrow> i = j"
  by (metis option.inject parse_int_int_str)

end
