(* ===== verification/Currency.thy ===== *)
theory Currency
  imports Py_Prelude
begin

text \<open>
  The currency converter of \<^verbatim>\<open>src/main.py\<close>: the wallet entries returned by the game
  API (\<^verbatim>\<open>api.account.wallet()\<close>), the selection of the gold entry
  (\<^verbatim>\<open>[x for x in wallet if x.id == 1]\<close> and \<^verbatim>\<open>gold_obj[0]\<close>) and the conversion of a
  copper amount into whole gold coins (\<^verbatim>\<open>// (100 * 100)\<close>), which both handlers apply to
  the wallet balance and to market prices. Python's \<^verbatim>\<open>//\<close> rounds towards minus
  infinity, as HOL's \<open>div\<close> on \<open>int\<close> does, and Python ints do not overflow, so the
  model is on \<open>int\<close>.
\<close>

record wallet_entry =
  entry_id :: int
  entry_value :: int

definition gold_currency_id :: int where
  "gold_currency_id = 1"

definition copper_to_gold :: "int \<Rightarrow> int" where
  "copper_to_gold c = c div (100 * 100)"

definition gold_entries :: "wallet_entry list \<Rightarrow> wallet_entry list" where
  "gold_entries wallet = [x \<leftarrow> wallet. entry_id x = gold_currency_id]"

definition gold_amount :: "wallet_entry list \<Rightarrow> int result" where
  "gold_amount wallet =
     (case py_index0 (gold_entries wallet) of
        Inl e \<Rightarrow> Inl e
      | Inr g \<Rightarrow> Inr (copper_to_gold (entry_value g)))"

section \<open>Lemmas\<close>

lemma copper_to_gold_div [simp]: "copper_to_gold c = c div 10000"
  by (simp add: copper_to_gold_def)

lemma div_10000_unique:
  "q * 10000 \<le> (c::int) \<Longrightarrow> c < (q + 1) * 10000 \<Longrightarrow> c div 10000 = q"
  by simp

lemma gold_entries_append:
  "gold_entries (xs @ ys) = gold_entries xs @ gold_entries ys"
  by (simp add: gold_entries_def)

lemma gold_entries_Nil_iff:
  "gold_entries w = [] \<longleftrightarrow> (\<forall>x \<in> set w. entry_id x \<noteq> gold_currency_id)"
  by (auto simp: gold_entries_def filter_empty_conv)

lemma gold_amount_Inr_iff:
  "gold_amount w = Inr g \<longleftrightarrow>
     gold_entries w \<noteq> [] \<and> g = copper_to_gold (entry_value (hd (gold_entries w)))"
  by (cases "gold_entries w") (auto simp: gold_amount_def simp del: copper_to_gold_div)

text \<open>C5: the conversion is Python's floor division by 10000 on every int, negative
  ones included: the result is the unique \<open>q\<close> with \<open>10000 q \<le> c < 10000 (q + 1)\<close>.\<close>

theorem copper_to_gold_floor:
  "copper_to_gold c = q \<longleftrightarrow> q * 10000 \<le> c \<and> c < (q + 1) * 10000"
proof
  assume "copper_to_gold c = q"
  moreover have "c div 10000 * 10000 \<le> c \<and> c < (c div 10000 + 1) * 10000"
    by presburger
  ultimately show "q * 10000 \<le> c \<and> c < (q + 1) * 10000" by simp
next
  assume "q * 10000 \<le> c \<and> c < (q + 1) * 10000"
  then show "copper_to_gold c = q" using div_10000_unique [of q c] by simp
qed

text \<open>C6: the balance shown is the first wallet entry with currency id 1, converted to
  whole gold coins; entries of other currencies before it, and any entry after it, are
  ignored.\<close>

theorem gold_amount_first:
  assumes "\<forall>y \<in> set pre. entry_id y \<noteq> gold_currency_id"
    and "entry_id x = gold_currency_id"
  shows "gold_amount (pre @ x # post) = Inr (copper_to_gold (entry_value x))"
proof -
  from assms(1) have "gold_entries pre = []" by (simp add: gold_entries_Nil_iff)
  with assms(2) have "gold_entries (pre @ x # post) = x # gold_entries post"
    by (simp add: gold_entries_append gold_entries_def)
  then show ?thesis by (simp add: gold_amount_def del: copper_to_gold_div)
qed

theorem gold_amount_first_witness:
  "gold_amount [\<lparr>entry_id = 2, entry_value = 7\<rparr>, \<lparr>entry_id = 1, entry_value = 123456\<rparr>,
                \<lparr>entry_id = 1, entry_value = 99999\<rparr>] = Inr 12"
  using gold_amount_first [of "[\<lparr>entry_id = 2, entry_value = 7\<rparr>]"
      "\<lparr>entry_id = 1, entry_value = 123456\<rparr>" "[\<lparr>entry_id = 1, entry_value = 99999\<rparr>]"]
  by (simp add: gold_currency_id_def)

text \<open>C7: the lookup \<^verbatim>\<open>gold_obj[0]\<close> fails with IndexError exactly when the wallet has
  no entry for currency id 1; the code does not guard it.\<close>

theorem gold_amount_missing:
  "gold_amount w = Inl e \<longleftrightarrow> e = IndexError \<and> (\<forall>x \<in> set w. entry_id x \<noteq> gold_currency_id)"
  by (cases "gold_entries w")
     (auto simp: gold_amount_def gold_entries_Nil_iff [symmetric] simp del: copper_to_gold_div)

theorem gold_amount_missing_witness:
  "gold_amount [\<lparr>entry_id = 2, entry_value = 5\<rparr>, \<lparr>entry_id = 3, entry_value = 40000\<rparr>] =
     Inl IndexError"
  using gold_amount_missing [of "[\<lparr>entry_id = 2, entry_value = 5\<rparr>, \<lparr>entry_id = 3, entry_value = 40000\<rparr>]"
      IndexError]
  by (simp add: gold_currency_id_def)

text \<open>A non-negative copper amount gives a non-negative gold amount no larger than
  it; the spec's boundary values 9999, 10000 and 19999 give 0, 1 and 1.\<close>

theorem copper_to_gold_nonneg:
  "0 \<le> c \<Longrightarrow> 0 \<le> copper_to_gold c \<and> copper_to_gold c \<le> c"
  unfolding copper_to_gold_div by linarith

theorem copper_to_gold_nonneg_witness:
  "0 \<le> copper_to_gold 19999 \<and> copper_to_gold 19999 \<le> 19999 \<and>
   copper_to_gold 9999 = 0 \<and> copper_to_gold 10000 = 1 \<and> copper_to_gold 19999 = 1"
  using copper_to_gold_nonneg [of 19999] by simp

end
