(* ===== verification/Prices.thy ===== *)
theory Prices
  imports Currency
begin

text \<open>
  The price target resolver of \<^verbatim>\<open>src/main.py\<close> (lines 105-112 in \<^verbatim>\<open>/gold\<close>, 222-229 in
  \<^verbatim>\<open>/gold_data\<close>): the reply of \<^verbatim>\<open>api.commerce.prices\<close> is a pygw2 \<^verbatim>\<open>Price\<close>, a list of
  them, or some other value; a list is replaced by its first element (raising IndexError
  when it is empty); a buy listing with a non-zero unit price sets the target, and a sell
  listing with a non-zero unit price then overrides it. Python's truth test
  \<^verbatim>\<open>prices.buys and prices.buys.unit_price\<close> fails for an absent listing and for a unit
  price of 0, which the model writes as \<open>unit_price x \<noteq> 0\<close>.

  Beside the code sits the specification of section 4.3 of the spec: a \<open>quote\<close> with an
  optional buy and sell price, and \<open>spec_target\<close>, which prefers the sell price, then
  the buy price, then the fallback. \<open>quote_of\<close> abstracts a pygw2 price to a quote (a
  zero unit price reads as absent), and \<open>resolve_target_refines\<close> shows that the code
  implements the specification through this abstraction.
\<close>

record listing =
  quantity :: int
  unit_price :: int

record price =
  price_id :: int
  buys :: "listing option"
  sells :: "listing option"

datatype prices_reply = PriceObj price | PriceList "price list" | OtherReply

definition first_price :: "prices_reply \<Rightarrow> price option result" where
  "first_price r =
     (case r of
        PriceObj p \<Rightarrow> Inr (Some p)
      | PriceList ps \<Rightarrow> (case py_index0 ps of Inl e \<Rightarrow> Inl e | Inr p \<Rightarrow> Inr (Some p))
      | OtherReply \<Rightarrow> Inr None)"

definition listing_target :: "listing option \<Rightarrow> int \<Rightarrow> int" where
  "listing_target l target =
     (case l of
        None \<Rightarrow> target
      | Some x \<Rightarrow> (if unit_price x \<noteq> 0 then copper_to_gold (unit_price x) else target))"

definition resolve_target :: "prices_reply \<Rightarrow> int \<Rightarrow> int result" where
  "resolve_target r target =
     (case first_price r of
        Inl e \<Rightarrow> Inl e
      | Inr None \<Rightarrow> Inr target
      | Inr (Some p) \<Rightarrow>
          (let target = listing_target (buys p) target
           in Inr (listing_target (sells p) target)))"

section \<open>The specification of section 4.3\<close>

record quote =
  q_buy :: "int option"
  q_sell :: "int option"

definition spec_target :: "quote option \<Rightarrow> int \<Rightarrow> int" where
  "spec_target q fallback =
     (case q of
        None \<Rightarrow> fallback
      | Some q \<Rightarrow>
          (case q_sell q of
             Some s \<Rightarrow> s div 10000
           | None \<Rightarrow> (case q_buy q of Some b \<Rightarrow> b div 10000 | None \<Rightarrow> fallback)))"

definition listing_quote :: "listing option \<Rightarrow> int option" where
  "listing_quote l =
     (case l of None \<Rightarrow> None | Some x \<Rightarrow> (if unit_price x \<noteq> 0 then Some (unit_price x) else None))"

definition quote_of :: "price \<Rightarrow> quote" where
  "quote_of p = \<lparr>q_buy = listing_quote (buys p), q_sell = listing_quote (sells p)\<rparr>"

section \<open>Lemmas\<close>

lemma listing_target_quote:
  "listing_target l t = (case listing_quote l of None \<Rightarrow> t | Some v \<Rightarrow> v div 10000)"
  by (simp add: listing_target_def listing_quote_def split: option.split)

lemma first_price_simps [simp]:
  "first_price (PriceObj p) = Inr (Some p)"
  "first_price (PriceList []) = Inl IndexError"
  "first_price (PriceList (p # ps)) = Inr (Some p)"
  "first_price OtherReply = Inr None"
  by (simp_all add: first_price_def)

lemma resolve_target_price:
  "first_price r = Inr (Some p) \<Longrightarrow>
   resolve_target r t = Inr (spec_target (Some (quote_of p)) t)"
  by (simp add: resolve_target_def spec_target_def quote_of_def listing_target_quote
      split: option.split)

text \<open>C1: the resolver of the code implements the policy of the spec's section 4.3 on
  the quote abstracted from the reply's first price: sell price if present, else buy
  price, else the caller's fallback, each converted by floor division by 10000; an
  exception of the reply's normalisation is passed through unchanged.\<close>

theorem resolve_target_refines:
  "resolve_target r fallback =
     (case first_price r of
        Inl e \<Rightarrow> Inl e
      | Inr q \<Rightarrow> Inr (spec_target (map_option quote_of q) fallback))"
  by (cases "first_price r")
     (auto simp: resolve_target_def spec_target_def quote_of_def listing_target_quote
           split: option.split)

text \<open>When the first price has a sell listing with a non-zero unit price, the target
  is that price in gold, whatever the buy listing says (sell overrides buy); with
  buy 50000 and sell 80000 copper the target is 8, not 5.\<close>

theorem resolve_target_sell_wins:
  assumes "first_price r = Inr (Some p)" and "sells p = Some s" and "unit_price s \<noteq> 0"
  shows "resolve_target r fallback = Inr (copper_to_gold (unit_price s))"
  using assms by (simp add: resolve_target_price spec_target_def quote_of_def listing_quote_def)

theorem resolve_target_sell_wins_witness:
  "resolve_target (PriceObj \<lparr>price_id = 19721,
       buys = Some \<lparr>quantity = 3, unit_price = 50000\<rparr>,
       sells = Some \<lparr>quantity = 4, unit_price = 80000\<rparr>\<rparr>) 0 = Inr 8"
  using resolve_target_sell_wins [of "PriceObj \<lparr>price_id = 19721,
       buys = Some \<lparr>quantity = 3, unit_price = 50000\<rparr>,
       sells = Some \<lparr>quantity = 4, unit_price = 80000\<rparr>\<rparr>" _ "\<lparr>quantity = 4, unit_price = 80000\<rparr>" 0]
  by simp

text \<open>When the first price has no usable sell listing (absent, or a unit price of 0)
  and a buy listing with a non-zero unit price, the target is the buy price in gold;
  buy 200000 with sell 0 gives 20.\<close>

theorem resolve_target_buy_only:
  assumes "first_price r = Inr (Some p)" and "listing_quote (sells p) = None"
    and "buys p = Some b" and "unit_price b \<noteq> 0"
  shows "resolve_target r fallback = Inr (copper_to_gold (unit_price b))"
  using assms by (simp add: resolve_target_price spec_target_def quote_of_def listing_quote_def)

theorem resolve_target_buy_only_witness:
  "resolve_target (PriceList [\<lparr>price_id = 24,
       buys = Some \<lparr>quantity = 1, unit_price = 200000\<rparr>,
       sells = Some \<lparr>quantity = 0, unit_price = 0\<rparr>\<rparr>]) 7 = Inr 20"
  using resolve_target_buy_only [of "PriceList [\<lparr>price_id = 24,
       buys = Some \<lparr>quantity = 1, unit_price = 200000\<rparr>,
       sells = Some \<lparr>quantity = 0, unit_price = 0\<rparr>\<rparr>]" _ "\<lparr>quantity = 1, unit_price = 200000\<rparr>" 7]
  by (simp add: listing_quote_def)

text \<open>Without usable quote data (a reply that is not a price, or a price whose
  listings are absent or zero) the target is the caller's fallback.\<close>

theorem resolve_target_fallback:
  assumes "first_price r = Inr None \<or>
           (\<exists>p. first_price r = Inr (Some p) \<and> quote_of p = \<lparr>q_buy = None, q_sell = None\<rparr>)"
  shows "resolve_target r fallback = Inr fallback"
  using assms
proof (elim disjE exE conjE)
  assume "first_price r = Inr None"
  then show ?thesis by (simp add: resolve_target_def)
next
  fix p assume "first_price r = Inr (Some p)" and "quote_of p = \<lparr>q_buy = None, q_sell = None\<rparr>"
  then show ?thesis by (simp add: resolve_target_price spec_target_def)
qed

theorem resolve_target_fallback_witness:
  "resolve_target OtherReply 42 = Inr 42 \<and>
   resolve_target (PriceObj \<lparr>price_id = 1, buys = None,
       sells = Some \<lparr>quantity = 0, unit_price = 0\<rparr>\<rparr>) 42 = Inr 42"
  using resolve_target_fallback [of OtherReply 42]
    resolve_target_fallback [of "PriceObj \<lparr>price_id = 1, buys = None,
       sells = Some \<lparr>quantity = 0, unit_price = 0\<rparr>\<rparr>" 42]
  by (simp_all add: quote_of_def listing_quote_def)

text \<open>C12: a list reply behaves exactly as its first element given directly; the rest of
  the list is never looked at.\<close>

theorem resolve_target_list_head:
  "resolve_target (PriceList (p # ps)) fallback = resolve_target (PriceObj p) fallback"
  by (simp add: resolve_target_def)

text \<open>C13: the resolver fails only on an empty list reply, and then with IndexError
  (\<^verbatim>\<open>prices[0]\<close> is not guarded).\<close>

theorem resolve_target_error:
  "resolve_target r fallback = Inl e \<longleftrightarrow> r = PriceList [] \<and> e = IndexError"
  by (cases r rule: prices_reply.exhaust, simp_all add: resolve_target_def,
      rename_tac ps, case_tac ps, auto simp: Let_def)

text \<open>With a non-negative fallback and non-negative market prices the target is
  non-negative, as the data model of the spec requires of display amounts.\<close>

theorem resolve_target_nonneg:
  assumes "0 \<le> fallback"
    and "\<forall>p. first_price r = Inr (Some p) \<longrightarrow>
           (\<forall>v. listing_quote (buys p) = Some v \<or> listing_quote (sells p) = Some v \<longrightarrow> 0 \<le> v)"
    and "resolve_target r fallback = Inr t"
  shows "0 \<le> t"
proof (cases "first_price r")
  case (Inl e)
  with assms(3) show ?thesis by (simp add: resolve_target_def)
next
  case (Inr q)
  show ?thesis
  proof (cases q)
    case None
    with Inr assms(1,3) show ?thesis by (simp add: resolve_target_def)
  next
    case (Some p)
    with Inr assms(2)
    have nb: "\<And>v. listing_quote (buys p) = Some v \<Longrightarrow> 0 \<le> v"
      and ns: "\<And>v. listing_quote (sells p) = Some v \<Longrightarrow> 0 \<le> v"
      by blast+
    from Inr Some assms(3) have "t = spec_target (Some (quote_of p)) fallback"
      by (simp add: resolve_target_price)
    with nb ns assms(1) show ?thesis
      by (auto simp: spec_target_def quote_of_def pos_imp_zdiv_nonneg_iff split: option.splits)
  qed
qed

theorem resolve_target_nonneg_witness:
  "0 \<le> (20::int) \<and> resolve_target (PriceObj \<lparr>price_id = 24,
       buys = Some \<lparr>quantity = 1, unit_price = 200000\<rparr>, sells = None\<rparr>) 3 = Inr 20"
proof -
  have r: "resolve_target (PriceObj \<lparr>price_id = 24,
       buys = Some \<lparr>quantity = 1, unit_price = 200000\<rparr>, sells = None\<rparr>) 3 = Inr 20"
    by (simp add: resolve_target_def listing_target_def)
  have "0 \<le> (20::int)"
    using resolve_target_nonneg [OF _ _ r] by (simp add: listing_quote_def)
  with r show ?thesis by simp
qed

end
