(* ===== verification/Number_Format.thy ===== *)
theory Number_Format
  imports Py_Prelude
begin

text \<open>
  The locale-aware integer formatting that \<^verbatim>\<open>src/main.py\<close> asks for with the format
  spec \<^verbatim>\<open>n\<close> (\<^verbatim>\<open>{gold_amount:n}\<close>, \<^verbatim>\<open>{target:n}\<close>, lines 116, 132, 232-233). Python
  takes the thousands separator and the grouping of the active \<^verbatim>\<open>LC_NUMERIC\<close> locale
  (\<^verbatim>\<open>localeconv()\<close>) and inserts the separator between digit groups counted from the
  right; the sign is written before the grouped digits. The grouping is C's
  \<^verbatim>\<open>grouping\<close> string: each entry is the size of the next group, the end of the string
  repeats the previous size (an empty string: no grouping), and \<^verbatim>\<open>CHAR_MAX\<close> stops
  grouping, the remaining digits forming one group. \<open>group_next\<close> is CPython's
  \<^verbatim>\<open>GroupGenerator_next\<close> and \<open>group_digits\<close> the loop of
  \<^verbatim>\<open>_PyUnicode_InsertThousandsGrouping\<close>, on the digits written least significant
  first. This is library behaviour the program relies on, not code of the repository; it
  is modelled because the values the overlay shows are its output.
\<close>

record lconv =
  thousands_sep :: string
  grouping :: "nat list"

definition c_lconv :: lconv where
  "c_lconv = \<lparr>thousands_sep = [], grouping = []\<rparr>"

definition char_max :: nat where
  "char_max = 127"

fun group_next :: "nat list \<Rightarrow> nat \<Rightarrow> nat \<times> nat list \<times> nat" where
  "group_next [] prev = (prev, [], prev)"
| "group_next (g # gs) prev =
     (if g = 0 then (prev, g # gs, prev)
      else if g = char_max then (0, g # gs, prev)
      else (g, gs, g))"

function group_digits :: "nat list \<Rightarrow> nat \<Rightarrow> char list \<Rightarrow> char list list" where
  "group_digits gs prev ds =
     (case group_next gs prev of
        (l, gs', prev') \<Rightarrow>
          (if l = 0 \<or> length ds \<le> l then [ds]
           else take l ds # group_digits gs' prev' (drop l ds)))"
  by pat_completeness auto
termination
  by (relation "measure (\<lambda>(gs, prev, ds). length ds)") auto

declare group_digits.simps [simp del]

definition format_n :: "lconv \<Rightarrow> int \<Rightarrow> string" where
  "format_n lc i =
     (let groups = group_digits (grouping lc) 0 (rev (nat_str (nat \<bar>i\<bar>)))
      in (if i < 0 then ''-'' else []) @ str_join (thousands_sep lc) (rev (map rev groups)))"

text \<open>The numeric conventions of glibc's \<^verbatim>\<open>en_US\<close> locale, used by the examples.\<close>

definition en_US_lconv :: lconv where
  "en_US_lconv = \<lparr>thousands_sep = '','', grouping = [3, 3]\<rparr>"

section \<open>Lemmas\<close>

lemma group_digits_concat: "concat (group_digits gs prev ds) = ds"
proof (induction gs prev ds rule: group_digits.induct)
  case (1 gs prev ds)
  obtain l gs' prev' where g: "group_next gs prev = (l, gs', prev')"
    by (cases "group_next gs prev") auto
  with "1.IH" show ?case
    by (subst group_digits.simps) (simp add: g)
qed

lemma group_digits_ne [simp]: "group_digits gs prev ds \<noteq> []"
  by (subst group_digits.simps) (simp split: prod.split)

lemma group_digits_set: "p \<in> set (group_digits gs prev ds) \<Longrightarrow> set p \<subseteq> set ds"
proof -
  assume "p \<in> set (group_digits gs prev ds)"
  then have "set p \<subseteq> set (concat (group_digits gs prev ds))" by auto
  then show ?thesis by (simp only: group_digits_concat)
qed

lemma filter_str_join:
  "filter P sep = [] \<Longrightarrow> filter P (str_join sep ps) = concat (map (filter P) ps)"
  by (induction sep ps rule: str_join.induct) simp_all

lemma format_n_sign:
  "format_n lc i = (if i < 0 then ''-'' else []) @
     str_join (thousands_sep lc) (rev (map rev (group_digits (grouping lc) 0 (rev (nat_str (nat \<bar>i\<bar>))))))"
  by (simp add: format_n_def Let_def)

lemma sign_nat_str_abs: "(if i < 0 then ''-'' else []) @ nat_str (nat \<bar>i\<bar>) = int_str i"
  by (simp add: int_str_def)

lemma concat_rev_map_rev: "concat (rev (map rev xss)) = rev (concat xss)"
  by (induction xss) simp_all

lemmas format_eval = format_n_def nat_str_eval group_digits.simps char_max_def

lemma group_digits_Nil_prev:
  "0 < g \<Longrightarrow> group_digits [] g ds =
     (if length ds \<le> g then [ds] else take g ds # group_digits [] g (drop g ds))"
  by (subst group_digits.simps) simp

lemma group_digits_no_grouping: "group_digits [] 0 ds = [ds]"
  by (subst group_digits.simps) simp

lemma group_digits_uniform:
  assumes "set gs \<subseteq> {g}" and "0 < g" and "g \<noteq> char_max" and "gs \<noteq> [] \<or> prev = g"
  shows "group_digits gs prev ds = group_digits [] g ds"
  using assms
proof (induction gs prev ds rule: group_digits.induct)
  case (1 gs prev ds)
  show ?case
  proof (cases gs)
    case Nil
    with "1.prems" show ?thesis by simp
  next
    case (Cons h gs')
    with "1.prems" have h: "h = g" and gs': "set gs' \<subseteq> {g}" by auto
    with Cons "1.prems" have next_eq: "group_next gs prev = (g, gs', g)" by simp
    have IH: "\<not> (g = 0 \<or> length ds \<le> g) \<Longrightarrow>
        group_digits gs' g (drop g ds) = group_digits [] g (drop g ds)"
      using "1.IH" [OF next_eq [symmetric] refl] gs' "1.prems"(2,3) by blast
    show ?thesis
    proof (cases "length ds \<le> g")
      case True
      with next_eq "1.prems"(2) show ?thesis
        by (simp add: group_digits.simps [of gs] group_digits_Nil_prev)
    next
      case False
      with next_eq IH "1.prems"(2) show ?thesis
        by (simp add: group_digits.simps [of gs] group_digits_Nil_prev [of g ds])
    qed
  qed
qed

lemma group_digits_Nil_sizes:
  assumes "0 < g" and "ds \<noteq> []"
  shows "(\<forall>p \<in> set (butlast (group_digits [] g ds)). length p = g) \<and>
         0 < length (last (group_digits [] g ds)) \<and> length (last (group_digits [] g ds)) \<le> g"
  using assms(2)
proof (induction "length ds" arbitrary: ds rule: less_induct)
  case less
  show ?case
  proof (cases "length ds \<le> g")
    case True
    with less.prems assms(1) show ?thesis by (simp add: group_digits_Nil_prev)
  next
    case False
    with assms(1) have "length (drop g ds) < length ds" "drop g ds \<noteq> []" by auto
    with less.hyps have IH:
      "(\<forall>p \<in> set (butlast (group_digits [] g (drop g ds))). length p = g) \<and>
       0 < length (last (group_digits [] g (drop g ds))) \<and>
       length (last (group_digits [] g (drop g ds))) \<le> g"
      by blast
    from False assms(1) have eq: "group_digits [] g ds = take g ds # group_digits [] g (drop g ds)"
      by (simp add: group_digits_Nil_prev [of g ds])
    from False have "length (take g ds) = g" by simp
    with eq IH show ?thesis by simp
  qed
qed

lemma rev_map_rev_last:
  "xs \<noteq> [] \<Longrightarrow> rev (map rev xs) = rev (last xs) # rev (map rev (butlast xs))"
  by (cases xs rule: rev_exhaust) simp_all

text \<open>C15: in the C locale, which the process starts in and keeps when no language of the
  request can be activated, \<^verbatim>\<open>{n:n}\<close> prints the plain decimal \<^verbatim>\<open>str(n)\<close>.\<close>

theorem format_n_c_locale: "format_n c_lconv i = int_str i"
  by (simp add: format_n_def c_lconv_def group_digits_no_grouping sign_nat_str_abs)

text \<open>C16: removing the characters of the locale's thousands separator from the formatted
  amount gives back the decimal numeral of the amount, which reads back as the same int,
  whenever the separator contains no digit and no minus sign: the formatting only
  inserts separators.\<close>

theorem format_n_roundtrip:
  assumes "\<forall>c \<in> set (thousands_sep lc). \<not> is_digit c \<and> c \<noteq> CHR ''-''"
  shows "parse_int (filter (\<lambda>c. c \<notin> set (thousands_sep lc)) (format_n lc i)) = Some i"
proof -
  let ?P = "\<lambda>c. c \<notin> set (thousands_sep lc)"
  let ?ds = "rev (nat_str (nat \<bar>i\<bar>))"
  let ?G = "group_digits (grouping lc) 0 ?ds"
  have sep: "filter ?P (thousands_sep lc) = []" by (simp add: filter_empty_conv)
  have digits: "\<forall>c \<in> set ?ds. is_digit c"
    using nat_str_digits [of "nat \<bar>i\<bar>"] by (simp add: list_all_iff)
  have keep: "\<And>p. p \<in> set (rev (map rev ?G)) \<Longrightarrow> filter ?P p = p"
  proof -
    fix p assume "p \<in> set (rev (map rev ?G))"
    then obtain q where "q \<in> set ?G" and "p = rev q" by auto
    from \<open>q \<in> set ?G\<close> have "set q \<subseteq> set ?ds" by (rule group_digits_set)
    with \<open>p = rev q\<close> have "set p \<subseteq> set ?ds" by simp
    with digits assms show "filter ?P p = p" by (auto simp: filter_id_conv)
  qed
  have "filter ?P (str_join (thousands_sep lc) (rev (map rev ?G))) = concat (rev (map rev ?G))"
  proof -
    have "map (filter ?P) (rev (map rev ?G)) = rev (map rev ?G)"
      using keep by (rule map_idI)
    with sep show ?thesis by (simp only: filter_str_join)
  qed
  also have "\<dots> = nat_str (nat \<bar>i\<bar>)"
    by (simp add: concat_rev_map_rev group_digits_concat)
  finally have body: "filter ?P (str_join (thousands_sep lc) (rev (map rev ?G))) = nat_str (nat \<bar>i\<bar>)" .
  have sign: "filter ?P (if i < 0 then ''-'' else []) = (if i < 0 then ''-'' else [])"
    using assms by auto
  show ?thesis
    by (simp only: format_n_sign filter_append sign body sign_nat_str_abs parse_int_int_str)
qed

theorem format_n_roundtrip_witness:
  "format_n en_US_lconv (-1234567) = ''-1,234,567'' \<and>
   parse_int (filter (\<lambda>c. c \<notin> set '','') ''-1,234,567'') = Some (-1234567)"
proof -
  have f: "format_n en_US_lconv (-1234567) = ''-1,234,567''"
    by (simp add: en_US_lconv_def format_eval)
  have "parse_int (filter (\<lambda>c. c \<notin> set (thousands_sep en_US_lconv)) (format_n en_US_lconv (-1234567)))
        = Some (-1234567)"
    by (rule format_n_roundtrip) (simp add: en_US_lconv_def is_digit_def)
  with f show ?thesis by (simp add: en_US_lconv_def)
qed

text \<open>C17: with a grouping of one repeated size \<open>g\<close> (en_US and de_DE use 3), the
  formatted amount is the sign and the decimal digits split into groups joined by the
  separator, where every group but the leading one has exactly \<open>g\<close> digits and the
  leading one has between 1 and \<open>g\<close>.\<close>

theorem format_n_uniform_groups:
  assumes "set (grouping lc) \<subseteq> {g}" and "grouping lc \<noteq> []" and "0 < g" and "g \<noteq> char_max"
  shows "\<exists>ps. format_n lc i = (if i < 0 then ''-'' else []) @ str_join (thousands_sep lc) ps \<and>
              concat ps = nat_str (nat \<bar>i\<bar>) \<and> 0 < length (hd ps) \<and> length (hd ps) \<le> g \<and>
              (\<forall>p \<in> set (tl ps). length p = g)"
proof -
  let ?ds = "rev (nat_str (nat \<bar>i\<bar>))"
  let ?G = "group_digits [] g ?ds"
  have G: "group_digits (grouping lc) 0 ?ds = ?G"
    using group_digits_uniform [OF assms(1,3,4)] assms(2) by blast
  have ne: "?ds \<noteq> []" by simp
  have sizes: "(\<forall>p \<in> set (butlast ?G). length p = g) \<and> 0 < length (last ?G) \<and> length (last ?G) \<le> g"
    using group_digits_Nil_sizes [OF assms(3) ne] .
  let ?ps = "rev (map rev ?G)"
  have ps: "?ps = rev (last ?G) # rev (map rev (butlast ?G))"
    by (rule rev_map_rev_last) simp
  have "format_n lc i = (if i < 0 then ''-'' else []) @ str_join (thousands_sep lc) ?ps"
    by (simp only: format_n_sign G)
  moreover have "concat ?ps = nat_str (nat \<bar>i\<bar>)"
    by (simp add: concat_rev_map_rev group_digits_concat)
  moreover have "0 < length (hd ?ps) \<and> length (hd ?ps) \<le> g \<and> (\<forall>p \<in> set (tl ?ps). length p = g)"
  proof -
    have h: "hd ?ps = rev (last ?G)" and t: "tl ?ps = rev (map rev (butlast ?G))"
      by (simp_all only: ps list.sel)
    show ?thesis using sizes unfolding h t by auto
  qed
  ultimately show ?thesis by blast
qed

theorem format_n_uniform_groups_witness:
  "\<exists>ps. format_n en_US_lconv 1234567 = str_join '','' ps \<and> concat ps = ''1234567'' \<and>
        0 < length (hd ps) \<and> length (hd ps) \<le> 3"
proof -
  from format_n_uniform_groups [of en_US_lconv 3 1234567]
  obtain ps where "format_n en_US_lconv 1234567 = str_join '','' ps"
    and "concat ps = nat_str 1234567" and "0 < length (hd ps)" and "length (hd ps) \<le> 3"
    by (auto simp: en_US_lconv_def char_max_def)
  moreover have "nat_str 1234567 = ''1234567''"
    by (simp add: nat_str_eval)
  ultimately show ?thesis by auto
qed

end
