(* ===== verification/Locale_Resolver.thy ===== *)
theory Locale_Resolver
  imports Number_Format
begin

text \<open>
  The locale resolver of \<^verbatim>\<open>src/main.py\<close> (lines 90-97 in \<^verbatim>\<open>/gold\<close>, 210-217 in
  \<^verbatim>\<open>/gold_data\<close>). The \<^verbatim>\<open>Accept-Language\<close> header is split on commas and each entry
  cut at its first semicolon (\<open>parse_accept_language\<close>); then each language in turn is
  normalised with \<^verbatim>\<open>locale.normalize\<close> and activated with
  \<^verbatim>\<open>locale.setlocale(locale.LC_ALL, ...)\<close>, the loop stopping at the first activation that
  does not raise and ignoring every exception (\<open>activate_locale\<close>).

  The locale machinery of the C library is an interface: \<open>locale_sys\<close> holds
  \<^verbatim>\<open>locale.normalize\<close> as a function on strings and the set of installed locales as a map
  from locale names to their numeric conventions; \<^verbatim>\<open>setlocale\<close> succeeds exactly on the
  names of that map. The active locale is process-wide state: \<open>activate_locale\<close> takes the
  current conventions and returns the new ones. The lemmas hold for every
  \<open>locale_sys\<close>.
\<close>

record locale_sys =
  normalize :: "string \<Rightarrow> string"
  installed :: "string \<Rightarrow> lconv option"

definition parse_accept_language :: "string \<Rightarrow> string list" where
  "parse_accept_language h = map (\<lambda>x. hd (py_split CHR '';'' x)) (py_split CHR '','' h)"

fun activate_locale :: "locale_sys \<Rightarrow> string list \<Rightarrow> lconv \<Rightarrow> lconv" where
  "activate_locale ls [] cur = cur"
| "activate_locale ls (l # langs) cur =
     (case installed ls (normalize ls l) of
        Some c \<Rightarrow> c
      | None \<Rightarrow> activate_locale ls langs cur)"

definition activatable :: "locale_sys \<Rightarrow> string \<Rightarrow> bool" where
  "activatable ls l = (installed ls (normalize ls l) \<noteq> None)"

section \<open>Lemmas\<close>

lemma hd_py_split: "hd (py_split c s) = takeWhile (\<lambda>x. x \<noteq> c) s"
  by (induction s) (simp_all add: Let_def)

lemma length_py_split: "length (py_split c s) = length (filter (\<lambda>x. x = c) s) + 1"
proof (induction s)
  case Nil
  then show ?case by simp
next
  case (Cons x xs)
  have "py_split c xs \<noteq> []" by simp
  then have "length (tl (py_split c xs)) + 1 = length (py_split c xs)" by (cases "py_split c xs") auto
  with Cons show ?case by (simp add: Let_def)
qed

lemma activate_locale_none:
  "\<forall>l \<in> set langs. \<not> activatable ls l \<Longrightarrow> activate_locale ls langs cur = cur"
  by (induction langs) (auto simp: activatable_def)

lemma activate_locale_first:
  "\<forall>l' \<in> set pre. \<not> activatable ls l' \<Longrightarrow> installed ls (normalize ls l) = Some c \<Longrightarrow>
   activate_locale ls (pre @ l # post) cur = c"
  by (induction pre) (auto simp: activatable_def)

lemma activate_locale_absorb:
  "\<exists>l \<in> set langs. activatable ls l \<Longrightarrow> activate_locale ls langs cur = activate_locale ls langs cur'"
  by (induction langs) (auto simp: activatable_def split: option.split)

lemma activate_locale_cases:
  "activate_locale ls langs cur = cur \<or>
   (\<exists>l \<in> set langs. installed ls (normalize ls l) = Some (activate_locale ls langs cur))"
  by (induction langs) (auto split: option.split)

lemma activate_locale_ran:
  "activate_locale ls langs g = g \<or> activate_locale ls langs g \<in> ran (installed ls)"
  using activate_locale_cases [of ls langs g] by (auto intro: ranI)

text \<open>C18: the resolver activates the conventions of the first language of the list
  whose normalised name is an installed locale, skipping every language whose activation
  raises; when no language can be activated the previously active locale stays in effect.\<close>

theorem activate_locale_refines:
  "activate_locale ls langs cur =
     (case find (activatable ls) langs of
        None \<Rightarrow> cur
      | Some l \<Rightarrow> (case installed ls (normalize ls l) of None \<Rightarrow> cur | Some c \<Rightarrow> c))"
  by (induction langs) (auto simp: activatable_def split: option.split)

text \<open>C19: the language list is the header's comma-separated entries, in order, each cut
  before its first semicolon (the quality weight); there is one entry more than the
  header has commas, and no entry contains a comma or a semicolon.\<close>

theorem parse_accept_language_spec:
  "parse_accept_language h = map (takeWhile (\<lambda>c. c \<noteq> CHR '';'')) (py_split CHR '','' h) \<and>
   length (parse_accept_language h) = length (filter (\<lambda>c. c = CHR '','') h) + 1 \<and>
   (\<forall>l \<in> set (parse_accept_language h). CHR '','' \<notin> set l \<and> CHR '';'' \<notin> set l)"
proof (intro conjI)
  show eq: "parse_accept_language h = map (takeWhile (\<lambda>c. c \<noteq> CHR '';'')) (py_split CHR '','' h)"
    by (simp add: parse_accept_language_def hd_py_split)
  show "length (parse_accept_language h) = length (filter (\<lambda>c. c = CHR '','') h) + 1"
    by (simp add: parse_accept_language_def length_py_split)
  show "\<forall>l \<in> set (parse_accept_language h). CHR '','' \<notin> set l \<and> CHR '';'' \<notin> set l"
  proof
    fix l assume "l \<in> set (parse_accept_language h)"
    with eq obtain x where x: "x \<in> set (py_split CHR '','' h)" and l: "l = takeWhile (\<lambda>c. c \<noteq> CHR '';'') x"
      by auto
    from x have "CHR '','' \<notin> set x" by (rule py_split_pieces)
    moreover have "set l \<subseteq> set x" using l by (auto dest: set_takeWhileD)
    moreover have "CHR '';'' \<notin> set l" using l by (auto dest: set_takeWhileD)
    ultimately show "CHR '','' \<notin> set l \<and> CHR '';'' \<notin> set l" by auto
  qed
qed

theorem parse_accept_language_spec_witness:
  "length (parse_accept_language ''en-US,en;q=0.9,fi;q=0.8'') = 3 \<and>
   parse_accept_language ''en-US,en;q=0.9,fi;q=0.8'' = [''en-US'', ''en'', ''fi'']"
  using parse_accept_language_spec [of "''en-US,en;q=0.9,fi;q=0.8''"]
  by (simp add: py_split.simps Let_def)

lemma parse_accept_language_example:
  "parse_accept_language ''en-US,en;q=0.9,fi;q=0.8'' = [''en-US'', ''en'', ''fi'']"
  "parse_accept_language ''en-US, fi;q=0.8'' = [''en-US'', '' fi'']"
  by (simp_all add: parse_accept_language_def)

end
