(* ===== verification/Overlay_Templates.thy ===== *)
theory Overlay_Templates
  imports Py_Prelude
begin

text \<open>
  The presentation templates of the \<^verbatim>\<open>/gold\<close> handler of \<^verbatim>\<open>src/main.py\<close>, character for
  character: the item image (line 102), the two bodies (lines 114-119 and 130-134), the
  two parameter objects of the polling script (lines 123-128 and 136-141), the style
  sheet (143-168), the script (170-181) and the page (183-194). A triple-quoted f-string
  is its lines joined by newlines (\<open>text_lines\<close>), its first line empty; \<^verbatim>\<open>{{\<close> is a
  literal brace; a field \<^verbatim>\<open>{x}\<close> is the string \<open>x\<close> spliced in verbatim, an int field
  is \<open>int_str\<close>.

  The browser side of the script is modelled where a property depends on it:
  \<open>js_update_text\<close> is the text the script writes into the element (line 177), and
  \<open>js_string_value\<close> is the value a double-quoted JavaScript literal of the script
  denotes when the raw text between its quotes is spliced in by the f-string (lines
  125-126, 138-139, 172): the literal is read up to the first unescaped quote, a line
  break ending the script with a syntax error; the literal denotes a value only if it
  ends exactly where the template's closing quote stands. A backslash starts an escape
  sequence of the ECMAScript grammar in a non-strict script (\<open>js_escape\<close>): the
  single-character escapes \<^verbatim>\<open>\b \t \n \v \f \r\<close>, a line continuation (a backslash
  before LF, CR or CR LF denotes nothing), \<^verbatim>\<open>\xHH\<close>, \<^verbatim>\<open>\uHHHH\<close> and \<^verbatim>\<open>\u{H...}\<close>,
  the legacy octal escapes of Annex B (longest match, at most \<^verbatim>\<open>\377\<close>), and any other
  character standing for itself (\<^verbatim>\<open>\8\<close>, \<^verbatim>\<open>\9\<close>, \<^verbatim>\<open>\"\<close>, \<^verbatim>\<open>\\\<close> included); a
  malformed \<^verbatim>\<open>\x\<close> or \<^verbatim>\<open>\u\<close> is a syntax error. Characters are 8-bit throughout the
  model, so a \<^verbatim>\<open>\u\<close> escape denoting a code unit above U+00FF, which the model's strings
  cannot hold, is read as no value.
\<close>

definition newline :: char where
  "newline = CHR 0x0A"

definition text_lines :: "string list \<Rightarrow> string" where
  "text_lines ls = str_join [newline] ls"

definition img_tag :: "string \<Rightarrow> string" where
  \<open>img_tag icon = ''<img src="'' @ icon @ ''" />''\<close>

definition item_body :: "string \<Rightarrow> string \<Rightarrow> string \<Rightarrow> string \<Rightarrow> string" where
  \<open>item_body item_name gold target img = text_lines
     [ '''',
       ''        <div class="Row">'',
       ''        <div class="Column"><p class="Text" id="text">Gold for '' @ item_name @ '' '' @
           gold @ ''/'' @ target @ ''</p></div>'',
       ''        <div class="Column">'' @ img @ ''</div>'',
       ''        </div>'',
       ''        '' ]\<close>

definition plain_body :: "string \<Rightarrow> string \<Rightarrow> string \<Rightarrow> string" where
  \<open>plain_body txt gold target = text_lines
     [ '''',
       ''        <div class="Row">'',
       ''        <div class="Column"><p class="Text" id="text">'' @ txt @ '' '' @
           gold @ ''/'' @ target @ ''</p></div>'',
       ''        </div>'',
       ''        '' ]\<close>

definition item_params :: "string \<Rightarrow> string \<Rightarrow> string" where
  \<open>item_params apikey item = text_lines
     [ '''',
       ''        new URLSearchParams({'',
       ''            apikey: "'' @ apikey @ ''",'',
       ''            item: "'' @ item @ ''",'',
       ''        })'',
       ''        '' ]\<close>

definition target_params :: "string \<Rightarrow> int \<Rightarrow> string" where
  \<open>target_params apikey target = text_lines
     [ '''',
       ''        new URLSearchParams({'',
       ''            apikey: "'' @ apikey @ ''",'',
       ''            target: "'' @ int_str target @ ''"'',
       ''        })'',
       ''        '' ]\<close>

definition overlay_css :: string where
  \<open>overlay_css = text_lines
     [ '''',
       ''    <style>'',
       ''        .Row {'',
       ''        display: table;'',
       ''    }'',
       ''    .Column {'',
       ''        display: table-cell;'',
       ''        padding-left: 5px;'',
       ''        padding-right: 5px;'',
       ''        text-align: center;'',
       ''        vertical-align: middle;'',
       ''    }'',
       ''    .Text {'',
       ''        font-size: 2em;'',
       ''        color: #FFD700;'',
       ''        -webkit-text-stroke: 1px white;'',
       ''        font-family: "Lucida Console", "Courier New", monospace;'',
       ''        font-weight: bold;'',
       ''    }'',
       ''    '',
       ''    body {'',
       ''        background-color: transparent;'',
       ''    }'',
       '''',
       ''    </style>'',
       ''    '' ]\<close>

definition overlay_js :: "string \<Rightarrow> string \<Rightarrow> int \<Rightarrow> string" where
  \<open>overlay_js txt params interval = text_lines
     [ '''',
       ''    <script>'',
       ''    const text = "'' @ txt @ ''";'',
       ''    async function updateText() {'',
       ''        const textElem = document.getElementById("text");'',
       ''        const response = await fetch("/gold_data?" + '' @ params @ '');'',
       ''        const data = await response.json();'',
       ''        textElem.innerText = text + " " + data.current + "/" + data.target;'',
       ''    }'',
       ''    setInterval(updateText, '' @ int_str interval @ ''*1000)'',
       ''    </script>'',
       ''    '' ]\<close>

definition overlay_html :: "string \<Rightarrow> string \<Rightarrow> string \<Rightarrow> string" where
  \<open>overlay_html css js body = text_lines
     [ '''',
       ''        <html>'',
       ''            <head>'',
       ''                '' @ css,
       ''                '' @ js,
       ''                <title>Gold overlay</title>'',
       ''            </head>'',
       ''            <body>'',
       ''                '' @ body,
       ''            </body>'',
       ''        </html>'',
       ''        '' ]\<close>

definition js_update_text :: "string \<Rightarrow> string \<Rightarrow> string \<Rightarrow> string" where
  \<open>js_update_text txt current target = txt @ '' '' @ current @ ''/'' @ target\<close>

section \<open>The browser's reading of a string literal\<close>

definition text_marker :: string where
  \<open>text_marker = ''<p class="Text" id="text">''\<close>

definition dquote :: char where
  "dquote = CHR 0x22"

definition backslash :: char where
  "backslash = CHR 0x5C"

definition is_hex :: "char \<Rightarrow> bool" where
  "is_hex c = (let n = of_char c :: nat in 48 \<le> n \<and> n \<le> 57 \<or> 65 \<le> n \<and> n \<le> 70 \<or> 97 \<le> n \<and> n \<le> 102)"

definition hex_val :: "char \<Rightarrow> nat" where
  "hex_val c = (let n = of_char c :: nat in if n \<le> 57 then n - 48 else if n \<le> 70 then n - 55 else n - 87)"

definition hexs_val :: "string \<Rightarrow> nat" where
  "hexs_val ds = foldl (\<lambda>v d. 16 * v + hex_val d) 0 ds"

definition is_oct :: "char \<Rightarrow> bool" where
  "is_oct c = (let n = of_char c :: nat in 48 \<le> n \<and> n \<le> 55)"

definition octs_val :: "string \<Rightarrow> nat" where
  "octs_val ds = foldl (\<lambda>v d. 8 * v + (of_char d - 48)) 0 ds"

definition js_single_escape :: "char \<Rightarrow> char" where
  "js_single_escape d =
     (if d = CHR ''b'' then CHR 0x08 else if d = CHR ''t'' then CHR 0x09
      else if d = CHR ''n'' then CHR 0x0A else if d = CHR ''v'' then CHR 0x0B
      else if d = CHR ''f'' then CHR 0x0C else if d = CHR ''r'' then CHR 0x0D else d)"

definition js_code_unit :: "nat \<Rightarrow> string \<Rightarrow> (string \<times> string) option" where
  "js_code_unit n r = (if n < 256 then Some ([char_of n], r) else None)"

definition js_unicode_escape :: "string \<Rightarrow> (string \<times> string) option" where
  "js_unicode_escape ds =
     (if ds \<noteq> [] \<and> hd ds = CHR ''{'' then
        (let h = takeWhile is_hex (tl ds); r = dropWhile is_hex (tl ds) in
         if h \<noteq> [] \<and> hexs_val h \<le> 0x10FFFF \<and> r \<noteq> [] \<and> hd r = CHR ''}''
         then js_code_unit (hexs_val h) (tl r) else None)
      else if 4 \<le> length ds \<and> list_all is_hex (take 4 ds) then js_code_unit (hexs_val (take 4 ds)) (drop 4 ds)
      else None)"

definition js_legacy_octal :: "char \<Rightarrow> string \<Rightarrow> (string \<times> string) option" where
  "js_legacy_octal d ds =
     (let more = take (if of_char d \<le> (51::nat) then 2 else 1) (takeWhile is_oct ds)
      in Some ([char_of (octs_val (d # more))], drop (length more) ds))"

fun js_escape :: "string \<Rightarrow> (string \<times> string) option" where
  "js_escape [] = None"
| "js_escape (d # ds) =
     (if d = newline then Some ([], ds)
      else if d = CHR 0x0D then Some ([], (case ds of e # es \<Rightarrow> if e = newline then es else ds | [] \<Rightarrow> []))
      else if d = CHR ''x'' then
        (if 2 \<le> length ds \<and> list_all is_hex (take 2 ds) then Some ([char_of (hexs_val (take 2 ds))], drop 2 ds)
         else None)
      else if d = CHR ''u'' then js_unicode_escape ds
      else if is_oct d then js_legacy_octal d ds
      else Some ([js_single_escape d], ds))"

function js_lit_read :: "string \<Rightarrow> (string \<times> string) option" where
  "js_lit_read [] = None"
| "js_lit_read (c # cs) =
     (if c = dquote then Some ([], cs)
      else if c = newline \<or> c = CHR 0x0D then None
      else if c = backslash then
        (case js_escape cs of
           None \<Rightarrow> None
         | Some (v, r) \<Rightarrow> map_option (\<lambda>(w, r'). (v @ w, r')) (js_lit_read r))
      else map_option (\<lambda>(v, r). (c # v, r)) (js_lit_read cs))"
  by pat_completeness auto

definition js_string_value :: "string \<Rightarrow> string option" where
  "js_string_value raw =
     (case js_lit_read (raw @ [dquote]) of Some (v, []) \<Rightarrow> Some v | _ \<Rightarrow> None)"

definition js_safe :: "string \<Rightarrow> bool" where
  "js_safe s = (dquote \<notin> set s \<and> backslash \<notin> set s \<and> newline \<notin> set s \<and> CHR 0x0D \<notin> set s)"

text \<open>The escaping the spec asks of a value spliced into a script literal (its section
  on string-templated generation): a quote, a backslash and the two line breaks are
  written as escape sequences.\<close>

fun js_quote :: "string \<Rightarrow> string" where
  "js_quote [] = []"
| "js_quote (c # cs) =
     (if c = dquote \<or> c = backslash then [backslash, c]
      else if c = newline then [backslash, CHR ''n'']
      else if c = CHR 0x0D then [backslash, CHR ''r''] else [c]) @ js_quote cs"

section \<open>Lemmas\<close>

lemma js_escape_suffix:
  assumes esc: "js_escape s = Some (v, r)"
  shows "suffix r s \<and> length r < length s \<and> length v \<le> 1"
proof (cases s)
  case (Cons d ds)
  have tw: "suffix (tl (dropWhile P (tl xs))) xs" for P and xs :: string
    by (metis suffix_def suffix_tl suffix_order.trans takeWhile_dropWhile_id)
  have u: "js_unicode_escape ds = Some (v, r) \<Longrightarrow> suffix r ds \<and> length v \<le> 1"
    using tw [of is_hex ds]
    by (auto simp: js_unicode_escape_def js_code_unit_def Let_def suffix_drop split: if_splits)
  have sfx: "suffix r ds \<Longrightarrow> suffix r (d # ds) \<and> length r < length (d # ds)"
    by (auto simp: suffix_def)
  have "js_escape (d # ds) = Some (v, r) \<Longrightarrow> suffix r ds \<and> length v \<le> 1"
    using u by (auto simp: js_legacy_octal_def Let_def suffix_drop suffix_ConsI split: if_splits list.splits)
  then show ?thesis
    using Cons sfx esc by blast
qed (use esc in simp)

termination js_lit_read
  by (relation "measure length") (auto dest: js_escape_suffix)

lemma sublist_str_join: "x \<in> set ps \<Longrightarrow> sublist x (str_join sep ps)"
proof (induction sep ps rule: str_join.induct)
  case (3 sep p q ps)
  show ?case
  proof (cases "x = p")
    case True
    then show ?thesis by simp
  next
    case False
    with 3 have "sublist x (str_join sep (q # ps))" by auto
    moreover have "sublist (str_join sep (q # ps)) (p @ sep @ str_join sep (q # ps))"
      by (metis append.assoc sublist_append_leftI)
    ultimately show ?thesis by (simp add: sublist_order.order_trans)
  qed
qed auto

lemma sublist_text_lines: "x \<in> set ls \<Longrightarrow> sublist x (text_lines ls)"
  by (simp add: text_lines_def sublist_str_join)

lemma js_lit_read_safe: "js_safe s \<Longrightarrow> js_lit_read (s @ dquote # r) = Some (s, r)"
  by (induction s) (auto simp: js_safe_def dquote_def backslash_def newline_def)

lemma js_string_value_safe: "js_safe s \<Longrightarrow> js_string_value s = Some s"
  by (simp add: js_string_value_def js_lit_read_safe)

lemma js_lit_read_consumes:
  "js_lit_read x = Some (v, r) \<Longrightarrow>
   \<exists>p. x = p @ dquote # r \<and> length v \<le> length p \<and> (length v = length p \<longrightarrow> js_safe p)"
proof (induction x arbitrary: v r rule: js_lit_read.induct)
  case (2 c cs)
  show ?case
  proof (cases "c = dquote \<or> c = newline \<or> c = CHR 0x0D")
    case True
    then show ?thesis using "2.prems" by (auto simp: js_safe_def dquote_def newline_def)
  next
    case other: False
    show ?thesis
    proof (cases "c = backslash")
      case True
      then obtain e r0 w where esc: "js_escape cs = Some (e, r0)" and rd: "js_lit_read r0 = Some (w, r)"
        and v: "v = e @ w"
        using "2.prems" other by (auto split: option.splits)
      obtain p0 where p0: "r0 = p0 @ dquote # r" "length w \<le> length p0"
        using "2.IH"(1) [of "(e, r0)" e r0 w r] other True esc rd by auto
      have "\<exists>q. cs = q @ r0 \<and> length e \<le> length q"
        using js_escape_suffix [OF esc] unfolding suffix_def
        by (metis Suc_leI le_trans length_greater_0_conv length_append less_add_same_cancel2 One_nat_def)
      then obtain q where q: "cs = q @ r0" and lq: "length e \<le> length q"
        by blast
      show ?thesis
        by (rule exI [of _ "c # q @ p0"]) (use p0 q lq v in auto)
    next
      case False
      then obtain w where rd: "js_lit_read cs = Some (w, r)" and v: "v = c # w"
        using "2.prems" other by (auto split: option.splits)
      obtain p0 where "cs = p0 @ dquote # r" "length w \<le> length p0" "length w = length p0 \<longrightarrow> js_safe p0"
        using "2.IH"(2) [of w r] other False rd by auto
      then show ?thesis
        using v other False by (auto simp: js_safe_def)
    qed
  qed
qed simp

lemma js_lit_read_quote: "js_lit_read (js_quote s @ dquote # r) = Some (s, r)"
  by (induction s) (auto simp: dquote_def backslash_def newline_def is_oct_def js_single_escape_def)

lemma js_string_value_quote: "js_string_value (js_quote s) = Some s"
  by (simp add: js_string_value_def js_lit_read_quote)

text \<open>C8: the browser reads the script's literal \<^verbatim>\<open>"{text}"\<close> back as the very text
  spliced into it exactly when that text is safe in a literal: any quote or line break
  makes the script fail, and any backslash starts an escape sequence whose value is
  shorter than its spelling, so the value differs from the text the page shows.\<close>

theorem js_string_value_exact: "js_string_value s = Some s \<longleftrightarrow> js_safe s"
proof
  assume "js_string_value s = Some s"
  then have "js_lit_read (s @ [dquote]) = Some (s, [])"
    by (auto simp: js_string_value_def split: option.splits list.splits)
  from js_lit_read_consumes [OF this] show "js_safe s" by auto
qed (rule js_string_value_safe)

theorem js_string_value_exact_witness:
  "js_string_value (''C:'' @ [backslash] @ ''new'') \<noteq> Some (''C:'' @ [backslash] @ ''new'') \<and>
   js_string_value (''C:'' @ [backslash] @ ''new'') = Some (''C:'' @ [newline] @ ''ew'')"
proof -
  have "\<not> js_safe (''C:'' @ [backslash] @ ''new'')"
    by (simp add: js_safe_def)
  then have "js_string_value (''C:'' @ [backslash] @ ''new'') \<noteq> Some (''C:'' @ [backslash] @ ''new'')"
    using js_string_value_exact [of "''C:'' @ [backslash] @ ''new''"] by blast
  moreover have "js_string_value (''C:'' @ [backslash] @ ''new'') = Some (''C:'' @ [newline] @ ''ew'')"
    by (simp add: js_string_value_def dquote_def backslash_def newline_def is_oct_def
        js_single_escape_def)
  ultimately show ?thesis by blast
qed

lemma js_safe_int_str: "js_safe (int_str i)"
proof -
  have all: "\<forall>c \<in> set (int_str i). is_digit c \<or> c = CHR ''-''"
    using nat_str_digits by (auto simp: int_str_def list_all_iff)
  have nd: "\<And>c. c \<in> {dquote, backslash, newline, CHR 0x0D} \<Longrightarrow> \<not> is_digit c \<and> c \<noteq> CHR ''-''"
    by (auto simp: is_digit_def dquote_def backslash_def newline_def)
  show ?thesis using all nd unfolding js_safe_def by blast
qed

lemma sublist_trans: "sublist a b \<Longrightarrow> sublist b c \<Longrightarrow> sublist a c"
  by (rule sublist_order.order_trans)

lemma sublist_mid: "sublist x (p @ x @ s)"
  by simp

lemma sublist_plain_body:
  "sublist (text_marker @ txt @ '' '' @ gold @ ''/'' @ target @ ''</p>'') (plain_body txt gold target)"
proof -
  let ?l = \<open>''        <div class="Column"><p class="Text" id="text">'' @ txt @ '' '' @
           gold @ ''/'' @ target @ ''</p></div>''\<close>
  have \<open>?l = ''        <div class="Column">'' @ (text_marker @ txt @ '' '' @ gold @ ''/'' @ target @ ''</p>'') @ ''</div>''\<close>
    by (simp add: text_marker_def)
  then have "sublist (text_marker @ txt @ '' '' @ gold @ ''/'' @ target @ ''</p>'') ?l"
    by (metis sublist_mid)
  moreover have "sublist ?l (plain_body txt gold target)"
    unfolding plain_body_def by (rule sublist_text_lines) (intro list.set_intros)
  ultimately show ?thesis by (rule sublist_trans)
qed

lemma sublist_item_body:
  "sublist (text_marker @ ''Gold for '' @ name @ '' '' @ gold @ ''/'' @ target @ ''</p>'')
     (item_body name gold target img)"
proof -
  let ?l = \<open>''        <div class="Column"><p class="Text" id="text">Gold for '' @ name @ '' '' @
           gold @ ''/'' @ target @ ''</p></div>''\<close>
  have \<open>?l = ''        <div class="Column">'' @
       (text_marker @ ''Gold for '' @ name @ '' '' @ gold @ ''/'' @ target @ ''</p>'') @ ''</div>''\<close>
    by (simp add: text_marker_def)
  then have "sublist (text_marker @ ''Gold for '' @ name @ '' '' @ gold @ ''/'' @ target @ ''</p>'') ?l"
    by (metis sublist_mid)
  moreover have "sublist ?l (item_body name gold target img)"
    unfolding item_body_def by (rule sublist_text_lines) (intro list.set_intros)
  ultimately show ?thesis by (rule sublist_trans)
qed

lemma sublist_overlay_html_body: "sublist body (overlay_html css js body)"
proof -
  have "sublist body (''                '' @ body)" by (rule sublist_append_leftI)
  moreover have "sublist (''                '' @ body) (overlay_html css js body)"
    unfolding overlay_html_def by (rule sublist_text_lines) (intro list.set_intros)
  ultimately show ?thesis by (rule sublist_trans)
qed

lemma sublist_overlay_html_js: "sublist js (overlay_html css js body)"
proof -
  have "sublist js (''                '' @ js)" by (rule sublist_append_leftI)
  moreover have "sublist (''                '' @ js) (overlay_html css js body)"
    unfolding overlay_html_def by (rule sublist_text_lines) (intro list.set_intros)
  ultimately show ?thesis by (rule sublist_trans)
qed

lemma sublist_overlay_js_params: "sublist params (overlay_js txt params interval)"
proof -
  have \<open>sublist params (''        const response = await fetch("/gold_data?" + '' @ params @ '');'')\<close>
    by (rule sublist_mid)
  moreover have \<open>sublist (''        const response = await fetch("/gold_data?" + '' @ params @ '');'')
      (overlay_js txt params interval)\<close>
    unfolding overlay_js_def by (rule sublist_text_lines) (intro list.set_intros)
  ultimately show ?thesis by (rule sublist_trans)
qed

lemma sublist_item_params_apikey:
  \<open>sublist (''apikey: "'' @ apikey @ ''",'') (item_params apikey it)\<close>
proof -
  have eq: \<open>''            apikey: "'' @ apikey @ ''",'' = ''            '' @ (''apikey: "'' @ apikey @ ''",'')\<close>
    by simp
  have \<open>sublist (''apikey: "'' @ apikey @ ''",'') (''            apikey: "'' @ apikey @ ''",'')\<close>
    by (subst eq) (rule sublist_append_leftI)
  moreover have \<open>sublist (''            apikey: "'' @ apikey @ ''",'') (item_params apikey it)\<close>
    unfolding item_params_def by (rule sublist_text_lines) (intro list.set_intros)
  ultimately show ?thesis by (rule sublist_trans)
qed

lemma sublist_target_params_apikey:
  \<open>sublist (''apikey: "'' @ apikey @ ''",'') (target_params apikey target)\<close>
proof -
  have eq: \<open>''            apikey: "'' @ apikey @ ''",'' = ''            '' @ (''apikey: "'' @ apikey @ ''",'')\<close>
    by simp
  have \<open>sublist (''apikey: "'' @ apikey @ ''",'') (''            apikey: "'' @ apikey @ ''",'')\<close>
    by (subst eq) (rule sublist_append_leftI)
  moreover have \<open>sublist (''            apikey: "'' @ apikey @ ''",'') (target_params apikey target)\<close>
    unfolding target_params_def by (rule sublist_text_lines) (intro list.set_intros)
  ultimately show ?thesis by (rule sublist_trans)
qed

end
