(* ===== verification/Handlers.thy ===== *)
theory Handlers
  imports Prices Locale_Resolver Overlay_Templates
begin

text \<open>
  The two request handlers of \<^verbatim>\<open>src/main.py\<close>, both named \<^verbatim>\<open>gold\<close> in the source:
  \<open>gold_page\<close> is the \<^verbatim>\<open>GET /gold\<close> handler (lines 75-194) and \<open>gold_data\<close> the
  \<^verbatim>\<open>GET /gold_data\<close> handler (lines 197-234). Each takes the game API, the locale system,
  the request (its headers), its query parameters and the process-wide locale, and
  returns its response or the exception it raises, together with the process-wide locale
  it leaves behind. The statements run in the source's order: wallet, gold entry,
  \<^verbatim>\<open>Accept-Language\<close> header, locale activation, then the item and price lookups.

  The game API is the interface record \<open>gw2_api\<close>: \<^verbatim>\<open>api.account.wallet()\<close>,
  \<^verbatim>\<open>api.items.get(item)\<close> and \<^verbatim>\<open>api.commerce.prices(id)\<close> of pygw2, each bound to the
  request's API key, each returning a value or an exception. The lemmas hold for every
  such API. \<^verbatim>\<open>api.commerce.prices(item_obj.id)\<close> receives the int id, which the client
  renders in the request URL as \<open>int_str\<close>.

  The page's polling script is modelled by \<open>poll_fields\<close> (the keys and raw values of
  its parameter object), \<open>browser_query\<close> (the values the browser's literals denote,
  sent as the query string) and \<open>query_args\<close> (FastAPI's reading of the query of
  \<^verbatim>\<open>/gold_data\<close>: \<^verbatim>\<open>apikey\<close> required, \<^verbatim>\<open>item\<close> optional, \<^verbatim>\<open>target\<close> an int defaulting to 0);
  \<open>poll_update\<close> is the text one poll writes into the page: a 422 of the query's
  validation is still JSON, whose missing fields the script writes as
  \<^verbatim>\<open>undefined\<close>; a 500 is plain text, on which \<^verbatim>\<open>response.json()\<close> rejects and the
  text stays; a literal the browser cannot read stops the script before any poll.
\<close>

record item =
  item_id :: int
  item_name :: string
  item_icon :: string

record gw2_api =
  api_wallet :: "string \<Rightarrow> wallet_entry list result"
  api_item :: "string \<Rightarrow> string \<Rightarrow> item result"
  api_prices :: "string \<Rightarrow> string \<Rightarrow> prices_reply result"

record request =
  req_headers :: "string \<Rightarrow> string option"

record gold_data_resp =
  gd_current :: string
  gd_target :: string

definition accept_languages :: "request \<Rightarrow> string list result" where
  "accept_languages req =
     (case req_headers req ''accept-language'' of
        None \<Rightarrow> Inl (KeyError ''accept-language'')
      | Some h \<Rightarrow> Inr (parse_accept_language h))"

definition data_target :: "gw2_api \<Rightarrow> string \<Rightarrow> string option \<Rightarrow> int \<Rightarrow> int result" where
  "data_target api apikey item target =
     (case item of
        Some it \<Rightarrow>
          (if it \<noteq> [] then
             (case api_prices api apikey it of
                Inl e \<Rightarrow> Inl e
              | Inr prices \<Rightarrow> resolve_target prices target)
           else Inr target)
      | None \<Rightarrow> Inr target)"

definition gold_data ::
  "gw2_api \<Rightarrow> locale_sys \<Rightarrow> request \<Rightarrow> string \<Rightarrow> string option \<Rightarrow> int \<Rightarrow> lconv \<Rightarrow>
   gold_data_resp result \<times> lconv" where
  "gold_data api ls req apikey item target lc =
     (case api_wallet api apikey of
        Inl e \<Rightarrow> (Inl e, lc)
      | Inr wallet \<Rightarrow>
     (case gold_amount wallet of
        Inl e \<Rightarrow> (Inl e, lc)
      | Inr gold \<Rightarrow>
     (case accept_languages req of
        Inl e \<Rightarrow> (Inl e, lc)
      | Inr langs \<Rightarrow>
     (let lc' = activate_locale ls langs lc in
     (case data_target api apikey item target of
        Inl e \<Rightarrow> (Inl e, lc')
      | Inr target \<Rightarrow>
          (Inr \<lparr>gd_current = format_n lc' gold, gd_target = format_n lc' target\<rparr>, lc'))))))"

definition item_page_html :: "string \<Rightarrow> string \<Rightarrow> item \<Rightarrow> string \<Rightarrow> string \<Rightarrow> int \<Rightarrow> string" where
  "item_page_html apikey it obj gold target interval =
     (let img = img_tag (item_icon obj);
          body = item_body (item_name obj) gold target img;
          txt = ''Gold for '' @ item_name obj;
          params = item_params apikey it
      in overlay_html overlay_css (overlay_js txt params interval) body)"

definition plain_page_html :: "string \<Rightarrow> string \<Rightarrow> string \<Rightarrow> string \<Rightarrow> int \<Rightarrow> int \<Rightarrow> string" where
  "plain_page_html apikey txt gold target_n target interval =
     (let body = plain_body txt gold target_n;
          params = target_params apikey target
      in overlay_html overlay_css (overlay_js txt params interval) body)"

definition gold_page ::
  "gw2_api \<Rightarrow> locale_sys \<Rightarrow> request \<Rightarrow> string \<Rightarrow> string option \<Rightarrow> string \<Rightarrow> int \<Rightarrow> int \<Rightarrow>
   lconv \<Rightarrow> string result \<times> lconv" where
  "gold_page api ls req apikey item txt target interval lc =
     (case api_wallet api apikey of
        Inl e \<Rightarrow> (Inl e, lc)
      | Inr wallet \<Rightarrow>
     (case gold_amount wallet of
        Inl e \<Rightarrow> (Inl e, lc)
      | Inr gold \<Rightarrow>
     (case accept_languages req of
        Inl e \<Rightarrow> (Inl e, lc)
      | Inr langs \<Rightarrow>
     (let lc' = activate_locale ls langs lc;
          plain = (Inr (plain_page_html apikey txt (format_n lc' gold) (format_n lc' target)
                          target interval), lc')
      in (case item of
            Some it \<Rightarrow>
              (if it \<noteq> [] then
                 (case api_item api apikey it of
                    Inl e \<Rightarrow> (Inl e, lc')
                  | Inr obj \<Rightarrow>
                 (case api_prices api apikey (int_str (item_id obj)) of
                    Inl e \<Rightarrow> (Inl e, lc')
                  | Inr prices \<Rightarrow>
                 (case resolve_target prices target of
                    Inl e \<Rightarrow> (Inl e, lc')
                  | Inr target \<Rightarrow>
                      (Inr (item_page_html apikey it obj (format_n lc' gold) (format_n lc' target)
                              interval), lc'))))
               else plain)
          | None \<Rightarrow> plain)))))"

section \<open>The page's polling script\<close>

definition poll_fields :: "string \<Rightarrow> string option \<Rightarrow> int \<Rightarrow> (string \<times> string) list" where
  "poll_fields apikey item target =
     (case item of
        Some it \<Rightarrow>
          (if it \<noteq> [] then [(''apikey'', apikey), (''item'', it)]
           else [(''apikey'', apikey), (''target'', int_str target)])
      | None \<Rightarrow> [(''apikey'', apikey), (''target'', int_str target)])"

definition browser_query :: "(string \<times> string) list \<Rightarrow> (string \<times> string) list option" where
  "browser_query fs =
     those (map (\<lambda>(k, raw). map_option (\<lambda>v. (k, v)) (js_string_value raw)) fs)"

definition query_args :: "(string \<times> string) list \<Rightarrow> (string \<times> string option \<times> int) result" where
  "query_args q =
     (case map_of (rev q) ''apikey'' of
        None \<Rightarrow> Inl (ValidationError ''apikey'')
      | Some k \<Rightarrow>
          (case map_of (rev q) ''target'' of
             None \<Rightarrow> Inr (k, map_of (rev q) ''item'', 0)
           | Some t \<Rightarrow>
               (case parse_int t of
                  None \<Rightarrow> Inl (ValidationError ''target'')
                | Some n \<Rightarrow> Inr (k, map_of (rev q) ''item'', n))))"

definition poll_update ::
  "gw2_api \<Rightarrow> locale_sys \<Rightarrow> request \<Rightarrow> string \<Rightarrow> (string \<times> string) list \<Rightarrow> lconv \<Rightarrow>
   string option \<times> lconv" where
  "poll_update api ls req label fs lc =
     (case (js_string_value label, browser_query fs) of
        (Some txt, Some q) \<Rightarrow>
          (case query_args q of
             Inl e \<Rightarrow> (Some (js_update_text txt ''undefined'' ''undefined''), lc)
           | Inr (k, it, t) \<Rightarrow>
               (case gold_data api ls req k it t lc of
                  (Inl e, lc') \<Rightarrow> (None, lc')
                | (Inr d, lc') \<Rightarrow> (Some (js_update_text txt (gd_current d) (gd_target d)), lc')))
      | _ \<Rightarrow> (None, lc))"

section \<open>Example environment\<close>

text \<open>
  A concrete environment for the witnesses: a wallet holding 123456 copper, one item
  (Glob of Ectoplasm, id 19721) whose price reply is \<open>prices\<close>, a browser asking for
  \<^verbatim>\<open>en-US\<close> then \<^verbatim>\<open>en\<close>, and a C library with \<^verbatim>\<open>en_US.ISO8859-1\<close> installed,
  to which \<^verbatim>\<open>locale.normalize\<close> maps \<^verbatim>\<open>en-US\<close>.
\<close>

definition example_item :: item where
  "example_item = \<lparr>item_id = 19721, item_name = ''Glob of Ectoplasm'', item_icon = ''ecto.png''\<rparr>"

definition example_api :: "prices_reply \<Rightarrow> gw2_api" where
  "example_api prices =
     \<lparr>api_wallet = (\<lambda>k. Inr [\<lparr>entry_id = 4, entry_value = 250\<rparr>, \<lparr>entry_id = 1, entry_value = 123456\<rparr>]),
      api_item = (\<lambda>k it. if it = ''19721'' then Inr example_item else Inl NotFound),
      api_prices = (\<lambda>k it. if it = ''19721'' then Inr prices else Inl NotFound)\<rparr>"

definition example_req :: request where
  "example_req = \<lparr>req_headers = (\<lambda>n. if n = ''accept-language'' then Some ''en-US,en;q=0.9'' else None)\<rparr>"

definition example_ls :: locale_sys where
  "example_ls =
     \<lparr>normalize = (\<lambda>l. if l = ''en-US'' then ''en_US.ISO8859-1'' else l),
      installed = (\<lambda>n. if n = ''en_US.ISO8859-1'' then Some en_US_lconv else None)\<rparr>"

section \<open>Lemmas\<close>

lemma accept_languages_Some:
  "req_headers req ''accept-language'' = Some h \<Longrightarrow> accept_languages req = Inr (parse_accept_language h)"
  by (simp add: accept_languages_def)

lemma gold_amount_Cons:
  "gold_entries w = x # xs \<Longrightarrow> gold_amount w = Inr (copper_to_gold (entry_value x))"
  by (simp add: gold_amount_def del: copper_to_gold_div)

lemma gold_data_prefix_cases:
  "gold_data api ls req apikey item target lc = (r, lc') \<Longrightarrow>
   (\<exists>e. r = Inl e \<and> lc' = lc) \<or>
   (\<exists>w g langs. api_wallet api apikey = Inr w \<and> gold_amount w = Inr g \<and>
       accept_languages req = Inr langs \<and> lc' = activate_locale ls langs lc \<and>
       (case data_target api apikey item target of
          Inl e \<Rightarrow> r = Inl e
        | Inr t \<Rightarrow> r = Inr \<lparr>gd_current = format_n lc' g, gd_target = format_n lc' t\<rparr>))"
  by (auto simp: gold_data_def Let_def split: sum.splits)

lemma gold_page_plain:
  assumes "gold_page api ls req apikey item txt target interval lc = (Inr html, lc1)"
    and "item = None \<or> item = Some []"
  shows "\<exists>w g langs. api_wallet api apikey = Inr w \<and> gold_amount w = Inr g \<and>
     accept_languages req = Inr langs \<and> lc1 = activate_locale ls langs lc \<and>
     html = plain_page_html apikey txt (format_n lc1 g) (format_n lc1 target) target interval"
  using assms by (auto simp: gold_page_def Let_def split: sum.splits)

lemma gold_page_item:
  assumes "gold_page api ls req apikey (Some it) txt target interval lc = (Inr html, lc1)"
    and "it \<noteq> []"
  shows "\<exists>w g langs obj r t. api_wallet api apikey = Inr w \<and> gold_amount w = Inr g \<and>
     accept_languages req = Inr langs \<and> lc1 = activate_locale ls langs lc \<and>
     api_item api apikey it = Inr obj \<and> api_prices api apikey (int_str (item_id obj)) = Inr r \<and>
     resolve_target r target = Inr t \<and>
     html = item_page_html apikey it obj (format_n lc1 g) (format_n lc1 t) interval"
  using assms by (auto simp: gold_page_def Let_def split: sum.splits)

lemma sublist_plain_page_line:
  "sublist (text_marker @ txt @ '' '' @ gold @ ''/'' @ target_n @ ''</p>'')
     (plain_page_html apikey txt gold target_n target interval)"
  unfolding plain_page_html_def Let_def
  by (rule sublist_trans [OF sublist_plain_body sublist_overlay_html_body])

lemma sublist_item_page_line:
  "sublist (text_marker @ ''Gold for '' @ item_name obj @ '' '' @ gold @ ''/'' @ target @ ''</p>'')
     (item_page_html apikey it obj gold target interval)"
  unfolding item_page_html_def Let_def
  by (rule sublist_trans [OF sublist_item_body sublist_overlay_html_body])

lemma browser_query_safe:
  "\<forall>(k, raw) \<in> set fs. js_safe raw \<Longrightarrow> browser_query fs = Some fs"
  by (induction fs) (auto simp: browser_query_def js_string_value_safe)

lemma query_args_target:
  "query_args [(''apikey'', k), (''target'', int_str t)] = Inr (k, None, t)"
  by (simp add: query_args_def)

lemma query_args_item:
  "query_args [(''apikey'', k), (''item'', it)] = Inr (k, Some it, 0)"
  by (simp add: query_args_def)

text \<open>C2: a \<^verbatim>\<open>/gold_data\<close> request whose wallet has a gold entry and which carries an
  \<^verbatim>\<open>Accept-Language\<close> header answers the first gold entry's balance in whole gold and
  the resolved target, both formatted in the locale the header's languages activate,
  and leaves that locale active in the process.\<close>

theorem gold_data_success:
  assumes "api_wallet api apikey = Inr w" and "gold_entries w = x # xs"
    and "req_headers req ''accept-language'' = Some h"
    and "data_target api apikey item target = Inr t"
  shows "gold_data api ls req apikey item target lc =
           (let lc' = activate_locale ls (parse_accept_language h) lc
            in (Inr \<lparr>gd_current = format_n lc' (copper_to_gold (entry_value x)),
                     gd_target = format_n lc' t\<rparr>, lc'))"
  using assms by (simp add: gold_data_def accept_languages_Some gold_amount_Cons Let_def
      del: copper_to_gold_div)

theorem gold_data_success_witness:
  "gold_data (example_api OtherReply) example_ls example_req ''KEY'' None 1234 c_lconv =
     (Inr \<lparr>gd_current = ''12'', gd_target = ''1,234''\<rparr>, en_US_lconv)"
  using gold_data_success [where api = "example_api OtherReply" and apikey = "''KEY''"
      and w = "[\<lparr>entry_id = 4, entry_value = 250\<rparr>, \<lparr>entry_id = 1, entry_value = 123456\<rparr>]"
      and x = "\<lparr>entry_id = 1, entry_value = 123456\<rparr>" and xs = "[]" and req = example_req
      and h = "''en-US,en;q=0.9''" and item = None and target = 1234 and t = 1234
      and ls = example_ls and lc = c_lconv]
  by (simp add: example_api_def example_req_def gold_entries_def gold_currency_id_def
      data_target_def example_ls_def parse_accept_language_def en_US_lconv_def format_eval)

lemma accept_languages_Inr:
  "accept_languages req = Inr langs \<Longrightarrow>
   \<exists>h. req_headers req ''accept-language'' = Some h \<and> langs = parse_accept_language h"
  by (auto simp: accept_languages_def split: option.splits)

lemma activate_locale_twice:
  "activate_locale ls langs (activate_locale ls langs lc) = activate_locale ls langs lc"
  by (cases "\<exists>l \<in> set langs. activatable ls l") (auto simp: activate_locale_none intro: activate_locale_absorb)

lemma gold_data_after_page:
  assumes "api_wallet api apikey = Inr w" and "gold_amount w = Inr g"
    and "accept_languages req = Inr langs" and "lc1 = activate_locale ls langs lc"
    and "data_target api apikey item target = Inr t"
  shows "gold_data api ls req apikey item target lc1 =
           (Inr \<lparr>gd_current = format_n lc1 g, gd_target = format_n lc1 t\<rparr>, lc1)"
  using assms by (simp add: gold_data_def activate_locale_twice Let_def)

text \<open>C3: the overlay stays consistent with itself: after \<^verbatim>\<open>/gold\<close> without an item
  rendered a page, one run of the page's polling script against the same game API,
  headers and process state writes into the text element exactly the line the page
  showed initially (\<open>label current/target\<close>), provided the API key and the label contain
  nothing the script's string literals would read differently (no quote, backslash or
  line break).\<close>

theorem poll_consistent_plain:
  assumes page: "gold_page api ls req apikey None txt target interval lc = (Inr html, lc1)"
    and safe: "js_safe apikey" "js_safe txt"
  shows "\<exists>line. sublist (text_marker @ line @ ''</p>'') html \<and>
           poll_update api ls req txt (poll_fields apikey None target) lc1 = (Some line, lc1)"
proof -
  from gold_page_plain [OF page] obtain w g langs where
    w: "api_wallet api apikey = Inr w" and g: "gold_amount w = Inr g"
    and langs: "accept_languages req = Inr langs" and lc1: "lc1 = activate_locale ls langs lc"
    and html: "html = plain_page_html apikey txt (format_n lc1 g) (format_n lc1 target) target interval"
    by blast
  let ?line = "txt @ '' '' @ format_n lc1 g @ ''/'' @ format_n lc1 target"
  have shown: "sublist (text_marker @ ?line @ ''</p>'') html"
    using sublist_plain_page_line html by simp
  have q: "browser_query (poll_fields apikey None target) = Some [(''apikey'', apikey), (''target'', int_str target)]"
    using safe(1) js_safe_int_str by (simp add: poll_fields_def browser_query_safe)
  have d: "gold_data api ls req apikey None target lc1 =
             (Inr \<lparr>gd_current = format_n lc1 g, gd_target = format_n lc1 target\<rparr>, lc1)"
    using gold_data_after_page [OF w g langs lc1] by (simp add: data_target_def)
  have "poll_update api ls req txt (poll_fields apikey None target) lc1 = (Some ?line, lc1)"
    using safe(2) q d by (simp add: poll_update_def js_string_value_safe query_args_target js_update_text_def)
  with shown show ?thesis by blast
qed

theorem poll_consistent_plain_witness:
  "\<exists>html line. gold_page (example_api OtherReply) example_ls example_req ''KEY'' None ''Gold'' 1234 60
      c_lconv = (Inr html, en_US_lconv) \<and>
    sublist (text_marker @ line @ ''</p>'') html \<and>
    poll_update (example_api OtherReply) example_ls example_req ''Gold'' (poll_fields ''KEY'' None 1234)
      en_US_lconv = (Some line, en_US_lconv)"
proof -
  let ?html = "plain_page_html ''KEY'' ''Gold'' (format_n en_US_lconv 12) (format_n en_US_lconv 1234) 1234 60"
  have page: "gold_page (example_api OtherReply) example_ls example_req ''KEY'' None ''Gold'' 1234 60 c_lconv =
      (Inr ?html, en_US_lconv)"
    by (simp add: gold_page_def example_api_def example_req_def gold_amount_def gold_entries_def
        gold_currency_id_def accept_languages_def example_ls_def parse_accept_language_def)
  have safe: "js_safe ''KEY''" "js_safe ''Gold''"
    by (simp_all add: js_safe_def dquote_def backslash_def newline_def)
  from poll_consistent_plain [OF page safe] page show ?thesis by blast
qed

text \<open>C31: a label holding a JavaScript escape: the page shows \<^verbatim>\<open>C:\new\<close> as typed, but
  the script reads its literal \<^verbatim>\<open>"C:\new"\<close> with a line break in place of
  \<^verbatim>\<open>\n\<close>, so the first poll rewrites the label.\<close>

theorem poll_rewrites_escaped_label:
  "\<exists>html. gold_page (example_api OtherReply) example_ls example_req ''KEY'' None
        (''C:'' @ [backslash] @ ''new'') 1234 60 c_lconv = (Inr html, en_US_lconv) \<and>
     sublist (text_marker @ ''C:'' @ [backslash] @ ''new 12/1,234'' @ ''</p>'') html \<and>
     poll_update (example_api OtherReply) example_ls example_req (''C:'' @ [backslash] @ ''new'')
        (poll_fields ''KEY'' None 1234) en_US_lconv = (Some (''C:'' @ [newline] @ ''ew 12/1,234''), en_US_lconv)"
proof -
  let ?txt = "''C:'' @ [backslash] @ ''new''"
  let ?html = "plain_page_html ''KEY'' ?txt (format_n en_US_lconv 12) (format_n en_US_lconv 1234) 1234 60"
  have page: "gold_page (example_api OtherReply) example_ls example_req ''KEY'' None ?txt 1234 60 c_lconv =
      (Inr ?html, en_US_lconv)"
    by (simp add: gold_page_def example_api_def example_req_def gold_amount_def gold_entries_def
        gold_currency_id_def accept_languages_def example_ls_def parse_accept_language_def)
  have f: "format_n en_US_lconv 12 = ''12''" "format_n en_US_lconv 1234 = ''1,234''"
    by (simp_all add: en_US_lconv_def format_eval)
  have shown: "sublist (text_marker @ ?txt @ '' 12/1,234'' @ ''</p>'') ?html"
    using sublist_plain_page_line [of ?txt "format_n en_US_lconv 12" "format_n en_US_lconv 1234"
        "''KEY''" 1234 60]
    by (simp add: f)
  have lit: "js_string_value ?txt = Some (''C:'' @ [newline] @ ''ew'')"
    by (simp add: js_string_value_def dquote_def backslash_def newline_def is_oct_def
        js_single_escape_def)
  have q: "browser_query (poll_fields ''KEY'' None 1234) = Some [(''apikey'', ''KEY''), (''target'', int_str 1234)]"
    using js_safe_int_str [of 1234]
    by (simp add: poll_fields_def browser_query_safe js_safe_def dquote_def backslash_def newline_def)
  have d: "gold_data (example_api OtherReply) example_ls example_req ''KEY'' None 1234 en_US_lconv =
      (Inr \<lparr>gd_current = format_n en_US_lconv 12, gd_target = format_n en_US_lconv 1234\<rparr>, en_US_lconv)"
    by (simp add: gold_data_def example_api_def example_req_def gold_amount_def gold_entries_def
        gold_currency_id_def accept_languages_def example_ls_def parse_accept_language_def
        data_target_def)
  have poll: "poll_update (example_api OtherReply) example_ls example_req ?txt
      (poll_fields ''KEY'' None 1234) en_US_lconv =
      (Some (js_update_text (''C:'' @ [newline] @ ''ew'') (format_n en_US_lconv 12) (format_n en_US_lconv 1234)),
       en_US_lconv)"
    using lit q d by (simp add: poll_update_def query_args_target)
  show ?thesis using page shown poll by (simp add: f js_update_text_def)
qed

text \<open>C4: with an item, the page's polling script sends the API key and the item but
  not the caller's \<^verbatim>\<open>target\<close>, so \<^verbatim>\<open>/gold_data\<close> falls back to its default 0: for an
  item without buy or sell listings the page first shows the caller's target 5 and the
  first poll replaces it by 0. The spec requires the poll to reproduce the initial
  configuration.\<close>

theorem poll_item_drops_target:
  "\<exists>html. gold_page (example_api (PriceObj \<lparr>price_id = 19721, buys = None, sells = None\<rparr>))
        example_ls example_req ''KEY'' (Some ''19721'') ''Gold'' 5 60 c_lconv = (Inr html, en_US_lconv) \<and>
     sublist (text_marker @ ''Gold for Glob of Ectoplasm 12/5'' @ ''</p>'') html \<and>
     poll_update (example_api (PriceObj \<lparr>price_id = 19721, buys = None, sells = None\<rparr>))
        example_ls example_req ''Gold for Glob of Ectoplasm'' (poll_fields ''KEY'' (Some ''19721'') 5)
        en_US_lconv = (Some ''Gold for Glob of Ectoplasm 12/0'', en_US_lconv)"
proof -
  let ?api = "example_api (PriceObj \<lparr>price_id = 19721, buys = None, sells = None\<rparr>)"
  let ?html = "item_page_html ''KEY'' ''19721'' example_item (format_n en_US_lconv 12) (format_n en_US_lconv 5) 60"
  have page: "gold_page ?api example_ls example_req ''KEY'' (Some ''19721'') ''Gold'' 5 60 c_lconv =
      (Inr ?html, en_US_lconv)"
    by (simp add: gold_page_def example_api_def example_req_def gold_amount_def gold_entries_def
        gold_currency_id_def accept_languages_def example_ls_def parse_accept_language_def
        example_item_def int_str_def nat_str_eval resolve_target_def
        listing_target_def)
  have f: "format_n en_US_lconv 12 = ''12''" "format_n en_US_lconv 5 = ''5''" "format_n en_US_lconv 0 = ''0''"
    by (simp_all add: en_US_lconv_def format_eval)
  have shown: "sublist (text_marker @ ''Gold for Glob of Ectoplasm 12/5'' @ ''</p>'') ?html"
    using sublist_item_page_line [of example_item "format_n en_US_lconv 12" "format_n en_US_lconv 5"
        "''KEY''" "''19721''" 60]
    by (simp add: f example_item_def)
  have poll: "poll_update ?api example_ls example_req ''Gold for Glob of Ectoplasm''
      (poll_fields ''KEY'' (Some ''19721'') 5) en_US_lconv =
      (Some (js_update_text ''Gold for Glob of Ectoplasm'' (format_n en_US_lconv 12) (format_n en_US_lconv 0)),
       en_US_lconv)"
    by (simp add: poll_update_def poll_fields_def browser_query_def js_string_value_def
        dquote_def backslash_def newline_def query_args_def gold_data_def example_api_def
        example_req_def gold_amount_def gold_entries_def gold_currency_id_def accept_languages_def
        example_ls_def parse_accept_language_def data_target_def resolve_target_def
        listing_target_def)
  show ?thesis using page shown poll by (simp add: f js_update_text_def)
qed

text \<open>C20: with an item, the poll reproduces the initial line when the price lookup by
  the item string and by the item's id give the same reply and the resolved target does
  not depend on the fallback (the reply has a usable buy or sell listing, or the caller's
  target is 0), and the key, the item and the item's name are safe in a literal.\<close>

theorem poll_consistent_item:
  assumes page: "gold_page api ls req apikey (Some it) txt target interval lc = (Inr html, lc1)"
    and ne: "it \<noteq> []" and obj: "api_item api apikey it = Inr obj"
    and r: "api_prices api apikey it = Inr r" and same: "api_prices api apikey (int_str (item_id obj)) = Inr r"
    and indep: "resolve_target r 0 = resolve_target r target"
    and safe: "js_safe apikey" "js_safe it" "js_safe (''Gold for '' @ item_name obj)"
  shows "\<exists>line. sublist (text_marker @ line @ ''</p>'') html \<and>
           poll_update api ls req (''Gold for '' @ item_name obj) (poll_fields apikey (Some it) target) lc1 =
             (Some line, lc1)"
proof -
  from gold_page_item [OF page ne] obj same obtain w g langs t where
    w: "api_wallet api apikey = Inr w" and g: "gold_amount w = Inr g"
    and langs: "accept_languages req = Inr langs" and lc1: "lc1 = activate_locale ls langs lc"
    and t: "resolve_target r target = Inr t"
    and html: "html = item_page_html apikey it obj (format_n lc1 g) (format_n lc1 t) interval"
    by auto
  let ?line = "''Gold for '' @ item_name obj @ '' '' @ format_n lc1 g @ ''/'' @ format_n lc1 t"
  have shown: "sublist (text_marker @ ?line @ ''</p>'') html"
    using sublist_item_page_line html by simp
  have dt: "data_target api apikey (Some it) 0 = Inr t"
    using ne r indep t by (simp add: data_target_def)
  have q: "browser_query (poll_fields apikey (Some it) target) = Some [(''apikey'', apikey), (''item'', it)]"
    using safe(1,2) ne by (simp add: poll_fields_def browser_query_safe)
  have d: "gold_data api ls req apikey (Some it) 0 lc1 =
             (Inr \<lparr>gd_current = format_n lc1 g, gd_target = format_n lc1 t\<rparr>, lc1)"
    by (rule gold_data_after_page [OF w g langs lc1 dt])
  have "poll_update api ls req (''Gold for '' @ item_name obj) (poll_fields apikey (Some it) target) lc1 =
          (Some ?line, lc1)"
    using safe(3) q d by (simp add: poll_update_def js_string_value_safe query_args_item js_update_text_def)
  with shown show ?thesis by blast
qed

theorem poll_consistent_item_witness:
  "\<exists>html line.
     gold_page (example_api (PriceObj \<lparr>price_id = 19721, buys = None, sells = Some \<lparr>quantity = 2, unit_price = 80000\<rparr>\<rparr>))
        example_ls example_req ''KEY'' (Some ''19721'') ''Gold'' 5 60 c_lconv = (Inr html, en_US_lconv) \<and>
     sublist (text_marker @ line @ ''</p>'') html \<and>
     poll_update (example_api (PriceObj \<lparr>price_id = 19721, buys = None, sells = Some \<lparr>quantity = 2, unit_price = 80000\<rparr>\<rparr>))
        example_ls example_req ''Gold for Glob of Ectoplasm'' (poll_fields ''KEY'' (Some ''19721'') 5)
        en_US_lconv = (Some line, en_US_lconv)"
proof -
  let ?r = "PriceObj \<lparr>price_id = 19721, buys = None, sells = Some \<lparr>quantity = 2, unit_price = 80000\<rparr>\<rparr>"
  let ?html = "item_page_html ''KEY'' ''19721'' example_item (format_n en_US_lconv 12) (format_n en_US_lconv 8) 60"
  have page: "gold_page (example_api ?r) example_ls example_req ''KEY'' (Some ''19721'') ''Gold'' 5 60 c_lconv =
      (Inr ?html, en_US_lconv)"
    by (simp add: gold_page_def example_api_def example_req_def gold_amount_def gold_entries_def
        gold_currency_id_def accept_languages_def example_ls_def parse_accept_language_def
        example_item_def int_str_def nat_str_eval resolve_target_def
        listing_target_def)
  have prem: "(''19721'' :: string) \<noteq> []" "api_item (example_api ?r) ''KEY'' ''19721'' = Inr example_item"
    "api_prices (example_api ?r) ''KEY'' ''19721'' = Inr ?r"
    "api_prices (example_api ?r) ''KEY'' (int_str (item_id example_item)) = Inr ?r"
    "resolve_target ?r 0 = resolve_target ?r 5"
    "js_safe ''KEY''" "js_safe ''19721''" "js_safe (''Gold for '' @ item_name example_item)"
    by (simp_all add: example_api_def example_item_def int_str_def nat_str_eval
        resolve_target_def listing_target_def js_safe_def dquote_def backslash_def newline_def)
  from poll_consistent_item [OF page prem] page show ?thesis by (simp add: example_item_def)
qed

text \<open>C21: the exceptions raised before the locale is touched (the wallet lookup fails,
  the wallet has no gold entry, the request has no \<^verbatim>\<open>Accept-Language\<close> header) are
  the response of \<^verbatim>\<open>/gold_data\<close> and leave the process-wide locale as it was.\<close>

theorem gold_data_early_errors:
  assumes "api_wallet api apikey = Inl e \<or>
           (\<exists>w. api_wallet api apikey = Inr w \<and> gold_entries w = [] \<and> e = IndexError) \<or>
           (\<exists>w x xs. api_wallet api apikey = Inr w \<and> gold_entries w = x # xs \<and>
              req_headers req ''accept-language'' = None \<and> e = KeyError ''accept-language'')"
  shows "gold_data api ls req apikey item target lc = (Inl e, lc)"
  using assms
  by (auto simp: gold_data_def gold_amount_def accept_languages_def simp del: copper_to_gold_div)

theorem gold_data_early_errors_witness:
  "gold_data (example_api OtherReply) example_ls \<lparr>req_headers = (\<lambda>n. None)\<rparr> ''KEY'' None 0 c_lconv =
     (Inl (KeyError ''accept-language''), c_lconv)"
  by (rule gold_data_early_errors)
     (simp add: example_api_def gold_entries_def gold_currency_id_def)

text \<open>C22: an exception of the price lookup comes after the locale switch: the request
  fails, yet the process-wide locale is left at the request's language, for the next
  request of any client to format with.\<close>

theorem gold_data_price_error_switches_locale:
  assumes "api_wallet api apikey = Inr w" and "gold_entries w = x # xs"
    and "req_headers req ''accept-language'' = Some h" and "it \<noteq> []"
    and "api_prices api apikey it = Inl e \<or> (api_prices api apikey it = Inr (PriceList []) \<and> e = IndexError)"
  shows "gold_data api ls req apikey (Some it) target lc =
           (Inl e, activate_locale ls (parse_accept_language h) lc)"
  using assms
  by (auto simp: gold_data_def gold_amount_Cons accept_languages_Some data_target_def resolve_target_def
      simp del: copper_to_gold_div)

theorem gold_data_price_error_switches_locale_witness:
  "gold_data (example_api OtherReply) example_ls example_req ''KEY'' (Some ''404'') 0 c_lconv =
     (Inl NotFound, en_US_lconv)"
proof -
  have "gold_data (example_api OtherReply) example_ls example_req ''KEY'' (Some ''404'') 0 c_lconv =
     (Inl NotFound, activate_locale example_ls (parse_accept_language ''en-US,en;q=0.9'') c_lconv)"
    by (rule gold_data_price_error_switches_locale [where x = "\<lparr>entry_id = 1, entry_value = 123456\<rparr>" and xs = "[]"
          and w = "[\<lparr>entry_id = 4, entry_value = 250\<rparr>, \<lparr>entry_id = 1, entry_value = 123456\<rparr>]"])
       (simp_all add: example_api_def example_req_def gold_entries_def gold_currency_id_def)
  then show ?thesis by (simp add: example_ls_def parse_accept_language_def)
qed

text \<open>C23: the API key is spliced into the page's script verbatim, inside the literal
  \<^verbatim>\<open>apikey: "..."\<close>, on every successful render: nothing is escaped, so a key containing
  a quote or \<^verbatim>\<open></script>\<close> changes the structure of the page, contrary to the
  spec's injection-safety requirement.\<close>

theorem gold_page_apikey_verbatim:
  assumes "gold_page api ls req apikey item txt target interval lc = (Inr html, lc1)"
  shows \<open>sublist (''apikey: "'' @ apikey @ ''",'') html\<close>
proof (cases "item = None \<or> item = Some []")
  case True
  from gold_page_plain [OF assms True] obtain g' t' where
    html: "html = plain_page_html apikey txt g' t' target interval" by blast
  have \<open>sublist (''apikey: "'' @ apikey @ ''",'') (plain_page_html apikey txt g' t' target interval)\<close>
    unfolding plain_page_html_def Let_def
    by (rule sublist_trans [OF sublist_target_params_apikey
          sublist_trans [OF sublist_overlay_js_params sublist_overlay_html_js]])
  with html show ?thesis by simp
next
  case False
  then obtain it where it: "item = Some it" "it \<noteq> []" by (cases item) auto
  from gold_page_item [OF assms [unfolded it(1)] it(2)] obtain obj g' t' where
    html: "html = item_page_html apikey it obj g' t' interval" by blast
  have \<open>sublist (''apikey: "'' @ apikey @ ''",'') (item_page_html apikey it obj g' t' interval)\<close>
    unfolding item_page_html_def Let_def
    by (rule sublist_trans [OF sublist_item_params_apikey
          sublist_trans [OF sublist_overlay_js_params sublist_overlay_html_js]])
  with html show ?thesis by simp
qed

theorem gold_page_apikey_verbatim_witness:
  "\<exists>html. gold_page (example_api OtherReply) example_ls example_req ''</script><script>alert(1)</script>''
      None ''Gold'' 0 60 c_lconv = (Inr html, en_US_lconv) \<and>
    sublist ''<script>alert(1)</script>'' html"
proof -
  let ?k = "''</script><script>alert(1)</script>''"
  let ?html = "plain_page_html ?k ''Gold'' (format_n en_US_lconv 12) (format_n en_US_lconv 0) 0 60"
  have page: "gold_page (example_api OtherReply) example_ls example_req ?k None ''Gold'' 0 60 c_lconv =
      (Inr ?html, en_US_lconv)"
    by (simp add: gold_page_def example_api_def example_req_def gold_amount_def gold_entries_def
        gold_currency_id_def accept_languages_def example_ls_def parse_accept_language_def)
  have \<open>sublist (''apikey: "'' @ ?k @ ''",'') ?html\<close>
    by (rule gold_page_apikey_verbatim [OF page])
  moreover have \<open>sublist ''<script>alert(1)</script>'' (''apikey: "'' @ ?k @ ''",'')\<close>
  proof -
    have \<open>''apikey: "'' @ ?k @ ''",'' = ''apikey: "</script>'' @ ''<script>alert(1)</script>'' @ ''",''\<close>
      by simp
    then show ?thesis by (metis sublist_mid)
  qed
  ultimately show ?thesis using page sublist_trans by blast
qed

end
