(* ===== verification/Concurrency.thy ===== *)
theory Concurrency
  imports Handlers
begin

text \<open>
  Concurrent requests over the process-wide locale. Both handlers of
  \<^verbatim>\<open>src/main.py\<close> are coroutines that suspend at each \<^verbatim>\<open>await\<close> of the game API and
  otherwise run without interruption on the event loop:
  \<^item> \<^verbatim>\<open>/gold_data\<close> (lines 197-234) suspends at \<^verbatim>\<open>await api.account.wallet()\<close>
    (line 205) and, when an item is asked for, at \<^verbatim>\<open>await api.commerce.prices(item)\<close>
    (line 220); \<open>gd_resume\<close> is one uninterrupted segment of it, on the program points
    \<open>gd_pc\<close>;
  \<^item> \<^verbatim>\<open>/gold\<close> (lines 75-194) suspends at the wallet (line 85) and, with an item, at
    \<^verbatim>\<open>await api.items.get(item)\<close> (line 99) and \<^verbatim>\<open>await api.commerce.prices(item_obj.id)\<close>
    (line 100); \<open>gp_resume\<close> is one segment of it, on the program points \<open>gp_pc\<close>.
  In both, the segment after the wallet fetch runs the locale loop (the only write of the
  shared locale), and the segment after the last fetch formats with whatever locale is
  active when it resumes.

  A request in flight is an \<open>ev_thread\<close>: its call (the parameters of the handler) and its
  program point. \<open>ev_step\<close> is the event loop: any request that has not answered runs its
  next segment. A state is the shared locale and the requests in flight; \<open>ev_init\<close>
  starts every call at its entry. The properties are the race on the shared locale,
  shown on a concrete interleaving, and its absence for requests without an item.
\<close>

record gd_call =
  gc_api :: gw2_api
  gc_req :: request
  gc_apikey :: string
  gc_item :: "string option"
  gc_target :: int

datatype gd_pc =
    GD_Start
  | GD_Wallet
  | GD_Prices int string
  | GD_Done "gold_data_resp result"

record gp_call =
  gp_api :: gw2_api
  gp_req :: request
  gp_apikey :: string
  gp_item :: "string option"
  gp_text :: string
  gp_target :: int
  gp_interval :: int

datatype gp_pc =
    GP_Start
  | GP_Wallet
  | GP_Item int string
  | GP_Prices int string item
  | GP_Done "string result"

datatype ev_call = DataCall gd_call | PageCall gp_call

datatype ev_thread = DataT gd_call gd_pc | PageT gp_call gp_pc

type_synonym ev_state = "lconv \<times> ev_thread list"

abbreviation gd_handler :: "locale_sys \<Rightarrow> gd_call \<Rightarrow> lconv \<Rightarrow> gold_data_resp result \<times> lconv" where
  "gd_handler ls c lc \<equiv> gold_data (gc_api c) ls (gc_req c) (gc_apikey c) (gc_item c) (gc_target c) lc"

abbreviation gp_handler :: "locale_sys \<Rightarrow> gp_call \<Rightarrow> lconv \<Rightarrow> string result \<times> lconv" where
  "gp_handler ls c lc \<equiv>
     gold_page (gp_api c) ls (gp_req c) (gp_apikey c) (gp_item c) (gp_text c) (gp_target c) (gp_interval c) lc"

fun gd_resume :: "locale_sys \<Rightarrow> gd_call \<Rightarrow> gd_pc \<Rightarrow> lconv \<Rightarrow> gd_pc \<times> lconv" where
  "gd_resume ls c GD_Start g = (GD_Wallet, g)"
| "gd_resume ls c GD_Wallet g =
     (case api_wallet (gc_api c) (gc_apikey c) of
        Inl e \<Rightarrow> (GD_Done (Inl e), g)
      | Inr wallet \<Rightarrow>
     (case gold_amount wallet of
        Inl e \<Rightarrow> (GD_Done (Inl e), g)
      | Inr gold \<Rightarrow>
     (case accept_languages (gc_req c) of
        Inl e \<Rightarrow> (GD_Done (Inl e), g)
      | Inr langs \<Rightarrow>
     (let g' = activate_locale ls langs g;
          answer = (GD_Done (Inr \<lparr>gd_current = format_n g' gold,
                                   gd_target = format_n g' (gc_target c)\<rparr>), g')
      in (case gc_item c of
            Some it \<Rightarrow> (if it \<noteq> [] then (GD_Prices gold it, g') else answer)
          | None \<Rightarrow> answer)))))"
| "gd_resume ls c (GD_Prices gold it) g =
     (case api_prices (gc_api c) (gc_apikey c) it of
        Inl e \<Rightarrow> (GD_Done (Inl e), g)
      | Inr prices \<Rightarrow>
     (case resolve_target prices (gc_target c) of
        Inl e \<Rightarrow> (GD_Done (Inl e), g)
      | Inr t \<Rightarrow> (GD_Done (Inr \<lparr>gd_current = format_n g gold, gd_target = format_n g t\<rparr>), g)))"
| "gd_resume ls c (GD_Done r) g = (GD_Done r, g)"

fun gp_resume :: "locale_sys \<Rightarrow> gp_call \<Rightarrow> gp_pc \<Rightarrow> lconv \<Rightarrow> gp_pc \<times> lconv" where
  "gp_resume ls c GP_Start g = (GP_Wallet, g)"
| "gp_resume ls c GP_Wallet g =
     (case api_wallet (gp_api c) (gp_apikey c) of
        Inl e \<Rightarrow> (GP_Done (Inl e), g)
      | Inr wallet \<Rightarrow>
     (case gold_amount wallet of
        Inl e \<Rightarrow> (GP_Done (Inl e), g)
      | Inr gold \<Rightarrow>
     (case accept_languages (gp_req c) of
        Inl e \<Rightarrow> (GP_Done (Inl e), g)
      | Inr langs \<Rightarrow>
     (let g' = activate_locale ls langs g;
          plain = (GP_Done (Inr (plain_page_html (gp_apikey c) (gp_text c) (format_n g' gold)
                                   (format_n g' (gp_target c)) (gp_target c) (gp_interval c))), g')
      in (case gp_item c of
            Some it \<Rightarrow> (if it \<noteq> [] then (GP_Item gold it, g') else plain)
          | None \<Rightarrow> plain)))))"
| "gp_resume ls c (GP_Item gold it) g =
     (case api_item (gp_api c) (gp_apikey c) it of
        Inl e \<Rightarrow> (GP_Done (Inl e), g)
      | Inr obj \<Rightarrow> (GP_Prices gold it obj, g))"
| "gp_resume ls c (GP_Prices gold it obj) g =
     (case api_prices (gp_api c) (gp_apikey c) (int_str (item_id obj)) of
        Inl e \<Rightarrow> (GP_Done (Inl e), g)
      | Inr prices \<Rightarrow>
     (case resolve_target prices (gp_target c) of
        Inl e \<Rightarrow> (GP_Done (Inl e), g)
      | Inr t \<Rightarrow>
          (GP_Done (Inr (item_page_html (gp_apikey c) it obj (format_n g gold) (format_n g t)
                           (gp_interval c))), g)))"
| "gp_resume ls c (GP_Done r) g = (GP_Done r, g)"

fun ev_resume :: "locale_sys \<Rightarrow> ev_thread \<Rightarrow> lconv \<Rightarrow> ev_thread \<times> lconv" where
  "ev_resume ls (DataT c p) g = (case gd_resume ls c p g of (p', g') \<Rightarrow> (DataT c p', g'))"
| "ev_resume ls (PageT c p) g = (case gp_resume ls c p g of (p', g') \<Rightarrow> (PageT c p', g'))"

fun ev_final :: "ev_thread \<Rightarrow> bool" where
  "ev_final (DataT c (GD_Done r)) = True"
| "ev_final (PageT c (GP_Done r)) = True"
| "ev_final _ = False"

inductive ev_step :: "locale_sys \<Rightarrow> ev_state \<Rightarrow> ev_state \<Rightarrow> bool" where
  resume: "i < length ts \<Longrightarrow> \<not> ev_final (ts ! i) \<Longrightarrow>
     ev_resume ls (ts ! i) g = (t', g') \<Longrightarrow> ev_step ls (g, ts) (g', ts[i := t'])"

fun ev_start :: "ev_call \<Rightarrow> ev_thread" where
  "ev_start (DataCall c) = DataT c GD_Start"
| "ev_start (PageCall c) = PageT c GP_Start"

definition ev_init :: "ev_call list \<Rightarrow> lconv \<Rightarrow> ev_state" where
  "ev_init cs g = (g, map ev_start cs)"

section \<open>Example: an overlay page and a poll overlapping\<close>

text \<open>
  Two requests of the example environment of \<open>Handlers\<close> against a C library with
  \<^verbatim>\<open>en_US\<close> and \<^verbatim>\<open>fi_FI\<close> installed: \<open>race_page\<close> asks \<^verbatim>\<open>/gold\<close> for the item 19721,
  whose lowest sell offer is 12345670000 copper, with the header \<^verbatim>\<open>en-US,en;q=0.9\<close>;
  \<open>race_data\<close> asks \<^verbatim>\<open>/gold_data\<close> for no item, with the header \<^verbatim>\<open>fi\<close>.
\<close>

definition fi_lconv :: lconv where
  "fi_lconv = \<lparr>thousands_sep = '' '', grouping = [3, 3]\<rparr>"

definition race_ls :: locale_sys where
  "race_ls =
     \<lparr>normalize = (\<lambda>l. if l = ''en-US'' then ''en_US.ISO8859-1''
                       else if l = ''fi'' then ''fi_FI.ISO8859-1'' else l),
      installed = (\<lambda>n. if n = ''en_US.ISO8859-1'' then Some en_US_lconv
                       else if n = ''fi_FI.ISO8859-1'' then Some fi_lconv else None)\<rparr>"

definition race_page :: gp_call where
  "race_page =
     \<lparr>gp_api = example_api (PriceObj \<lparr>price_id = 19721, buys = None,
                                      sells = Some \<lparr>quantity = 1, unit_price = 12345670000\<rparr>\<rparr>),
      gp_req = example_req, gp_apikey = ''KEY'', gp_item = Some ''19721'', gp_text = ''Gold'',
      gp_target = 0, gp_interval = 60\<rparr>"

definition race_data :: gd_call where
  "race_data =
     \<lparr>gc_api = example_api OtherReply,
      gc_req = \<lparr>req_headers = (\<lambda>n. if n = ''accept-language'' then Some ''fi'' else None)\<rparr>,
      gc_apikey = ''KEY2'', gc_item = None, gc_target = 0\<rparr>"

definition race_calls :: "ev_call list" where
  "race_calls = [PageCall race_page, DataCall race_data]"

inductive_cases ev_stepE: "ev_step ls s t"

section \<open>Lemmas\<close>

lemma ev_step_resumeI:
  "i < length ts \<Longrightarrow> \<not> ev_final (ts ! i) \<Longrightarrow>
   ev_step ls (g, ts) (snd (ev_resume ls (ts ! i) g), ts[i := fst (ev_resume ls (ts ! i) g)])"
  by (rule ev_step.resume) simp_all

text \<open>A property of single requests that every segment preserves holds of every request
  in every state the event loop reaches.\<close>

lemma ev_reach_threads:
  assumes "(ev_step ls)\<^sup>*\<^sup>* s s'" and "\<forall>t \<in> set (snd s). P t"
    and "\<And>t g. P t \<Longrightarrow> \<not> ev_final t \<Longrightarrow> P (fst (ev_resume ls t g))"
  shows "\<forall>t \<in> set (snd s'). P t"
  using assms(1,2)
proof (induction rule: rtranclp_induct)
  case base
  then show ?case by simp
next
  case (step u v)
  from step.hyps(2) obtain g ts i where u: "u = (g, ts)" and i: "i < length ts" "\<not> ev_final (ts ! i)"
    and v: "snd v = ts[i := fst (ev_resume ls (ts ! i) g)]"
    by (cases u) (auto elim!: ev_stepE)
  have "P (ts ! i)" using step.IH step.prems u i(1) by auto
  then have "P (fst (ev_resume ls (ts ! i) g))" using assms(3) i(2) by blast
  with step.IH step.prems u v show ?case
    by (auto dest: subsetD [OF set_update_subset_insert])
qed

lemma gd_resume_noitem:
  "gc_item c = None \<Longrightarrow>
   gd_resume ls c GD_Wallet g = (GD_Done (fst (gd_handler ls c g)), snd (gd_handler ls c g))"
  by (simp add: gold_data_def data_target_def Let_def split: sum.split)

lemma gp_resume_noitem:
  "gp_item c = None \<Longrightarrow>
   gp_resume ls c GP_Wallet g = (GP_Done (fst (gp_handler ls c g)), snd (gp_handler ls c g))"
  by (simp add: gold_page_def Let_def split: sum.split)

lemma gold_data_absorb:
  assumes "req_headers req ''accept-language'' = Some h"
    and "\<exists>l \<in> set (parse_accept_language h). activatable ls l"
  shows "fst (gold_data api ls req apikey item target g) = fst (gold_data api ls req apikey item target g')"
proof -
  have "activate_locale ls (parse_accept_language h) g = activate_locale ls (parse_accept_language h) g'"
    using assms(2) by (rule activate_locale_absorb)
  then show ?thesis
    using assms(1) by (simp add: gold_data_def accept_languages_Some Let_def split: sum.split)
qed

lemma gold_page_absorb:
  assumes "req_headers req ''accept-language'' = Some h"
    and "\<exists>l \<in> set (parse_accept_language h). activatable ls l"
  shows "fst (gold_page api ls req apikey item txt target interval g) =
         fst (gold_page api ls req apikey item txt target interval g')"
proof -
  have "activate_locale ls (parse_accept_language h) g = activate_locale ls (parse_accept_language h) g'"
    using assms(2) by (rule activate_locale_absorb)
  then show ?thesis
    using assms(1) by (simp add: gold_page_def accept_languages_Some Let_def split: sum.split)
qed

lemma ev_reach_noitem:
  assumes "(ev_step ls)\<^sup>*\<^sup>* (ev_init cs g0) s"
  shows "\<forall>t \<in> set (snd s).
           (case t of
              DataT c p \<Rightarrow> gc_item c = None \<longrightarrow>
                p = GD_Start \<or> p = GD_Wallet \<or> (\<exists>g. p = GD_Done (fst (gd_handler ls c g)))
            | PageT c p \<Rightarrow> gp_item c = None \<longrightarrow>
                p = GP_Start \<or> p = GP_Wallet \<or> (\<exists>g. p = GP_Done (fst (gp_handler ls c g))))"
proof (rule ev_reach_threads [OF assms])
  show "\<forall>t \<in> set (snd (ev_init cs g0)).
          (case t of
             DataT c p \<Rightarrow> gc_item c = None \<longrightarrow>
               p = GD_Start \<or> p = GD_Wallet \<or> (\<exists>g. p = GD_Done (fst (gd_handler ls c g)))
           | PageT c p \<Rightarrow> gp_item c = None \<longrightarrow>
               p = GP_Start \<or> p = GP_Wallet \<or> (\<exists>g. p = GP_Done (fst (gp_handler ls c g))))"
  proof
    fix t assume "t \<in> set (snd (ev_init cs g0))"
    then obtain c where "t = ev_start c" by (auto simp: ev_init_def)
    then show "case t of
             DataT c p \<Rightarrow> gc_item c = None \<longrightarrow>
               p = GD_Start \<or> p = GD_Wallet \<or> (\<exists>g. p = GD_Done (fst (gd_handler ls c g)))
           | PageT c p \<Rightarrow> gp_item c = None \<longrightarrow>
               p = GP_Start \<or> p = GP_Wallet \<or> (\<exists>g. p = GP_Done (fst (gp_handler ls c g)))"
      by (cases c) simp_all
  qed
next
  fix t g
  assume ok: "case t of
             DataT c p \<Rightarrow> gc_item c = None \<longrightarrow>
               p = GD_Start \<or> p = GD_Wallet \<or> (\<exists>g. p = GD_Done (fst (gd_handler ls c g)))
           | PageT c p \<Rightarrow> gp_item c = None \<longrightarrow>
               p = GP_Start \<or> p = GP_Wallet \<or> (\<exists>g. p = GP_Done (fst (gp_handler ls c g)))"
    and nf: "\<not> ev_final t"
  show "case fst (ev_resume ls t g) of
             DataT c p \<Rightarrow> gc_item c = None \<longrightarrow>
               p = GD_Start \<or> p = GD_Wallet \<or> (\<exists>g. p = GD_Done (fst (gd_handler ls c g)))
           | PageT c p \<Rightarrow> gp_item c = None \<longrightarrow>
               p = GP_Start \<or> p = GP_Wallet \<or> (\<exists>g. p = GP_Done (fst (gp_handler ls c g)))"
  proof (cases t)
    case (DataT c p)
    with ok nf show ?thesis
      by (cases "gc_item c") (auto simp: gd_resume_noitem split: prod.split simp del: gd_resume.simps(2))
  next
    case (PageT c p)
    with ok nf show ?thesis
      by (cases "gp_item c") (auto simp: gp_resume_noitem split: prod.split simp del: gp_resume.simps(2))
  qed
qed

subsection \<open>The example run\<close>

lemma race_trace:
  "ev_step race_ls (c_lconv, [PageT race_page (GP_Start),
        DataT race_data (GD_Start)])
     (c_lconv, [PageT race_page (GP_Wallet),
        DataT race_data (GD_Start)])"
  "ev_step race_ls (c_lconv, [PageT race_page (GP_Wallet),
        DataT race_data (GD_Start)])
     (en_US_lconv, [PageT race_page (GP_Item 12 ''19721''),
        DataT race_data (GD_Start)])"
  "ev_step race_ls (en_US_lconv, [PageT race_page (GP_Item 12 ''19721''),
        DataT race_data (GD_Start)])
     (en_US_lconv, [PageT race_page (GP_Item 12 ''19721''),
        DataT race_data (GD_Wallet)])"
  "ev_step race_ls (en_US_lconv, [PageT race_page (GP_Item 12 ''19721''),
        DataT race_data (GD_Wallet)])
     (fi_lconv, [PageT race_page (GP_Item 12 ''19721''),
        DataT race_data (GD_Done (Inr \<lparr>gd_current = ''12'', gd_target = ''0''\<rparr>))])"
  "ev_step race_ls (fi_lconv, [PageT race_page (GP_Item 12 ''19721''),
        DataT race_data (GD_Done (Inr \<lparr>gd_current = ''12'', gd_target = ''0''\<rparr>))])
     (fi_lconv, [PageT race_page (GP_Prices 12 ''19721'' example_item),
        DataT race_data (GD_Done (Inr \<lparr>gd_current = ''12'', gd_target = ''0''\<rparr>))])"
  "ev_step race_ls (fi_lconv, [PageT race_page (GP_Prices 12 ''19721'' example_item),
        DataT race_data (GD_Done (Inr \<lparr>gd_current = ''12'', gd_target = ''0''\<rparr>))])
     (fi_lconv, [PageT race_page (GP_Done (Inr (item_page_html ''KEY'' ''19721'' example_item ''12'' ''1 234 567'' 60))),
        DataT race_data (GD_Done (Inr \<lparr>gd_current = ''12'', gd_target = ''0''\<rparr>))])"
proof -
  show "ev_step race_ls (c_lconv, [PageT race_page (GP_Start),
        DataT race_data (GD_Start)])
     (c_lconv, [PageT race_page (GP_Wallet),
        DataT race_data (GD_Start)])"
    using ev_step_resumeI [where i = 0 and ts = "[PageT race_page (GP_Start), DataT race_data (GD_Start)]" and ls = race_ls and g = c_lconv]
    by (simp add: race_page_def race_data_def example_api_def example_req_def gold_amount_def gold_entries_def
      gold_currency_id_def accept_languages_def parse_accept_language_def race_ls_def fi_lconv_def
      example_item_def int_str_def resolve_target_def listing_target_def format_eval)
  show "ev_step race_ls (c_lconv, [PageT race_page (GP_Wallet),
        DataT race_data (GD_Start)])
     (en_US_lconv, [PageT race_page (GP_Item 12 ''19721''),
        DataT race_data (GD_Start)])"
    using ev_step_resumeI [where i = 0 and ts = "[PageT race_page (GP_Wallet), DataT race_data (GD_Start)]" and ls = race_ls and g = c_lconv]
    by (simp add: race_page_def race_data_def example_api_def example_req_def gold_amount_def gold_entries_def
      gold_currency_id_def accept_languages_def parse_accept_language_def race_ls_def fi_lconv_def
      example_item_def int_str_def resolve_target_def listing_target_def format_eval)
  show "ev_step race_ls (en_US_lconv, [PageT race_page (GP_Item 12 ''19721''),
        DataT race_data (GD_Start)])
     (en_US_lconv, [PageT race_page (GP_Item 12 ''19721''),
        DataT race_data (GD_Wallet)])"
    using ev_step_resumeI [where i = 1 and ts = "[PageT race_page (GP_Item 12 ''19721''), DataT race_data (GD_Start)]" and ls = race_ls and g = en_US_lconv]
    by (simp add: race_page_def race_data_def example_api_def example_req_def gold_amount_def gold_entries_def
      gold_currency_id_def accept_languages_def parse_accept_language_def race_ls_def fi_lconv_def
      example_item_def int_str_def resolve_target_def listing_target_def format_eval)
  show "ev_step race_ls (en_US_lconv, [PageT race_page (GP_Item 12 ''19721''),
        DataT race_data (GD_Wallet)])
     (fi_lconv, [PageT race_page (GP_Item 12 ''19721''),
        DataT race_data (GD_Done (Inr \<lparr>gd_current = ''12'', gd_target = ''0''\<rparr>))])"
    using ev_step_resumeI [where i = 1 and ts = "[PageT race_page (GP_Item 12 ''19721''), DataT race_data (GD_Wallet)]" and ls = race_ls and g = en_US_lconv]
    by (simp add: race_page_def race_data_def example_api_def example_req_def gold_amount_def gold_entries_def
      gold_currency_id_def accept_languages_def parse_accept_language_def race_ls_def fi_lconv_def
      example_item_def int_str_def resolve_target_def listing_target_def format_eval)
  show "ev_step race_ls (fi_lconv, [PageT race_page (GP_Item 12 ''19721''),
        DataT race_data (GD_Done (Inr \<lparr>gd_current = ''12'', gd_target = ''0''\<rparr>))])
     (fi_lconv, [PageT race_page (GP_Prices 12 ''19721'' example_item),
        DataT race_data (GD_Done (Inr \<lparr>gd_current = ''12'', gd_target = ''0''\<rparr>))])"
    using ev_step_resumeI [where i = 0 and ts = "[PageT race_page (GP_Item 12 ''19721''), DataT race_data (GD_Done (Inr \<lparr>gd_current = ''12'', gd_target = ''0''\<rparr>))]" and ls = race_ls and g = fi_lconv]
    by (simp add: race_page_def race_data_def example_api_def example_req_def gold_amount_def gold_entries_def
      gold_currency_id_def accept_languages_def parse_accept_language_def race_ls_def fi_lconv_def
      example_item_def int_str_def resolve_target_def listing_target_def format_eval)
  show "ev_step race_ls (fi_lconv, [PageT race_page (GP_Prices 12 ''19721'' example_item),
        DataT race_data (GD_Done (Inr \<lparr>gd_current = ''12'', gd_target = ''0''\<rparr>))])
     (fi_lconv, [PageT race_page (GP_Done (Inr (item_page_html ''KEY'' ''19721'' example_item ''12'' ''1 234 567'' 60))),
        DataT race_data (GD_Done (Inr \<lparr>gd_current = ''12'', gd_target = ''0''\<rparr>))])"
    using ev_step_resumeI [where i = 0 and ts = "[PageT race_page (GP_Prices 12 ''19721'' example_item), DataT race_data (GD_Done (Inr \<lparr>gd_current = ''12'', gd_target = ''0''\<rparr>))]" and ls = race_ls and g = fi_lconv]
    by (simp add: race_page_def race_data_def example_api_def example_req_def gold_amount_def gold_entries_def
      gold_currency_id_def accept_languages_def parse_accept_language_def race_ls_def fi_lconv_def
      example_item_def int_str_def resolve_target_def listing_target_def format_eval)
qed

lemma race_run: "(ev_step race_ls ^^ 6) (ev_init race_calls c_lconv) (fi_lconv, [PageT race_page (GP_Done (Inr (item_page_html ''KEY'' ''19721'' example_item ''12'' ''1 234 567'' 60))),
        DataT race_data (GD_Done (Inr \<lparr>gd_current = ''12'', gd_target = ''0''\<rparr>))])"
proof -
  have init: "ev_init race_calls c_lconv = (c_lconv, [PageT race_page (GP_Start),
        DataT race_data (GD_Start)])"
    by (simp add: ev_init_def race_calls_def)
  have "(ev_step race_ls ^^ Suc (Suc (Suc (Suc (Suc (Suc 0)))))) (c_lconv, [PageT race_page (GP_Start),
        DataT race_data (GD_Start)]) (fi_lconv, [PageT race_page (GP_Done (Inr (item_page_html ''KEY'' ''19721'' example_item ''12'' ''1 234 567'' 60))),
        DataT race_data (GD_Done (Inr \<lparr>gd_current = ''12'', gd_target = ''0''\<rparr>))])"
    apply (rule relpowp_Suc_I [where P = "ev_step race_ls", OF _ race_trace(6)])
    apply (rule relpowp_Suc_I [where P = "ev_step race_ls", OF _ race_trace(5)])
    apply (rule relpowp_Suc_I [where P = "ev_step race_ls", OF _ race_trace(4)])
    apply (rule relpowp_Suc_I [where P = "ev_step race_ls", OF _ race_trace(3)])
    apply (rule relpowp_Suc_I [where P = "ev_step race_ls", OF _ race_trace(2)])
    apply (rule relpowp_Suc_I [where P = "ev_step race_ls", OF _ race_trace(1)])
    apply (rule relpowp_0_I)
    done
  then show ?thesis by (simp add: init eval_nat_numeral)
qed

lemma race_reach: "(ev_step race_ls)\<^sup>*\<^sup>* (ev_init race_calls c_lconv) (fi_lconv, [PageT race_page (GP_Done (Inr (item_page_html ''KEY'' ''19721'' example_item ''12'' ''1 234 567'' 60))),
        DataT race_data (GD_Done (Inr \<lparr>gd_current = ''12'', gd_target = ''0''\<rparr>))])"
  using race_run by (rule relpowp_imp_rtranclp)

section \<open>Properties of the interleaved requests\<close>

text \<open>C24: the process-wide locale is a race between requests: in the example, the overlay
  page activates \<^verbatim>\<open>en_US\<close> and suspends at the item fetch, the poll activates
  \<^verbatim>\<open>fi_FI\<close> and answers, and the page then renders its target with the poll's
  separator, although the handler alone, from any locale, renders \<^verbatim>\<open>en_US\<close>'s.\<close>

theorem ev_race_foreign_locale:
  "(ev_step race_ls)\<^sup>*\<^sup>* (ev_init race_calls c_lconv) (fi_lconv, [PageT race_page (GP_Done (Inr (item_page_html ''KEY'' ''19721'' example_item ''12'' ''1 234 567'' 60))),
        DataT race_data (GD_Done (Inr \<lparr>gd_current = ''12'', gd_target = ''0''\<rparr>))]) \<and>
   fst (gp_handler race_ls race_page g) =
     Inr (item_page_html ''KEY'' ''19721'' example_item ''12'' ''1,234,567'' 60)"
proof
  show "(ev_step race_ls)\<^sup>*\<^sup>* (ev_init race_calls c_lconv) (fi_lconv, [PageT race_page (GP_Done (Inr (item_page_html ''KEY'' ''19721'' example_item ''12'' ''1 234 567'' 60))),
        DataT race_data (GD_Done (Inr \<lparr>gd_current = ''12'', gd_target = ''0''\<rparr>))])"
    by (rule race_reach)
  show "fst (gp_handler race_ls race_page g) =
          Inr (item_page_html ''KEY'' ''19721'' example_item ''12'' ''1,234,567'' 60)"
    by (simp add: gold_page_def race_page_def example_api_def example_req_def gold_amount_def
        gold_entries_def gold_currency_id_def accept_languages_def parse_accept_language_def
        race_ls_def example_item_def int_str_def resolve_target_def listing_target_def en_US_lconv_def format_eval)
qed

text \<open>C25: a request without an item, of either handler, has no suspension between its
  locale activation and its formatting, so it is free of the race: in every state the event
  loop reaches, once it has answered, its answer is the one its handler gives it alone,
  provided its header names a language that can be activated.\<close>

theorem ev_noitem_own_locale:
  assumes "(ev_step ls)\<^sup>*\<^sup>* (ev_init cs g0) (g, ts)" and "t \<in> set ts"
    and "\<exists>l \<in> set (parse_accept_language h). activatable ls l"
  shows "(\<forall>c r. t = DataT c (GD_Done r) \<longrightarrow> gc_item c = None \<longrightarrow>
             req_headers (gc_req c) ''accept-language'' = Some h \<longrightarrow> r = fst (gd_handler ls c g0)) \<and>
         (\<forall>c r. t = PageT c (GP_Done r) \<longrightarrow> gp_item c = None \<longrightarrow>
             req_headers (gp_req c) ''accept-language'' = Some h \<longrightarrow> r = fst (gp_handler ls c g0))"
proof -
  have ok: "case t of
             DataT c p \<Rightarrow> gc_item c = None \<longrightarrow>
               p = GD_Start \<or> p = GD_Wallet \<or> (\<exists>g. p = GD_Done (fst (gd_handler ls c g)))
           | PageT c p \<Rightarrow> gp_item c = None \<longrightarrow>
               p = GP_Start \<or> p = GP_Wallet \<or> (\<exists>g. p = GP_Done (fst (gp_handler ls c g)))"
    using ev_reach_noitem [OF assms(1)] assms(2) by simp
  show ?thesis
  proof (intro conjI allI impI)
    fix c r assume t: "t = DataT c (GD_Done r)" and "gc_item c = None"
      and h: "req_headers (gc_req c) ''accept-language'' = Some h"
    with ok obtain g' where "r = fst (gd_handler ls c g')" by auto
    with h assms(3) show "r = fst (gd_handler ls c g0)" by (simp add: gold_data_absorb [of _ h ls _ _ _ _ g' g0])
  next
    fix c r assume t: "t = PageT c (GP_Done r)" and "gp_item c = None"
      and h: "req_headers (gp_req c) ''accept-language'' = Some h"
    with ok obtain g' where "r = fst (gp_handler ls c g')" by auto
    with h assms(3) show "r = fst (gp_handler ls c g0)"
      by (simp add: gold_page_absorb [of _ h ls _ _ _ _ _ _ g' g0])
  qed
qed

theorem ev_noitem_own_locale_witness:
  "fst (gd_handler race_ls race_data c_lconv) = Inr \<lparr>gd_current = ''12'', gd_target = ''0''\<rparr>"
proof -
  have "\<forall>c r. DataT race_data (GD_Done (Inr \<lparr>gd_current = ''12'', gd_target = ''0''\<rparr>)) = DataT c (GD_Done r) \<longrightarrow> gc_item c = None \<longrightarrow>
          req_headers (gc_req c) ''accept-language'' = Some ''fi'' \<longrightarrow> r = fst (gd_handler race_ls c c_lconv)"
    using ev_noitem_own_locale [OF race_reach, where t = "DataT race_data (GD_Done (Inr \<lparr>gd_current = ''12'', gd_target = ''0''\<rparr>))" and h = "''fi''"]
    by (simp add: activatable_def race_ls_def parse_accept_language_def)
  then show ?thesis by (simp add: race_data_def)
qed

end
