(* ===== verification/Settings.thy ===== *)
theory Settings
  imports Py_Prelude
begin

text \<open>
  The settings of \<^verbatim>\<open>src/config/__init__.py\<close> and the \<^verbatim>\<open>GET /meta\<close> handler of
  \<^verbatim>\<open>src/main.py\<close> (lines 15-17, 70-72). The process environment is a map from
  variable names to values (\<open>environ\<close>). The class body of \<^verbatim>\<open>Settings\<close> computes the
  field defaults from the environment when the module is imported
  (\<open>settings_defaults\<close>, lines 7-14); instantiating the pydantic-settings class then reads
  each field again from the environment variable of the same name, case-sensitively,
  decodes a list-valued variable as JSON and validates every field, the defaults
  included (\<open>settings_of\<close>, line 20). The JSON decoding of a list of strings and the
  \<^verbatim>\<open>AnyHttpUrl\<close> validation are the interface \<open>pydantic_lib\<close>: validation turns each
  origin string into a URL object (\<open>http_url\<close>, line 9), holding the URL's normalised
  text, or fails. A variable \<^verbatim>\<open>ORIGINS\<close> that is not a JSON list of strings makes
  pydantic-settings raise a \<open>SettingsError\<close>, an origin that is not an http URL a
  \<open>ValidationError\<close>; either is raised at import, before the application exists.
\<close>

type_synonym environ = "string \<Rightarrow> string option"

text \<open>A validated \<^verbatim>\<open>AnyHttpUrl\<close>: a pydantic URL object (not a \<^verbatim>\<open>str\<close>), holding
  the URL's text as pydantic normalises it.\<close>

datatype http_url = AnyHttpUrl string

text \<open>The fields of the settings, their origins of type \<open>'o\<close>: the class body's raw
  defaults are strings, the validated settings hold \<open>http_url\<close> objects.\<close>

record 'o settings =
  ROOT_PATH :: "string option"
  ORIGINS :: "'o list"
  VERSION :: string
  BUILD :: string

record pydantic_lib =
  json_str_list :: "string \<Rightarrow> string list option"
  any_http_url :: "string \<Rightarrow> string option"

record meta =
  meta_version :: "string option"
  meta_build :: "string option"

text \<open>\<^verbatim>\<open>os.environ.get(k, d)\<close>.\<close>

definition env_get :: "environ \<Rightarrow> string \<Rightarrow> string \<Rightarrow> string" where
  "env_get env k d = (case env k of Some v \<Rightarrow> v | None \<Rightarrow> d)"

definition settings_defaults :: "environ \<Rightarrow> string settings" where
  "settings_defaults env =
     \<lparr>ROOT_PATH = env ''ROOT_PATH'',
      ORIGINS = [env_get env ''HOSTNAME'' ''http://localhost:8800''],
      VERSION = env_get env ''VERSION'' ''UNKNOWN'',
      BUILD = env_get env ''BUILD'' ''UNKNOWN''\<rparr>"

definition settings_of :: "pydantic_lib \<Rightarrow> environ \<Rightarrow> http_url settings result" where
  "settings_of lib env =
     (let d = settings_defaults env;
          origins = (case env ''ORIGINS'' of None \<Rightarrow> Some (ORIGINS d) | Some s \<Rightarrow> json_str_list lib s)
      in (case origins of
            None \<Rightarrow> Inl (SettingsError ''ORIGINS'')
          | Some os \<Rightarrow>
              (case those (map (any_http_url lib) os) of
                 Some us \<Rightarrow>
                   Inr \<lparr>ROOT_PATH = (case env ''ROOT_PATH'' of None \<Rightarrow> ROOT_PATH d | Some v \<Rightarrow> Some v),
                        ORIGINS = map AnyHttpUrl us,
                        VERSION = (case env ''VERSION'' of None \<Rightarrow> VERSION d | Some v \<Rightarrow> v),
                        BUILD = (case env ''BUILD'' of None \<Rightarrow> BUILD d | Some v \<Rightarrow> v)\<rparr>
               | None \<Rightarrow> Inl (ValidationError ''ORIGINS''))))"

text \<open>The handler of \<^verbatim>\<open>GET /meta\<close> and the version string of the OpenAPI schema
  (\<^verbatim>\<open>f"{settings.VERSION}:{settings.BUILD}"\<close>, line 33).\<close>

definition meta_handler :: "'o settings \<Rightarrow> meta" where
  "meta_handler s = \<lparr>meta_version = Some (VERSION s), meta_build = Some (BUILD s)\<rparr>"

definition openapi_version :: "'o settings \<Rightarrow> string" where
  "openapi_version s = VERSION s @ '':'' @ BUILD s"

text \<open>A validator for the witnesses: a URL is an http or https URL when it starts with
  the scheme; pydantic's normalisation, which adds the empty path \<^verbatim>\<open>/\<close> to a URL
  without a path, is followed for URLs whose authority ends the string.\<close>

definition example_lib :: pydantic_lib where
  "example_lib =
     \<lparr>json_str_list = (\<lambda>s. None),
      any_http_url = (\<lambda>u. if prefix ''http://'' u \<or> prefix ''https://'' u then
                          Some (if CHR ''/'' \<in> set (drop 8 u) then u else u @ ''/'') else None)\<rparr>"

section \<open>Lemmas\<close>

text \<open>C26: when \<^verbatim>\<open>ORIGINS\<close> is not set, the single origin is the value of
  \<^verbatim>\<open>HOSTNAME\<close>; when that variable holds a plain host name, as container runtimes such as
  Docker set it, the origin fails the URL check and loading the settings raises a
  validation error, so the application does not start.\<close>

theorem settings_of_hostname_not_url:
  "env ''ORIGINS'' = None \<Longrightarrow> env ''HOSTNAME'' = Some h \<Longrightarrow> any_http_url lib h = None \<Longrightarrow>
   settings_of lib env = Inl (ValidationError ''ORIGINS'')"
  by (simp add: settings_of_def settings_defaults_def env_get_def)

theorem settings_of_hostname_not_url_witness:
  "settings_of example_lib (\<lambda>k. if k = ''HOSTNAME'' then Some ''3f4e5a6b7c8d'' else None) =
     Inl (ValidationError ''ORIGINS'')"
  using settings_of_hostname_not_url [of "\<lambda>k. if k = ''HOSTNAME'' then Some ''3f4e5a6b7c8d'' else None"
      "''3f4e5a6b7c8d''" example_lib]
  by (simp add: example_lib_def)

text \<open>C27: whenever the settings load, the root path, the version and the build are the
  values of the environment variables of the same name, or the defaults of the class
  body when a variable is unset: the class body's reading and pydantic's agree.\<close>

theorem settings_of_env_fields:
  "settings_of lib env = Inr s \<Longrightarrow>
     ROOT_PATH s = env ''ROOT_PATH'' \<and>
     VERSION s = env_get env ''VERSION'' ''UNKNOWN'' \<and> BUILD s = env_get env ''BUILD'' ''UNKNOWN''"
  by (auto simp: settings_of_def settings_defaults_def env_get_def Let_def
      split: option.splits if_splits)

theorem settings_of_env_fields_witness:
  "settings_of example_lib (\<lambda>k. if k = ''VERSION'' then Some ''1.2.0''
        else if k = ''HOSTNAME'' then Some ''https://overlay.example.org'' else None) = Inr \<lparr>ROOT_PATH = None, ORIGINS = [AnyHttpUrl ''https://overlay.example.org/''], VERSION = ''1.2.0'', BUILD = ''UNKNOWN''\<rparr> \<and>
   VERSION \<lparr>ROOT_PATH = None, ORIGINS = [AnyHttpUrl ''https://overlay.example.org/''], VERSION = ''1.2.0'', BUILD = ''UNKNOWN''\<rparr> = env_get (\<lambda>k. if k = ''VERSION'' then Some ''1.2.0''
        else if k = ''HOSTNAME'' then Some ''https://overlay.example.org'' else None) ''VERSION'' ''UNKNOWN''"
proof -
  have load: "settings_of example_lib (\<lambda>k. if k = ''VERSION'' then Some ''1.2.0''
        else if k = ''HOSTNAME'' then Some ''https://overlay.example.org'' else None) = Inr \<lparr>ROOT_PATH = None, ORIGINS = [AnyHttpUrl ''https://overlay.example.org/''], VERSION = ''1.2.0'', BUILD = ''UNKNOWN''\<rparr>"
    by (simp add: settings_of_def settings_defaults_def env_get_def example_lib_def)
  show ?thesis
    using load settings_of_env_fields [OF load] by simp
qed

end
