(* ===== verification/Openapi.thy ===== *)
theory Openapi
  imports Settings "HOL-Library.AList"
begin

text \<open>
  The OpenAPI post-processing of \<^verbatim>\<open>src/main.py\<close> (\<^verbatim>\<open>custom_openapi\<close>, lines 25-56).
  The schema is a JSON value (\<open>json\<close>): a Python dict is an association list in insertion
  order, so that \<^verbatim>\<open>d[k] = v\<close> is \<open>AList.update\<close>, which replaces the value of a present key
  in place and appends a new key. \<open>str_in\<close>, \<open>json_get\<close>, \<open>json_set\<close> and \<open>json_truthy\<close> are
  Python's \<^verbatim>\<open>k in x\<close>, \<^verbatim>\<open>x[k]\<close>, \<^verbatim>\<open>x[k] = v\<close> and truth test on such values, with the
  exceptions they raise on values of the wrong type.

  \<open>update_items\<close> is the loop shape the function uses twice:
  \<^verbatim>\<open>for k, v in d.items(): ...; d[k] = v'\<close>, iterating over the dict's items while writing
  each value back under its own key. \<open>mark_field\<close> is the body of the inner loop
  (lines 46-50), \<open>needs_marking\<close> the condition of lines 40-44, \<open>mark_component\<close> one
  iteration of the outer loop, \<open>nullable_schema\<close> the two loops over the generated schema
  (lines 39-53) and \<open>custom_openapi\<close> the whole function with the application's cached
  schema \<^verbatim>\<open>app.openapi_schema\<close> as state (\<open>app_state\<close>). FastAPI's \<^verbatim>\<open>get_openapi\<close> is an
  interface: a function of the title and the version string.

  Next to the code, \<open>nullable_schema_spec\<close> states the effect as a map over the schemas
  (the components the guard of lines 40-44 skips are left as they are, against the
  comment of line 37), and \<open>schema_typed\<close> describes the schemas FastAPI generates: objects with
  distinct keys, \<^verbatim>\<open>required\<close> a list of strings, \<^verbatim>\<open>properties\<close> an object of objects.
\<close>

datatype json =
    JNull
  | JBool bool
  | JInt int
  | JStr string
  | JList "json list"
  | JObj "(string \<times> json) list"

fun json_truthy :: "json \<Rightarrow> bool" where
  "json_truthy JNull = False"
| "json_truthy (JBool b) = b"
| "json_truthy (JInt i) = (i \<noteq> 0)"
| "json_truthy (JStr s) = (s \<noteq> [])"
| "json_truthy (JList xs) = (xs \<noteq> [])"
| "json_truthy (JObj kvs) = (kvs \<noteq> [])"

fun str_in :: "string \<Rightarrow> json \<Rightarrow> bool result" where
  "str_in k (JObj kvs) = Inr (map_of kvs k \<noteq> None)"
| "str_in k (JList xs) = Inr (JStr k \<in> set xs)"
| "str_in k (JStr s) = Inr (sublist k s)"
| "str_in k _ = Inl TypeError"

fun json_get :: "json \<Rightarrow> string \<Rightarrow> json result" where
  "json_get (JObj kvs) k = (case map_of kvs k of Some v \<Rightarrow> Inr v | None \<Rightarrow> Inl (KeyError k))"
| "json_get _ k = Inl TypeError"

fun json_set :: "json \<Rightarrow> string \<Rightarrow> json \<Rightarrow> json result" where
  "json_set (JObj kvs) k v = Inr (JObj (AList.update k v kvs))"
| "json_set _ k v = Inl TypeError"

fun update_items ::
  "('k \<Rightarrow> 'v \<Rightarrow> 'v result) \<Rightarrow> ('k \<times> 'v) list \<Rightarrow> ('k \<times> 'v) list \<Rightarrow> ('k \<times> 'v) list result" where
  "update_items step d [] = Inr d"
| "update_items step d ((k, v) # items) =
     (case step k v of
        Inl e \<Rightarrow> Inl e
      | Inr v' \<Rightarrow> update_items step (AList.update k v' d) items)"

text \<open>The reference: the dict comprehension \<^verbatim>\<open>{k: f(k, v) for k, v in d.items()}\<close>,
  raising the first exception \<open>f\<close> raises.\<close>

fun map_result :: "('k \<Rightarrow> 'v \<Rightarrow> 'v result) \<Rightarrow> ('k \<times> 'v) list \<Rightarrow> ('k \<times> 'v) list result" where
  "map_result f [] = Inr []"
| "map_result f ((k, v) # kvs) =
     (case f k v of
        Inl e \<Rightarrow> Inl e
      | Inr v' \<Rightarrow> (case map_result f kvs of Inl e \<Rightarrow> Inl e | Inr kvs' \<Rightarrow> Inr ((k, v') # kvs')))"

definition mark_field :: "json \<Rightarrow> string \<Rightarrow> json \<Rightarrow> json result" where
  "mark_field req f_name field =
     (case str_in f_name req of
        Inl e \<Rightarrow> Inl e
      | Inr isin \<Rightarrow> (if \<not> isin then json_set field ''nullable'' (JBool True) else Inr field))"

definition needs_marking :: "json \<Rightarrow> bool result" where
  "needs_marking component =
     (case str_in ''required'' component of
        Inl e \<Rightarrow> Inl e
      | Inr False \<Rightarrow> Inr False
      | Inr True \<Rightarrow>
     (case json_get component ''required'' of
        Inl e \<Rightarrow> Inl e
      | Inr req \<Rightarrow>
     (if \<not> json_truthy req then Inr False else
     (case str_in ''properties'' component of
        Inl e \<Rightarrow> Inl e
      | Inr False \<Rightarrow> Inr False
      | Inr True \<Rightarrow>
     (case json_get component ''properties'' of
        Inl e \<Rightarrow> Inl e
      | Inr props \<Rightarrow> Inr (json_truthy props))))))"

definition mark_component :: "string \<Rightarrow> json \<Rightarrow> json result" where
  "mark_component name component =
     (case needs_marking component of
        Inl e \<Rightarrow> Inl e
      | Inr False \<Rightarrow> Inr component
      | Inr True \<Rightarrow>
     (case json_get component ''required'' of
        Inl e \<Rightarrow> Inl e
      | Inr req \<Rightarrow>
     (case json_get component ''properties'' of
        Inr (JObj props) \<Rightarrow>
          (case update_items (mark_field req) props props of
             Inl e \<Rightarrow> Inl e
           | Inr props' \<Rightarrow> json_set component ''properties'' (JObj props'))
      | Inr _ \<Rightarrow> Inl AttributeError
      | Inl e \<Rightarrow> Inl e)))"

definition nullable_schema :: "json \<Rightarrow> json result" where
  "nullable_schema schema =
     (case json_get schema ''components'' of
        Inl e \<Rightarrow> Inl e
      | Inr comps \<Rightarrow>
     (case json_get comps ''schemas'' of
        Inr (JObj schemas) \<Rightarrow>
          (case update_items mark_component schemas schemas of
             Inl e \<Rightarrow> Inl e
           | Inr schemas' \<Rightarrow>
          (case json_set comps ''schemas'' (JObj schemas') of
             Inl e \<Rightarrow> Inl e
           | Inr comps' \<Rightarrow> json_set schema ''components'' comps'))
      | Inr _ \<Rightarrow> Inl AttributeError
      | Inl e \<Rightarrow> Inl e))"

record app_state =
  openapi_schema :: "json option"

definition custom_openapi ::
  "(string \<Rightarrow> string \<Rightarrow> json) \<Rightarrow> 'o settings \<Rightarrow> app_state \<Rightarrow> json result \<times> app_state" where
  "custom_openapi get_openapi s app =
     (let generate =
            (case nullable_schema (get_openapi ''GW2 overlay things'' (openapi_version s)) of
               Inl e \<Rightarrow> (Inl e, app)
             | Inr j \<Rightarrow> (Inr j, app\<lparr>openapi_schema := Some j\<rparr>))
      in (case openapi_schema app of
            Some j \<Rightarrow> (if json_truthy j then (Inr j, app) else generate)
          | None \<Rightarrow> generate))"

section \<open>The intended effect\<close>

fun json_is_obj :: "json \<Rightarrow> bool" where
  "json_is_obj (JObj kvs) = True"
| "json_is_obj _ = False"

fun json_is_str :: "json \<Rightarrow> bool" where
  "json_is_str (JStr s) = True"
| "json_is_str _ = False"

definition component_typed :: "json \<Rightarrow> bool" where
  "component_typed c =
     (case c of
        JObj kvs \<Rightarrow>
          (case map_of kvs ''required'' of
             None \<Rightarrow> True
           | Some (JList rs) \<Rightarrow> list_all json_is_str rs
           | Some _ \<Rightarrow> False) \<and>
          (case map_of kvs ''properties'' of
             None \<Rightarrow> True
           | Some (JObj ps) \<Rightarrow> distinct (map fst ps) \<and> list_all (json_is_obj \<circ> snd) ps
           | Some _ \<Rightarrow> False)
      | _ \<Rightarrow> False)"

definition schema_typed :: "json \<Rightarrow> bool" where
  "schema_typed j =
     (case j of
        JObj kvs0 \<Rightarrow>
          (case map_of kvs0 ''components'' of
             Some (JObj comps) \<Rightarrow>
               (case map_of comps ''schemas'' of
                  Some (JObj schemas) \<Rightarrow> distinct (map fst schemas) \<and> list_all (component_typed \<circ> snd) schemas
                | _ \<Rightarrow> False)
           | _ \<Rightarrow> False)
      | _ \<Rightarrow> False)"

definition nullable_field :: "json \<Rightarrow> json" where
  "nullable_field v = (case v of JObj kvs \<Rightarrow> JObj (AList.update ''nullable'' (JBool True) kvs) | _ \<Rightarrow> v)"

definition nullable_prop :: "json list \<Rightarrow> string \<times> json \<Rightarrow> string \<times> json" where
  "nullable_prop rs fv = (fst fv, if JStr (fst fv) \<in> set rs then snd fv else nullable_field (snd fv))"

definition mark_component_spec :: "json \<Rightarrow> json" where
  "mark_component_spec c =
     (case c of
        JObj kvs \<Rightarrow>
          (case (map_of kvs ''required'', map_of kvs ''properties'') of
             (Some (JList rs), Some (JObj ps)) \<Rightarrow>
               (if rs \<noteq> [] \<and> ps \<noteq> [] then
                  JObj (AList.update ''properties'' (JObj (map (nullable_prop rs) ps)) kvs)
                else c)
           | _ \<Rightarrow> c)
      | _ \<Rightarrow> c)"

definition nullable_schema_spec :: "json \<Rightarrow> json" where
  "nullable_schema_spec j =
     (case j of
        JObj kvs0 \<Rightarrow>
          (case map_of kvs0 ''components'' of
             Some (JObj comps) \<Rightarrow>
               (case map_of comps ''schemas'' of
                  Some (JObj schemas) \<Rightarrow>
                    JObj (AList.update ''components''
                      (JObj (AList.update ''schemas''
                         (JObj (map (\<lambda>(n, c). (n, mark_component_spec c)) schemas)) comps)) kvs0)
                | _ \<Rightarrow> j)
           | _ \<Rightarrow> j)
      | _ \<Rightarrow> j)"

text \<open>A schema of the shape FastAPI generates for this application's response models,
  with \<^verbatim>\<open>build\<close> not required (as pydantic 1 declares an optional field).\<close>

definition example_openapi :: json where
  "example_openapi =
     JObj [(''openapi'', JStr ''3.1.0''),
       (''components'', JObj [(''schemas'', JObj [
          (''GoldData'', JObj [
             (''properties'', JObj [(''current'', JObj [(''type'', JStr ''string'')]),
                                   (''target'', JObj [(''type'', JStr ''string'')])]),
             (''required'', JList [JStr ''current'', JStr ''target''])]),
          (''Meta'', JObj [
             (''properties'', JObj [(''version'', JObj [(''type'', JStr ''string'')]),
                                   (''build'', JObj [(''type'', JStr ''string'')])]),
             (''required'', JList [JStr ''version''])]),
          (''HTTPValidationError'', JObj [
             (''properties'', JObj [(''detail'', JObj [(''type'', JStr ''array'')])]),
             (''type'', JStr ''object'')])])])]"

text \<open>The same schema after the post-processing: \<^verbatim>\<open>Meta.build\<close> is nullable;
  \<^verbatim>\<open>HTTPValidationError.detail\<close>, not required either, is not, since that component has no
  \<^verbatim>\<open>required\<close> list.\<close>

definition example_openapi_nullable :: json where
  "example_openapi_nullable =
     JObj [(''openapi'', JStr ''3.1.0''),
       (''components'', JObj [(''schemas'', JObj [
          (''GoldData'', JObj [
             (''properties'', JObj [(''current'', JObj [(''type'', JStr ''string'')]),
                                   (''target'', JObj [(''type'', JStr ''string'')])]),
             (''required'', JList [JStr ''current'', JStr ''target''])]),
          (''Meta'', JObj [
             (''properties'', JObj [(''version'', JObj [(''type'', JStr ''string'')]),
                                   (''build'', JObj [(''type'', JStr ''string''), (''nullable'', JBool True)])]),
             (''required'', JList [JStr ''version''])]),
          (''HTTPValidationError'', JObj [
             (''properties'', JObj [(''detail'', JObj [(''type'', JStr ''array'')])]),
             (''type'', JStr ''object'')])])])]"

definition example_settings :: "http_url settings" where
  "example_settings =
     \<lparr>ROOT_PATH = None, ORIGINS = [AnyHttpUrl ''http://localhost:8800/''], VERSION = ''UNKNOWN'', BUILD = ''UNKNOWN''\<rparr>"

section \<open>Lemmas\<close>

lemma update_append_other:
  "k \<notin> set (map fst xs) \<Longrightarrow> AList.update k v (xs @ (k, w) # ys) = xs @ (k, v) # ys"
  by (induction xs) auto

lemma update_items_map_result_gen:
  "distinct (map fst (xs @ ys)) \<Longrightarrow>
   update_items step (xs @ ys) ys =
     (case map_result step ys of Inl e \<Rightarrow> Inl e | Inr ys' \<Rightarrow> Inr (xs @ ys'))"
proof (induction ys arbitrary: xs)
  case Nil
  then show ?case by simp
next
  case (Cons y ys)
  obtain k v where y: "y = (k, v)" by fastforce
  show ?case
  proof (cases "step k v")
    case (Inl e)
    with y show ?thesis by simp
  next
    case (Inr v')
    have notin: "k \<notin> set (map fst xs)" using Cons.prems y by auto
    have "AList.update k v' (xs @ (k, v) # ys) = (xs @ [(k, v')]) @ ys"
      using update_append_other [OF notin] by simp
    moreover have "distinct (map fst ((xs @ [(k, v')]) @ ys))" using Cons.prems y by auto
    ultimately show ?thesis
      using Cons.IH [of "xs @ [(k, v')]"] Inr y by (simp split: sum.split)
  qed
qed

lemma map_result_Inr:
  "\<forall>(k, v) \<in> set d. step k v = Inr (g k v) \<Longrightarrow> map_result step d = Inr (map (\<lambda>(k, v). (k, g k v)) d)"
  by (induction d) auto

lemma update_items_map_all:
  "distinct (map fst d) \<Longrightarrow> \<forall>(k, v) \<in> set d. step k v = Inr (g k v) \<Longrightarrow>
   update_items step d d = Inr (map (\<lambda>(k, v). (k, g k v)) d)"
  using update_items_map_result_gen [of "[]" d step] map_result_Inr [of d step g] by simp

lemma mark_field_obj:
  "json_is_obj v \<Longrightarrow>
   mark_field (JList rs) f v = Inr (if JStr f \<in> set rs then v else nullable_field v)"
  by (cases v) (simp_all add: mark_field_def nullable_field_def)

lemma mark_component_spec_eq:
  assumes "component_typed c"
  shows "mark_component n c = Inr (mark_component_spec c)"
proof -
  obtain kvs where c: "c = JObj kvs"
    using assms by (cases c) (auto simp: component_typed_def)
  show ?thesis
  proof (cases "map_of kvs ''required''")
    case None
    then show ?thesis using c by (simp add: mark_component_def needs_marking_def mark_component_spec_def)
  next
    case (Some req)
    with assms c obtain rs where rs: "req = JList rs"
      by (cases req) (auto simp: component_typed_def)
    show ?thesis
    proof (cases "map_of kvs ''properties''")
      case None
      then show ?thesis using c Some rs
        by (simp add: mark_component_def needs_marking_def mark_component_spec_def)
    next
      case (Some pr)
      with assms c obtain ps where ps: "pr = JObj ps" "distinct (map fst ps)" "list_all (json_is_obj \<circ> snd) ps"
        by (cases pr) (auto simp: component_typed_def)
      have "update_items (mark_field (JList rs)) ps ps =
              Inr (map (\<lambda>(f, v). (f, if JStr f \<in> set rs then v else nullable_field v)) ps)"
        using ps(2,3) by (intro update_items_map_all) (auto simp: list_all_iff mark_field_obj)
      also have "map (\<lambda>(f, v). (f, if JStr f \<in> set rs then v else nullable_field v)) ps = map (nullable_prop rs) ps"
        by (simp add: nullable_prop_def case_prod_beta)
      finally have loop: "update_items (mark_field (JList rs)) ps ps = Inr (map (nullable_prop rs) ps)" .
      with loop c Some \<open>map_of kvs ''required'' = Some req\<close> rs ps(1) show ?thesis
        by (simp add: mark_component_def needs_marking_def mark_component_spec_def)
    qed
  qed
qed

lemma schema_typedE:
  assumes "schema_typed j"
  obtains kvs0 comps schemas where "j = JObj kvs0" "map_of kvs0 ''components'' = Some (JObj comps)"
    "map_of comps ''schemas'' = Some (JObj schemas)" "distinct (map fst schemas)"
    "list_all (component_typed \<circ> snd) schemas"
proof -
  obtain kvs0 where j: "j = JObj kvs0"
    using assms by (cases j) (auto simp: schema_typed_def)
  obtain comps where c: "map_of kvs0 ''components'' = Some (JObj comps)"
    using assms j by (cases "map_of kvs0 ''components''") (auto simp: schema_typed_def split: json.splits)
  obtain schemas where s: "map_of comps ''schemas'' = Some (JObj schemas)"
    using assms j c by (cases "map_of comps ''schemas''") (auto simp: schema_typed_def split: json.splits)
  have "distinct (map fst schemas)" "list_all (component_typed \<circ> snd) schemas"
    using assms j c s by (simp_all add: schema_typed_def)
  with j c s that show ?thesis by blast
qed

lemma nullable_schema_spec_eq:
  assumes "schema_typed j"
  shows "nullable_schema j = Inr (nullable_schema_spec j)"
proof -
  obtain kvs0 comps schemas where j: "j = JObj kvs0" and c: "map_of kvs0 ''components'' = Some (JObj comps)"
    and s: "map_of comps ''schemas'' = Some (JObj schemas)" and d: "distinct (map fst schemas)"
    and t: "list_all (component_typed \<circ> snd) schemas"
    using assms by (rule schema_typedE)
  have "update_items mark_component schemas schemas =
          Inr (map (\<lambda>(n, c). (n, mark_component_spec c)) schemas)"
    using d t by (intro update_items_map_all) (auto simp: list_all_iff mark_component_spec_eq)
  with j c s show ?thesis by (simp add: nullable_schema_def nullable_schema_spec_def)
qed

lemma json_set_truthy: "json_set x k v = Inr y \<Longrightarrow> json_truthy y"
  by (cases x) (auto simp: AList.update_nonempty)

lemma nullable_schema_truthy: "nullable_schema j = Inr j' \<Longrightarrow> json_truthy j'"
  by (auto simp: nullable_schema_def json_set_truthy split: sum.splits json.splits)

lemma example_openapi_typed: "schema_typed example_openapi"
  by (simp add: example_openapi_def schema_typed_def component_typed_def)

lemma example_openapi_spec: "nullable_schema_spec example_openapi = example_openapi_nullable"
  by (simp add: example_openapi_def example_openapi_nullable_def nullable_schema_spec_def
      mark_component_spec_def nullable_prop_def nullable_field_def)

lemma custom_openapi_saves:
  "custom_openapi get_openapi s app = (Inr j, app') \<Longrightarrow> openapi_schema app' = Some j \<and> json_truthy j"
  by (auto simp: custom_openapi_def Let_def nullable_schema_truthy split: option.splits if_splits sum.splits)

section \<open>Properties of the OpenAPI post-processing\<close>

text \<open>C28: on the schemas FastAPI generates, the post-processing raises nothing and its
  in-place loops compute exactly this map: every component with a non-empty
  \<^verbatim>\<open>required\<close> list and non-empty \<^verbatim>\<open>properties\<close> has each property not in
  \<^verbatim>\<open>required\<close> marked \<^verbatim>\<open>nullable: true\<close>, and nothing else changes, keys keeping their
  order. So the fields of a component without a \<^verbatim>\<open>required\<close> list, or with an empty one,
  stay non-nullable although none of them is required, unlike what the comment of line 37
  (\<^verbatim>\<open>Make fields that are not required nullable\<close>) says; the witness shows it on
  FastAPI's own \<^verbatim>\<open>HTTPValidationError\<close>.\<close>

theorem nullable_schema_refines:
  "schema_typed j \<Longrightarrow> nullable_schema j = Inr (nullable_schema_spec j)"
  by (rule nullable_schema_spec_eq)

theorem nullable_schema_refines_witness:
  "nullable_schema example_openapi = Inr example_openapi_nullable"
  using nullable_schema_refines [OF example_openapi_typed] by (simp add: example_openapi_spec)

text \<open>C29: the schema is computed once: after a call that returns a schema, every later
  call returns the same schema and leaves the application's state as it is, whatever
  \<^verbatim>\<open>get_openapi\<close> and the settings would now give.\<close>

theorem custom_openapi_cached:
  "custom_openapi get_openapi s app = (Inr j, app') \<Longrightarrow>
   custom_openapi get_openapi' s' app' = (Inr j, app')"
  using custom_openapi_saves [of get_openapi s app j app'] by (simp add: custom_openapi_def)

theorem custom_openapi_cached_witness:
  "custom_openapi (\<lambda>t v. example_openapi) example_settings \<lparr>openapi_schema = None\<rparr> =
     (Inr example_openapi_nullable, \<lparr>openapi_schema = Some example_openapi_nullable\<rparr>) \<and>
   custom_openapi (\<lambda>t v. JNull) example_settings \<lparr>openapi_schema = Some example_openapi_nullable\<rparr> =
     (Inr example_openapi_nullable, \<lparr>openapi_schema = Some example_openapi_nullable\<rparr>)"
proof -
  have first: "custom_openapi (\<lambda>t v. example_openapi) example_settings \<lparr>openapi_schema = None\<rparr> =
     (Inr example_openapi_nullable, \<lparr>openapi_schema = Some example_openapi_nullable\<rparr>)"
    by (simp add: custom_openapi_def nullable_schema_spec_eq [OF example_openapi_typed] example_openapi_spec)
  show ?thesis
    using first custom_openapi_cached [OF first, of "\<lambda>t v. JNull" example_settings] by simp
qed

end
