(* ===== verification/Cors.thy ===== *)
theory Cors
  imports Settings "HOL-Library.AList" "HOL-Library.List_Lexorder" "HOL-Library.Char_ord"
begin

text \<open>
  The CORS middleware of \<^verbatim>\<open>src/main.py\<close> (lines 61-67): Starlette's
  \<^verbatim>\<open>CORSMiddleware\<close> built with \<^verbatim>\<open>allow_origins=settings.ORIGINS\<close>, credentials allowed
  and every method and header. The middleware decides whether a cross-origin request
  may read the response by Python's \<^verbatim>\<open>in\<close> on its list of origins, that is by
  \<^verbatim>\<open>==\<close> between the request's \<^verbatim>\<open>Origin\<close> header, a \<^verbatim>\<open>str\<close>, and the configured
  entries. The Python objects that meet in that comparison are \<open>py_obj\<close>: a string or a
  pydantic URL object, which compares equal only to a URL object of the same class with
  the same text (\<open>py_eq\<close>). Modelled: \<^verbatim>\<open>allow_all_origins\<close> (\<^verbatim>\<open>"*" in allow_origins\<close>),
  \<^verbatim>\<open>is_allowed_origin\<close> (no \<^verbatim>\<open>allow_origin_regex\<close> is given) and the
  \<^verbatim>\<open>Access-Control-Allow-Origin\<close> header a simple response gets (\<open>cors_allow_origin\<close>,
  the contract), the constructor's derived fields (\<open>cors_methods\<close>, \<open>simple_headers\<close>,
  \<open>preflight_headers\<close>), \<^verbatim>\<open>preflight_response\<close> (\<open>cors_preflight\<close>: status, the
  header dict, body) and the rewriting of a simple response's headers (\<open>cors_simple\<close>,
  over Starlette's \<^verbatim>\<open>MutableHeaders\<close>, whose names are lower case and whose assignment
  replaces the first entry of the name in place, deleting the others, or appends it:
  \<open>headers_set\<close>; the preflight's header dict is updated with \<open>AList.update\<close>). No \<^verbatim>\<open>expose_headers\<close>
  and the default \<^verbatim>\<open>max_age\<close> 600 are given. Python's \<^verbatim>\<open>str.lower\<close> and
  \<^verbatim>\<open>str.strip\<close> are written out on the 8-bit characters (\<open>py_lower\<close>, \<open>py_strip\<close>).
\<close>

datatype py_obj = PyStr string | PyUrl http_url

fun py_eq :: "py_obj \<Rightarrow> py_obj \<Rightarrow> bool" where
  "py_eq (PyStr a) (PyStr b) = (a = b)"
| "py_eq (PyUrl u) (PyUrl v) = (u = v)"
| "py_eq _ _ = False"

text \<open>\<^verbatim>\<open>x in xs\<close> on a list.\<close>

definition py_in :: "py_obj \<Rightarrow> py_obj list \<Rightarrow> bool" where
  "py_in x xs = list_ex (py_eq x) xs"

record cors_mw =
  allow_origins :: "py_obj list"
  allow_credentials :: bool
  allow_methods :: "string list"
  allow_headers :: "string list"

text \<open>\<^verbatim>\<open>app.add_middleware(CORSMiddleware, ...)\<close> with the application's settings.\<close>

definition app_cors :: "http_url settings \<Rightarrow> cors_mw" where
  "app_cors s =
     \<lparr>allow_origins = map PyUrl (ORIGINS s), allow_credentials = True,
      allow_methods = [''*''], allow_headers = [''*'']\<rparr>"

definition allow_all_origins :: "cors_mw \<Rightarrow> bool" where
  "allow_all_origins c = py_in (PyStr ''*'') (allow_origins c)"

definition is_allowed_origin :: "cors_mw \<Rightarrow> string \<Rightarrow> bool" where
  "is_allowed_origin c origin = (allow_all_origins c \<or> py_in (PyStr origin) (allow_origins c))"

text \<open>The \<^verbatim>\<open>Access-Control-Allow-Origin\<close> header the middleware puts on the response to a
  request with an \<^verbatim>\<open>Origin\<close> header (that is not a preflight): \<^verbatim>\<open>*\<close> among the simple
  headers when every origin is allowed, overwritten by the request's origin when the
  request carries a cookie; the request's origin when it is explicitly allowed; else none,
  and the browser withholds the response from the page.\<close>

definition cors_allow_origin :: "cors_mw \<Rightarrow> string \<Rightarrow> bool \<Rightarrow> string option" where
  "cors_allow_origin c origin has_cookie =
     (if allow_all_origins c then (if has_cookie then Some origin else Some ''*'')
      else if is_allowed_origin c origin then Some origin else None)"

text \<open>\<^verbatim>\<open>str.lower\<close> and \<^verbatim>\<open>str.strip()\<close> on characters up to U+00FF: the upper-case
  letters are A-Z and U+00C0-U+00DE but U+00D7; the white space is U+0009-U+000D,
  U+001C-U+001F, the space, U+0085 and U+00A0.\<close>

definition py_lower_char :: "char \<Rightarrow> char" where
  "py_lower_char c =
     (let n = of_char c :: nat in
      if 65 \<le> n \<and> n \<le> 90 \<or> 192 \<le> n \<and> n \<le> 222 \<and> n \<noteq> 215 then char_of (n + 32) else c)"

definition py_lower :: "string \<Rightarrow> string" where
  "py_lower s = map py_lower_char s"

definition py_space :: "char \<Rightarrow> bool" where
  "py_space c = (let n = of_char c :: nat in 9 \<le> n \<and> n \<le> 13 \<or> 28 \<le> n \<and> n \<le> 32 \<or> n = 133 \<or> n = 160)"

definition py_strip :: "string \<Rightarrow> string" where
  "py_strip s = rev (dropWhile py_space (rev (dropWhile py_space s)))"

text \<open>The constructor of the middleware: \<^verbatim>\<open>"*"\<close> among the methods stands for all of
  them, the header names allowed are the safelisted ones and the given ones, sorted.\<close>

definition all_methods :: "string list" where
  "all_methods = [''DELETE'', ''GET'', ''HEAD'', ''OPTIONS'', ''PATCH'', ''POST'', ''PUT'']"

definition safelisted_headers :: "string list" where
  "safelisted_headers = [''Accept'', ''Accept-Language'', ''Content-Language'', ''Content-Type'']"

definition cors_methods :: "cors_mw \<Rightarrow> string list" where
  "cors_methods c = (if ''*'' \<in> set (allow_methods c) then all_methods else allow_methods c)"

definition allow_all_headers :: "cors_mw \<Rightarrow> bool" where
  "allow_all_headers c = (''*'' \<in> set (allow_headers c))"

definition cors_header_names :: "cors_mw \<Rightarrow> string list" where
  "cors_header_names c = sort (remdups (safelisted_headers @ allow_headers c))"

definition preflight_explicit_allow_origin :: "cors_mw \<Rightarrow> bool" where
  "preflight_explicit_allow_origin c = (\<not> allow_all_origins c \<or> allow_credentials c)"

definition simple_headers :: "cors_mw \<Rightarrow> (string \<times> string) list" where
  "simple_headers c =
     (if allow_all_origins c then [(''Access-Control-Allow-Origin'', ''*'')] else []) @
     (if allow_credentials c then [(''Access-Control-Allow-Credentials'', ''true'')] else [])"

definition preflight_headers :: "cors_mw \<Rightarrow> (string \<times> string) list" where
  "preflight_headers c =
     (if preflight_explicit_allow_origin c then [(''Vary'', ''Origin'')]
      else [(''Access-Control-Allow-Origin'', ''*'')]) @
     [(''Access-Control-Allow-Methods'', str_join '', '' (cors_methods c)),
      (''Access-Control-Max-Age'', ''600'')] @
     (if cors_header_names c \<noteq> [] \<and> \<not> allow_all_headers c
      then [(''Access-Control-Allow-Headers'', str_join '', '' (cors_header_names c))] else []) @
     (if allow_credentials c then [(''Access-Control-Allow-Credentials'', ''true'')] else [])"

text \<open>\<^verbatim>\<open>preflight_response\<close>: the requested origin, method and (optional) headers; the
  result is the status, the header dict and the plain-text body.\<close>

definition cors_preflight ::
  "cors_mw \<Rightarrow> string \<Rightarrow> string \<Rightarrow> string option \<Rightarrow> nat \<times> (string \<times> string) list \<times> string" where
  "cors_preflight c origin meth req_hdrs =
     (let h0 = preflight_headers c;
          ok = is_allowed_origin c origin;
          h1 = (if ok \<and> preflight_explicit_allow_origin c
                then AList.update ''Access-Control-Allow-Origin'' origin h0 else h0);
          f1 = (if ok then [] else [''origin'']);
          f2 = (if meth \<in> set (cors_methods c) then [] else [''method'']);
          (h2, f3) =
            (case req_hdrs of
               None \<Rightarrow> (h1, [])
             | Some rh \<Rightarrow>
                 (if allow_all_headers c then (AList.update ''Access-Control-Allow-Headers'' rh h1, [])
                  else (h1, if list_all (\<lambda>h. py_strip h \<in> set (map py_lower (cors_header_names c)))
                                 (map py_lower (py_split CHR '','' rh))
                            then [] else [''headers''])));
          fs = f1 @ f2 @ f3
      in if fs \<noteq> [] then (400, h2, ''Disallowed CORS '' @ str_join '', '' fs) else (200, h2, ''OK''))"

text \<open>\<^verbatim>\<open>allow_explicit_origin\<close> and the \<^verbatim>\<open>send\<close> wrapper of a simple response: the
  simple headers are set, then the request's origin when every origin is allowed and the
  request carries a cookie, or when the origin is explicitly allowed, with
  \<^verbatim>\<open>Origin\<close> added to \<^verbatim>\<open>Vary\<close>.\<close>

fun headers_set :: "string \<Rightarrow> string \<Rightarrow> (string \<times> string) list \<Rightarrow> (string \<times> string) list" where
  "headers_set k v [] = [(k, v)]"
| "headers_set k v (p # hs) =
     (if fst p = k then (k, v) # filter (\<lambda>q. fst q \<noteq> k) hs else p # headers_set k v hs)"

definition add_vary_origin :: "(string \<times> string) list \<Rightarrow> (string \<times> string) list" where
  "add_vary_origin hs =
     headers_set ''vary'' (case map_of hs ''vary'' of None \<Rightarrow> ''Origin'' | Some v \<Rightarrow> v @ '', Origin'') hs"

definition allow_explicit_origin :: "string \<Rightarrow> (string \<times> string) list \<Rightarrow> (string \<times> string) list" where
  "allow_explicit_origin origin hs = add_vary_origin (headers_set ''access-control-allow-origin'' origin hs)"

definition cors_simple ::
  "cors_mw \<Rightarrow> string \<Rightarrow> bool \<Rightarrow> (string \<times> string) list \<Rightarrow> (string \<times> string) list" where
  "cors_simple c origin has_cookie hs =
     (let hs1 = fold (\<lambda>(k, v). headers_set (py_lower k) v) (simple_headers c) hs
      in if allow_all_origins c \<and> has_cookie then allow_explicit_origin origin hs1
         else if \<not> allow_all_origins c \<and> is_allowed_origin c origin then allow_explicit_origin origin hs1
         else hs1)"

text \<open>The configuration the code presumably means: the origins as strings, the URL's
  text without the trailing slash pydantic adds (as \<^verbatim>\<open>str(o).rstrip("/")\<close> would
  give), which is how a browser writes an \<^verbatim>\<open>Origin\<close> header.\<close>

fun url_origin :: "http_url \<Rightarrow> string" where
  "url_origin (AnyHttpUrl u) = (if u \<noteq> [] \<and> last u = CHR ''/'' then butlast u else u)"

definition app_cors_str :: "http_url settings \<Rightarrow> cors_mw" where
  "app_cors_str s = (app_cors s)\<lparr>allow_origins := map (PyStr \<circ> url_origin) (ORIGINS s)\<rparr>"

section \<open>Lemmas\<close>

lemma py_in_str_url: "\<not> py_in (PyStr a) (map PyUrl us)"
  by (induction us) (auto simp: py_in_def)

lemma py_in_str_str: "py_in (PyStr a) (map (PyStr \<circ> f) xs) \<longleftrightarrow> a \<in> f ` set xs"
  by (induction xs) (auto simp: py_in_def)

lemma app_cors_not_all: "\<not> allow_all_origins (app_cors s)"
  by (simp add: allow_all_origins_def app_cors_def py_in_str_url)

lemma map_of_filter_key: "map_of (filter (\<lambda>q. fst q \<noteq> k) hs) = (map_of hs)(k := None)"
  by (induction hs) (auto simp: fun_eq_iff)

lemma map_of_headers_set: "map_of (headers_set k v hs) = (map_of hs)(k \<mapsto> v)"
  by (induction hs) (auto simp: fun_eq_iff map_of_filter_key)

lemma py_lower_cors_names:
  "py_lower ''Access-Control-Allow-Origin'' = ''access-control-allow-origin''"
  "py_lower ''Access-Control-Allow-Credentials'' = ''access-control-allow-credentials''"
  by (simp_all add: py_lower_def py_lower_char_def char_of_def bit_0)

lemma cors_simple_refines:
  assumes "map_of hs ''access-control-allow-origin'' = None"
  shows "map_of (cors_simple c origin ck hs) ''access-control-allow-origin'' = cors_allow_origin c origin ck"
  using assms
  by (simp add: cors_simple_def cors_allow_origin_def simple_headers_def allow_explicit_origin_def
      add_vary_origin_def map_of_headers_set py_lower_cors_names Let_def)

lemma app_cors_fields [simp]:
  "allow_origins (app_cors s) = map PyUrl (ORIGINS s)" "allow_credentials (app_cors s) = True"
  "allow_methods (app_cors s) = [''*'']" "allow_headers (app_cors s) = [''*'']"
  by (simp_all add: app_cors_def)

lemma cors_preflight_app:
  "cors_preflight (app_cors s) origin meth rh =
     (400, (case rh of None \<Rightarrow> preflight_headers (app_cors s)
            | Some h \<Rightarrow> AList.update ''Access-Control-Allow-Headers'' h (preflight_headers (app_cors s))),
      ''Disallowed CORS origin'' @ (if meth \<in> set all_methods then [] else '', method''))"
  by (cases rh) (simp_all add: cors_preflight_def is_allowed_origin_def app_cors_not_all cors_methods_def
      allow_all_headers_def py_in_str_url Let_def)

text \<open>C14: whatever the environment, once the settings load, the middleware lets no
  cross-origin page read a response, not even one from a configured origin: the
  configured origins are pydantic URL objects, and the request's \<^verbatim>\<open>Origin\<close> string is
  never equal to one.\<close>

theorem cors_no_origin_allowed:
  assumes "settings_of lib env = Inr s"
  shows "\<not> is_allowed_origin (app_cors s) origin \<and> cors_allow_origin (app_cors s) origin ck = None"
  by (simp add: cors_allow_origin_def is_allowed_origin_def app_cors_not_all)
     (simp add: app_cors_def py_in_str_url)

theorem cors_no_origin_allowed_witness:
  "settings_of example_lib (\<lambda>k. None) =
     Inr \<lparr>ROOT_PATH = None, ORIGINS = [AnyHttpUrl ''http://localhost:8800/''], VERSION = ''UNKNOWN'', BUILD = ''UNKNOWN''\<rparr> \<and>
   cors_allow_origin (app_cors \<lparr>ROOT_PATH = None, ORIGINS = [AnyHttpUrl ''http://localhost:8800/''],
       VERSION = ''UNKNOWN'', BUILD = ''UNKNOWN''\<rparr>) ''http://localhost:8800'' False = None"
proof -
  have load: "settings_of example_lib (\<lambda>k. None) =
     Inr \<lparr>ROOT_PATH = None, ORIGINS = [AnyHttpUrl ''http://localhost:8800/''], VERSION = ''UNKNOWN'', BUILD = ''UNKNOWN''\<rparr>"
    by (simp add: settings_of_def settings_defaults_def env_get_def example_lib_def)
  show ?thesis
    using load cors_no_origin_allowed [OF load, of "''http://localhost:8800''" False] by simp
qed

text \<open>With the origins given as strings, the middleware allows exactly the configured
  origins (all of them when one is \<^verbatim>\<open>*\<close>): the check itself refuses nothing by
  construction.\<close>

theorem app_cors_str_allows:
  "is_allowed_origin (app_cors_str s) origin \<longleftrightarrow>
   ''*'' \<in> url_origin ` set (ORIGINS s) \<or> origin \<in> url_origin ` set (ORIGINS s)"
  by (auto simp: is_allowed_origin_def allow_all_origins_def app_cors_str_def app_cors_def
      py_in_str_str)

end
