(* ===== verification/App.thy ===== *)
theory App
  imports Handlers Openapi Cors
begin

text \<open>
  The application of \<^verbatim>\<open>src/main.py\<close> as one server: the FastAPI object built at import
  (line 12, its \<^verbatim>\<open>openapi\<close> hook replaced at line 59 and the CORS middleware added at
  lines 61-67), its routes (the \<^verbatim>\<open>@app.get\<close> decorators of lines 70, 75 and 197, after
  the documentation routes FastAPI adds itself) and the stack a request goes through:
  Starlette's \<^verbatim>\<open>ServerErrorMiddleware\<close>, which turns an uncaught exception into a bare
  500 response, then the CORS middleware, then the exception middleware (404, 405 and the
  422 of a failed query validation) and the router. The process state the requests share
  is \<open>world\<close>: the process-wide locale and the application's cached schema.
  \<open>app_call\<close> serves one request, \<open>app_run\<close> a sequence of requests one after another.

  Responses are the status, the header list (lower-case names, as Starlette sends them)
  and the body; a body is kept as the value the handler returned (the HTML page, the
  \<^verbatim>\<open>GoldData\<close> or \<^verbatim>\<open>Meta\<close> model, the schema) rather than its serialisation, and the
  detail of a 422 and the \<^verbatim>\<open>content-length\<close> and \<^verbatim>\<open>allow\<close> headers are left out. The
  router matches the path relative to the root path; how a proxy and the ASGI server
  present the root path is outside the model.
\<close>

record fastapi_app =
  app_root_path :: "string option"
  app_openapi :: "(string \<Rightarrow> string \<Rightarrow> json) \<Rightarrow> http_url settings \<Rightarrow> app_state \<Rightarrow> json result \<times> app_state"
  app_middleware :: cors_mw

definition app_of :: "http_url settings \<Rightarrow> fastapi_app" where
  "app_of s = \<lparr>app_root_path = ROOT_PATH s, app_openapi = custom_openapi, app_middleware = app_cors s\<rparr>"

record app_env =
  env_api :: gw2_api
  env_ls :: locale_sys
  env_get_openapi :: "string \<Rightarrow> string \<Rightarrow> json"
  env_settings :: "http_url settings"

record world =
  w_locale :: lconv
  w_app :: app_state

record http_req =
  rq_method :: string
  rq_path :: string
  rq_query :: "(string \<times> string) list"
  rq_request :: request

datatype resp_body =
    HtmlBody string
  | DataBody gold_data_resp
  | MetaBody meta
  | SchemaBody json
  | DocsBody string
  | DetailBody string
  | ValidationErrorBody
  | RedirectBody string
  | TextBody string

record http_resp =
  rs_status :: nat
  rs_headers :: "(string \<times> string) list"
  rs_body :: resp_body

definition json_resp :: "nat \<Rightarrow> resp_body \<Rightarrow> http_resp" where
  "json_resp st b = \<lparr>rs_status = st, rs_headers = [(''content-type'', ''application/json'')], rs_body = b\<rparr>"

definition html_resp :: "resp_body \<Rightarrow> http_resp" where
  "html_resp b = \<lparr>rs_status = 200, rs_headers = [(''content-type'', ''text/html; charset=utf-8'')], rs_body = b\<rparr>"

definition server_error :: http_resp where
  "server_error =
     \<lparr>rs_status = 500, rs_headers = [(''content-type'', ''text/plain; charset=utf-8'')],
      rs_body = TextBody ''Internal Server Error''\<rparr>"

text \<open>The query of \<^verbatim>\<open>GET /gold\<close> (lines 76-82): \<^verbatim>\<open>apikey\<close> required, \<^verbatim>\<open>item\<close> optional,
  \<^verbatim>\<open>text\<close> defaulting to \<^verbatim>\<open>Gold\<close>, \<^verbatim>\<open>target\<close> and \<^verbatim>\<open>interval\<close> ints defaulting to 0
  and 60; a repeated parameter counts with its last value.\<close>

definition int_param :: "(string \<Rightarrow> string option) \<Rightarrow> string \<Rightarrow> int \<Rightarrow> int option" where
  "int_param g k d = (case g k of None \<Rightarrow> Some d | Some v \<Rightarrow> parse_int v)"

definition gold_query ::
  "(string \<times> string) list \<Rightarrow> (string \<times> string option \<times> string \<times> int \<times> int) result" where
  "gold_query q =
     (let g = map_of (rev q) in
      case g ''apikey'' of
        None \<Rightarrow> Inl (ValidationError ''apikey'')
      | Some k \<Rightarrow>
          (case int_param g ''target'' 0 of
             None \<Rightarrow> Inl (ValidationError ''target'')
           | Some t \<Rightarrow>
               (case int_param g ''interval'' 60 of
                  None \<Rightarrow> Inl (ValidationError ''interval'')
                | Some iv \<Rightarrow> Inr (k, g ''item'', case g ''text'' of None \<Rightarrow> ''Gold'' | Some x \<Rightarrow> x, t, iv))))"

text \<open>The route table in the router's order: FastAPI's schema and documentation routes,
  which answer \<^verbatim>\<open>GET\<close> and \<^verbatim>\<open>HEAD\<close>, then the three routes of the module, which answer
  \<^verbatim>\<open>GET\<close> only.\<close>

definition api_routes :: "(string \<times> string list) list" where
  "api_routes =
     [(''/openapi.json'', [''GET'', ''HEAD'']), (''/docs'', [''GET'', ''HEAD'']),
      (''/docs/oauth2-redirect'', [''GET'', ''HEAD'']), (''/redoc'', [''GET'', ''HEAD'']),
      (''/meta'', [''GET'']), (''/gold'', [''GET'']), (''/gold_data'', [''GET''])]"

text \<open>The endpoint of a matched route; an exception of the handler is \<open>Inl\<close>.\<close>

definition endpoint :: "app_env \<Rightarrow> fastapi_app \<Rightarrow> http_req \<Rightarrow> world \<Rightarrow> http_resp result \<times> world" where
  "endpoint e a r w =
     (if rq_path r = ''/openapi.json'' then
        (case app_openapi a (env_get_openapi e) (env_settings e) (w_app w) of
           (Inl err, st) \<Rightarrow> (Inl err, w\<lparr>w_app := st\<rparr>)
         | (Inr j, st) \<Rightarrow> (Inr (json_resp 200 (SchemaBody j)), w\<lparr>w_app := st\<rparr>))
      else if rq_path r = ''/meta'' then (Inr (json_resp 200 (MetaBody (meta_handler (env_settings e)))), w)
      else if rq_path r = ''/gold'' then
        (case gold_query (rq_query r) of
           Inl err \<Rightarrow> (Inr (json_resp 422 ValidationErrorBody), w)
         | Inr (k, it, txt, t, iv) \<Rightarrow>
             (case gold_page (env_api e) (env_ls e) (rq_request r) k it txt t iv (w_locale w) of
                (Inl err, lc) \<Rightarrow> (Inl err, w\<lparr>w_locale := lc\<rparr>)
              | (Inr h, lc) \<Rightarrow> (Inr (html_resp (HtmlBody h)), w\<lparr>w_locale := lc\<rparr>)))
      else if rq_path r = ''/gold_data'' then
        (case query_args (rq_query r) of
           Inl err \<Rightarrow> (Inr (json_resp 422 ValidationErrorBody), w)
         | Inr (k, it, t) \<Rightarrow>
             (case gold_data (env_api e) (env_ls e) (rq_request r) k it t (w_locale w) of
                (Inl err, lc) \<Rightarrow> (Inl err, w\<lparr>w_locale := lc\<rparr>)
              | (Inr d, lc) \<Rightarrow> (Inr (json_resp 200 (DataBody d)), w\<lparr>w_locale := lc\<rparr>)))
      else (Inr (html_resp (DocsBody (rq_path r))), w))"

text \<open>The router: a full match runs the endpoint; a path that matches with another method
  answers 405; otherwise, when the path with its trailing slash toggled matches (a
  trailing slash removed with \<^verbatim>\<open>rstrip("/")\<close>), a 307 redirect; else 404.\<close>

definition slash_toggle :: "string \<Rightarrow> string" where
  "slash_toggle p =
     (if p \<noteq> [] \<and> last p = CHR ''/'' then rev (dropWhile (\<lambda>c. c = CHR ''/'') (rev p)) else p @ ''/'')"

definition router :: "app_env \<Rightarrow> fastapi_app \<Rightarrow> http_req \<Rightarrow> world \<Rightarrow> http_resp result \<times> world" where
  "router e a r w =
     (case map_of api_routes (rq_path r) of
        Some ms \<Rightarrow>
          (if rq_method r \<in> set ms then endpoint e a r w
           else (Inr (json_resp 405 (DetailBody ''Method Not Allowed'')), w))
      | None \<Rightarrow>
          (if rq_path r \<noteq> ''/'' \<and> map_of api_routes (slash_toggle (rq_path r)) \<noteq> None
           then (Inr \<lparr>rs_status = 307, rs_headers = [], rs_body = RedirectBody (slash_toggle (rq_path r))\<rparr>, w)
           else (Inr (json_resp 404 (DetailBody ''Not Found'')), w)))"

text \<open>One request through the whole stack. Without an \<^verbatim>\<open>Origin\<close> header the middleware
  passes the request on; a preflight (\<^verbatim>\<open>OPTIONS\<close> with
  \<^verbatim>\<open>Access-Control-Request-Method\<close>) is answered by the middleware itself; any other
  request with an origin is served and its response headers rewritten. An exception
  reaches \<^verbatim>\<open>ServerErrorMiddleware\<close>, outside the CORS middleware, and becomes a 500
  without CORS headers; the state changes the handler made before raising remain.\<close>

definition app_call :: "app_env \<Rightarrow> http_req \<Rightarrow> world \<Rightarrow> http_resp \<times> world" where
  "app_call e r w =
     (let a = app_of (env_settings e); c = app_middleware a; hd = req_headers (rq_request r);
          serve = (\<lambda>f. case router e a r w of
                          (Inl err, w') \<Rightarrow> (server_error, w')
                        | (Inr rs, w') \<Rightarrow> (f rs, w'))
      in case hd ''origin'' of
           None \<Rightarrow> serve id
         | Some origin \<Rightarrow>
             (case (rq_method r = ''OPTIONS'', hd ''access-control-request-method'') of
                (True, Some m) \<Rightarrow>
                  (case cors_preflight c origin m (hd ''access-control-request-headers'') of
                     (st, hs, txt) \<Rightarrow> (\<lparr>rs_status = st, rs_headers = hs, rs_body = TextBody txt\<rparr>, w))
              | _ \<Rightarrow> serve (\<lambda>rs. rs\<lparr>rs_headers := cors_simple c origin (hd ''cookie'' \<noteq> None) (rs_headers rs)\<rparr>)))"

fun app_run :: "app_env \<Rightarrow> world \<Rightarrow> http_req list \<Rightarrow> http_resp list \<times> world" where
  "app_run e w [] = ([], w)"
| "app_run e w (r # rs) =
     (case app_call e r w of (o1, w1) \<Rightarrow> (case app_run e w1 rs of (os, w2) \<Rightarrow> (o1 # os, w2)))"

section \<open>Example\<close>

definition example_env :: app_env where
  "example_env =
     \<lparr>env_api = example_api OtherReply, env_ls = example_ls, env_get_openapi = (\<lambda>t v. example_openapi),
      env_settings = example_settings\<rparr>"

definition world0 :: world where
  "world0 = \<lparr>w_locale = c_lconv, w_app = \<lparr>openapi_schema = None\<rparr>\<rparr>"

definition get_req :: "string \<Rightarrow> (string \<times> string) list \<Rightarrow> request \<Rightarrow> http_req" where
  "get_req p q rq = \<lparr>rq_method = ''GET'', rq_path = p, rq_query = q, rq_request = rq\<rparr>"

definition cached_world :: world where
  "cached_world = \<lparr>w_locale = c_lconv, w_app = \<lparr>openapi_schema = Some example_openapi_nullable\<rparr>\<rparr>"

section \<open>Lemmas\<close>

lemma handler_locales:
  "gold_page api ls req k it txt t iv lc = (x, lc') \<Longrightarrow> lc' = lc \<or> lc' \<in> ran (installed ls)"
  "gold_data api ls req k it t lc = (y, lc') \<Longrightarrow> lc' = lc \<or> lc' \<in> ran (installed ls)"
  using activate_locale_ran [of ls _ lc]
  by (auto simp: gold_page_def gold_data_def Let_def split: sum.splits option.splits if_splits)

lemma endpoint_locale:
  "w_locale (snd (endpoint e a r w)) = w_locale w \<or> w_locale (snd (endpoint e a r w)) \<in> ran (installed (env_ls e))"
  by (auto simp: endpoint_def split: prod.split sum.split dest: handler_locales)

lemma endpoint_cache:
  "openapi_schema (w_app w) = Some j \<Longrightarrow> json_truthy j \<Longrightarrow> app_openapi a = custom_openapi \<Longrightarrow>
   w_app (snd (endpoint e a r w)) = w_app w"
  by (auto simp: endpoint_def custom_openapi_def split: prod.split sum.split)

lemma app_call_cases:
  "snd (app_call e r w) = w \<or> snd (app_call e r w) = snd (router e (app_of (env_settings e)) r w)"
  by (auto simp: app_call_def Let_def split: option.split prod.split sum.split bool.split)

lemma router_cases:
  "snd (router e a r w) = w \<or> snd (router e a r w) = snd (endpoint e a r w)"
  by (auto simp: router_def split: option.split)

lemma app_call_locale:
  "w_locale (snd (app_call e r w)) = w_locale w \<or> w_locale (snd (app_call e r w)) \<in> ran (installed (env_ls e))"
  using app_call_cases [of e r w] router_cases [of e "app_of (env_settings e)" r w]
    endpoint_locale [of e "app_of (env_settings e)" r w] by auto

lemma app_call_cache:
  "openapi_schema (w_app w) = Some j \<Longrightarrow> json_truthy j \<Longrightarrow> w_app (snd (app_call e r w)) = w_app w"
  using app_call_cases [of e r w] router_cases [of e "app_of (env_settings e)" r w]
    endpoint_cache [of w j "app_of (env_settings e)" e r] by (auto simp: app_of_def)

lemma app_middleware_of [simp]: "app_middleware (app_of s) = app_cors s"
  by (simp add: app_of_def)

lemma app_call_no_origin:
  "req_headers (rq_request r) ''origin'' = None \<Longrightarrow>
   app_call e r w = (case router e (app_of (env_settings e)) r w of
                       (Inl err, w') \<Rightarrow> (server_error, w') | (Inr rs, w') \<Rightarrow> (rs, w'))"
  by (auto simp: app_call_def Let_def split: prod.split sum.split)

lemma router_get:
  "map_of api_routes p = Some ms \<Longrightarrow> ''GET'' \<in> set ms \<Longrightarrow>
   router e a (get_req p q rq) w = endpoint e a (get_req p q rq) w"
  by (simp add: router_def get_req_def)

lemma route_gold: "map_of api_routes ''/gold'' = Some [''GET'']"
  and route_gold_data: "map_of api_routes ''/gold_data'' = Some [''GET'']"
  by (simp_all add: api_routes_def)

lemma endpoint_gold:
  "gold_query q = Inr (k, it, txt, t, iv) \<Longrightarrow>
   endpoint e a (get_req ''/gold'' q rq) w =
     (case gold_page (env_api e) (env_ls e) rq k it txt t iv (w_locale w) of
        (Inl err, lc) \<Rightarrow> (Inl err, w\<lparr>w_locale := lc\<rparr>)
      | (Inr h, lc) \<Rightarrow> (Inr (html_resp (HtmlBody h)), w\<lparr>w_locale := lc\<rparr>))"
  by (simp add: endpoint_def get_req_def)

lemma endpoint_gold_data:
  "query_args q = Inr (k, it, t) \<Longrightarrow>
   endpoint e a (get_req ''/gold_data'' q rq) w =
     (case gold_data (env_api e) (env_ls e) rq k it t (w_locale w) of
        (Inl err, lc) \<Rightarrow> (Inl err, w\<lparr>w_locale := lc\<rparr>)
      | (Inr d, lc) \<Rightarrow> (Inr (json_resp 200 (DataBody d)), w\<lparr>w_locale := lc\<rparr>))"
  by (simp add: endpoint_def get_req_def)

lemma app_gold_page:
  assumes call: "app_call e (get_req ''/gold'' q rq) w = (rs, w1)" and body: "rs_body rs = HtmlBody html"
    and q: "gold_query q = Inr (k, it, txt, t, iv)" and no: "req_headers rq ''origin'' = None"
  shows "gold_page (env_api e) (env_ls e) rq k it txt t iv (w_locale w) = (Inr html, w_locale w1) \<and>
         w1 = w\<lparr>w_locale := w_locale w1\<rparr>"
proof -
  have "app_call e (get_req ''/gold'' q rq) w =
     (case gold_page (env_api e) (env_ls e) rq k it txt t iv (w_locale w) of
        (Inl err, lc) \<Rightarrow> (server_error, w\<lparr>w_locale := lc\<rparr>)
      | (Inr h, lc) \<Rightarrow> (html_resp (HtmlBody h), w\<lparr>w_locale := lc\<rparr>))"
    using no app_call_no_origin [of "get_req ''/gold'' q rq" e w]
    by (simp add: router_get [OF route_gold, unfolded get_req_def] endpoint_gold [OF q, unfolded get_req_def]
        get_req_def split: prod.split sum.split)
  with call body show ?thesis
    by (auto simp: html_resp_def server_error_def split: prod.splits sum.splits)
qed

section \<open>Properties of the application\<close>

text \<open>C9: the overlay is consistent end to end: when the whole application served a
  page for \<^verbatim>\<open>GET /gold\<close> without an item, the request its script then sends (the
  query the browser builds from the parameter object, the same headers, no
  \<^verbatim>\<open>Origin\<close> on a same-origin \<^verbatim>\<open>GET\<close>) is answered 200 by \<^verbatim>\<open>/gold_data\<close> through the
  same stack, leaves the process state as the page left it, and the text the script
  writes is the line the page showed, provided the key and the label are safe in a
  script literal.\<close>

theorem app_poll_consistent:
  assumes page: "app_call e (get_req ''/gold'' q rq) w = (rs, w1)" and html: "rs_body rs = HtmlBody html"
    and q: "gold_query q = Inr (k, None, txt, t, iv)" and no_origin: "req_headers rq ''origin'' = None"
    and safe: "js_safe k" "js_safe txt"
  shows "\<exists>line pq d. sublist (text_marker @ line @ ''</p>'') html \<and>
           browser_query (poll_fields k None t) = Some pq \<and>
           app_call e (get_req ''/gold_data'' pq rq) w1 = (json_resp 200 (DataBody d), w1) \<and>
           js_string_value txt = Some txt \<and> js_update_text txt (gd_current d) (gd_target d) = line"
proof -
  from app_gold_page [OF page html q no_origin] have
    gp: "gold_page (env_api e) (env_ls e) rq k None txt t iv (w_locale w) = (Inr html, w_locale w1)"
    and w1: "w1 = w\<lparr>w_locale := w_locale w1\<rparr>" by auto
  from gold_page_plain [OF gp] obtain wl g langs where
    wl: "api_wallet (env_api e) k = Inr wl" and g: "gold_amount wl = Inr g"
    and langs: "accept_languages rq = Inr langs" and lc1: "w_locale w1 = activate_locale (env_ls e) langs (w_locale w)"
    and h: "html = plain_page_html k txt (format_n (w_locale w1) g) (format_n (w_locale w1) t) t iv"
    by blast
  let ?d = "\<lparr>gd_current = format_n (w_locale w1) g, gd_target = format_n (w_locale w1) t\<rparr>"
  let ?line = "txt @ '' '' @ format_n (w_locale w1) g @ ''/'' @ format_n (w_locale w1) t"
  have shown: "sublist (text_marker @ ?line @ ''</p>'') html"
    using sublist_plain_page_line h by simp
  have bq: "browser_query (poll_fields k None t) = Some [(''apikey'', k), (''target'', int_str t)]"
    using safe(1) js_safe_int_str by (simp add: poll_fields_def browser_query_safe)
  have d: "gold_data (env_api e) (env_ls e) rq k None t (w_locale w1) = (Inr ?d, w_locale w1)"
    using gold_data_after_page [OF wl g langs lc1] by (simp add: data_target_def)
  have "app_call e (get_req ''/gold_data'' [(''apikey'', k), (''target'', int_str t)] rq) w1 =
          (json_resp 200 (DataBody ?d), w1)"
    using d w1 no_origin
    by (simp add: app_call_no_origin get_req_def router_get [OF route_gold_data, unfolded get_req_def]
        endpoint_gold_data [unfolded get_req_def] query_args_target)
  then show ?thesis
    using shown bq safe(2)
    by (intro exI [of _ ?line] exI [of _ "[(''apikey'', k), (''target'', int_str t)]"] exI [of _ ?d])
       (simp add: js_string_value_safe js_update_text_def)
qed

theorem app_poll_consistent_witness:
  "\<exists>rs w1 html. app_call example_env (get_req ''/gold'' [(''apikey'', ''KEY''), (''target'', ''1234'')] example_req)
       world0 = (rs, w1) \<and> rs_body rs = HtmlBody html \<and>
     (\<exists>line pq d. sublist (text_marker @ line @ ''</p>'') html \<and>
        browser_query (poll_fields ''KEY'' None 1234) = Some pq \<and>
        app_call example_env (get_req ''/gold_data'' pq example_req) w1 = (json_resp 200 (DataBody d), w1) \<and>
        js_string_value ''Gold'' = Some ''Gold'' \<and> js_update_text ''Gold'' (gd_current d) (gd_target d) = line)"
proof -
  let ?html = "plain_page_html ''KEY'' ''Gold'' (format_n en_US_lconv 12) (format_n en_US_lconv 1234) 1234 60"
  have q: "gold_query [(''apikey'', ''KEY''), (''target'', ''1234'')] = Inr (''KEY'', None, ''Gold'', 1234, 60)"
  proof -
    have "parse_int ''1234'' = Some 1234"
      using parse_int_int_str [of 1234] by (simp add: int_str_def nat_str_eval)
    then show ?thesis by (simp add: gold_query_def int_param_def)
  qed
  have gp: "gold_page (example_api OtherReply) example_ls example_req ''KEY'' None ''Gold'' 1234 60 c_lconv =
      (Inr ?html, en_US_lconv)"
    by (simp add: gold_page_def example_api_def example_req_def gold_amount_def gold_entries_def
        gold_currency_id_def accept_languages_def example_ls_def parse_accept_language_def)
  have call: "app_call example_env (get_req ''/gold'' [(''apikey'', ''KEY''), (''target'', ''1234'')] example_req) world0 =
      (html_resp (HtmlBody ?html), world0\<lparr>w_locale := en_US_lconv\<rparr>)"
  proof -
    have r: "router example_env (app_of (env_settings example_env))
        (get_req ''/gold'' [(''apikey'', ''KEY''), (''target'', ''1234'')] example_req) world0 =
        (Inr (html_resp (HtmlBody ?html)), world0\<lparr>w_locale := en_US_lconv\<rparr>)"
      using gp by (simp add: router_get [OF route_gold] endpoint_gold [OF q] example_env_def world0_def)
    have "req_headers (rq_request (get_req ''/gold'' [(''apikey'', ''KEY''), (''target'', ''1234'')] example_req))
        ''origin'' = None"
      by (simp add: get_req_def example_req_def)
    from app_call_no_origin [OF this] r show ?thesis by simp
  qed
  have safe: "js_safe ''KEY''" "js_safe ''Gold''"
    by (simp_all add: js_safe_def dquote_def backslash_def newline_def)
  show ?thesis
    using app_poll_consistent [OF call _ q _ safe] call
    by (auto simp: html_resp_def example_req_def)
qed
text \<open>C10: a CORS preflight (an \<^verbatim>\<open>OPTIONS\<close> request with an \<^verbatim>\<open>Origin\<close> and an
  \<^verbatim>\<open>Access-Control-Request-Method\<close>) never reaches a handler: the middleware answers it
  400 \<^verbatim>\<open>Disallowed CORS origin\<close> (and \<^verbatim>\<open>method\<close> for a method outside HTTP's seven),
  for any origin, and the process state stays as it was.\<close>

theorem app_preflight_refused:
  assumes "req_headers (rq_request r) ''origin'' = Some origin" and "rq_method r = ''OPTIONS''"
    and "req_headers (rq_request r) ''access-control-request-method'' = Some m"
  shows "snd (app_call e r w) = w \<and> rs_status (fst (app_call e r w)) = 400 \<and>
    rs_body (fst (app_call e r w)) = TextBody (''Disallowed CORS origin'' @ (if m \<in> set all_methods then [] else '', method''))"
  using assms by (simp add: app_call_def Let_def cors_preflight_app)

theorem app_preflight_refused_witness:
  "snd (app_call example_env \<lparr>rq_method = ''OPTIONS'', rq_path = ''/gold_data'', rq_query = [],
      rq_request = \<lparr>req_headers = (\<lambda>n. if n = ''origin'' then Some ''http://localhost:8800''
         else if n = ''access-control-request-method'' then Some ''GET'' else None)\<rparr>\<rparr> world0) = world0 \<and>
   rs_status (fst (app_call example_env \<lparr>rq_method = ''OPTIONS'', rq_path = ''/gold_data'', rq_query = [],
      rq_request = \<lparr>req_headers = (\<lambda>n. if n = ''origin'' then Some ''http://localhost:8800''
         else if n = ''access-control-request-method'' then Some ''GET'' else None)\<rparr>\<rparr> world0)) = 400 \<and>
   rs_body (fst (app_call example_env \<lparr>rq_method = ''OPTIONS'', rq_path = ''/gold_data'', rq_query = [],
      rq_request = \<lparr>req_headers = (\<lambda>n. if n = ''origin'' then Some ''http://localhost:8800''
         else if n = ''access-control-request-method'' then Some ''GET'' else None)\<rparr>\<rparr> world0)) =
     TextBody ''Disallowed CORS origin''"
  using app_preflight_refused [of "\<lparr>rq_method = ''OPTIONS'', rq_path = ''/gold_data'', rq_query = [],
      rq_request = \<lparr>req_headers = (\<lambda>n. if n = ''origin'' then Some ''http://localhost:8800''
         else if n = ''access-control-request-method'' then Some ''GET'' else None)\<rparr>\<rparr>"
      "''http://localhost:8800''" "''GET''" example_env world0]
  by (simp add: all_methods_def)

text \<open>C11: over any sequence of requests the application serves, the process-wide locale
  stays the one it started with or the conventions of an installed locale, and a cached
  schema, once present, is never replaced.\<close>

theorem app_run_invariant:
  "app_run e w rs = (os, w') \<Longrightarrow>
   (w_locale w' = w_locale w \<or> w_locale w' \<in> ran (installed (env_ls e))) \<and>
   (openapi_schema (w_app w) = Some j \<longrightarrow> json_truthy j \<longrightarrow> w_app w' = w_app w)"
proof (induction rs arbitrary: w os)
  case (Cons r rs)
  obtain o1 w1 os' where c: "app_call e r w = (o1, w1)" and run: "app_run e w1 rs = (os', w')"
    using Cons.prems by (auto split: prod.splits)
  have "w_locale w1 = w_locale w \<or> w_locale w1 \<in> ran (installed (env_ls e))"
    using app_call_locale [of e r w] c by simp
  moreover have "openapi_schema (w_app w) = Some j \<longrightarrow> json_truthy j \<longrightarrow> w_app w1 = w_app w"
    using app_call_cache [of w j e r] c by simp
  ultimately show ?case
    using Cons.IH [OF run] by auto
qed simp

theorem app_run_invariant_witness:
  "snd (app_run example_env cached_world
      [get_req ''/openapi.json'' [] example_req, get_req ''/gold_data'' [(''apikey'', ''KEY'')] example_req]) =
     \<lparr>w_locale = en_US_lconv, w_app = \<lparr>openapi_schema = Some example_openapi_nullable\<rparr>\<rparr> \<and>
   (en_US_lconv = c_lconv \<or> en_US_lconv \<in> ran (installed example_ls))"
proof -
  let ?rs = "[get_req ''/openapi.json'' [] example_req, get_req ''/gold_data'' [(''apikey'', ''KEY'')] example_req]"
  have run: "app_run example_env cached_world ?rs =
      (fst (app_run example_env cached_world ?rs),
       \<lparr>w_locale = en_US_lconv, w_app = \<lparr>openapi_schema = Some example_openapi_nullable\<rparr>\<rparr>)"
    by code_simp
  have "openapi_schema (w_app cached_world) = Some example_openapi_nullable" "json_truthy example_openapi_nullable"
    by (simp_all add: cached_world_def example_openapi_nullable_def)
  then have "en_US_lconv = c_lconv \<or> en_US_lconv \<in> ran (installed example_ls)"
    using app_run_invariant [OF run, of example_openapi_nullable] by (simp add: cached_world_def example_env_def)
  moreover have "snd (app_run example_env cached_world ?rs) =
      \<lparr>w_locale = en_US_lconv, w_app = \<lparr>openapi_schema = Some example_openapi_nullable\<rparr>\<rparr>"
    using run by (metis snd_conv)
  ultimately show ?thesis by blast
qed


text \<open>C30: an exception of a handler (here a failing price lookup of
  \<^verbatim>\<open>/gold_data\<close>) passes the CORS middleware and reaches the server-error layer outside
  it: the answer is the bare 500, without any CORS header whatever the request's
  \<^verbatim>\<open>Origin\<close>, and the locale switch the handler made before the exception stays in
  the process for every later request.\<close>

theorem app_price_error_500:
  assumes "rq_method r = ''GET''" and "rq_path r = ''/gold_data''"
    and "query_args (rq_query r) = Inr (k, Some it, t)" and "it \<noteq> []"
    and "api_wallet (env_api e) k = Inr wl" and "gold_entries wl = x # xs"
    and "req_headers (rq_request r) ''accept-language'' = Some h"
    and "api_prices (env_api e) k it = Inl err"
  shows "app_call e r w =
           (server_error, w\<lparr>w_locale := activate_locale (env_ls e) (parse_accept_language h) (w_locale w)\<rparr>)"
proof -
  have gd: "gold_data (env_api e) (env_ls e) (rq_request r) k (Some it) t (w_locale w) =
      (Inl err, activate_locale (env_ls e) (parse_accept_language h) (w_locale w))"
    using assms by (simp add: gold_data_def data_target_def accept_languages_Some gold_amount_Cons
        del: copper_to_gold_div)
  have "router e (app_of (env_settings e)) r w =
      (Inl err, w\<lparr>w_locale := activate_locale (env_ls e) (parse_accept_language h) (w_locale w)\<rparr>)"
    using assms gd by (simp add: router_def api_routes_def endpoint_def)
  then show ?thesis
    using assms(1) by (auto simp: app_call_def Let_def split: option.split)
qed

theorem app_price_error_500_witness:
  "app_call example_env
     \<lparr>rq_method = ''GET'', rq_path = ''/gold_data'', rq_query = [(''apikey'', ''KEY''), (''item'', ''123'')],
      rq_request = \<lparr>req_headers = (\<lambda>n. if n = ''accept-language'' then Some ''en-US,en;q=0.9''
                      else if n = ''origin'' then Some ''https://overlay.example.org'' else None)\<rparr>\<rparr> world0 =
   (server_error, world0\<lparr>w_locale := en_US_lconv\<rparr>)"
proof -
  have "activate_locale example_ls (parse_accept_language ''en-US,en;q=0.9'') c_lconv = en_US_lconv"
    by (simp add: example_ls_def parse_accept_language_def)
  then show ?thesis
    using app_price_error_500 [of "\<lparr>rq_method = ''GET'', rq_path = ''/gold_data'',
        rq_query = [(''apikey'', ''KEY''), (''item'', ''123'')],
        rq_request = \<lparr>req_headers = (\<lambda>n. if n = ''accept-language'' then Some ''en-US,en;q=0.9''
                      else if n = ''origin'' then Some ''https://overlay.example.org'' else None)\<rparr>\<rparr>"
        "''KEY''" "''123''" 0 example_env
        "[\<lparr>entry_id = 4, entry_value = 250\<rparr>, \<lparr>entry_id = 1, entry_value = 123456\<rparr>]"
        "\<lparr>entry_id = 1, entry_value = 123456\<rparr>" "[]" "''en-US,en;q=0.9''" NotFound world0]
    by (simp add: query_args_def example_env_def example_api_def gold_entries_def gold_currency_id_def
        world0_def)
qed

end
