(* ===== verification/Spec2Isabelle.thy ===== *)
theory Spec2Isabelle
  imports Concurrency App
begin

text \<open>
  A verification development for the gold overlay service of the repository
  (\<^verbatim>\<open>src/main.py\<close>, a FastAPI application; \<^verbatim>\<open>src/config/__init__.py\<close>, its settings).
  The service reads a Guild Wars 2 account's wallet through the pygw2 client, converts
  its gold balance (and optionally an item's market price) from copper to gold, formats
  both in the locale the browser asks for, and answers either an auto-refreshing HTML
  overlay (\<^verbatim>\<open>GET /gold\<close>) or the JSON the overlay polls (\<^verbatim>\<open>GET /gold_data\<close>).

  \<^bold>\<open>Theories and what they model.\<close>
  \<^item> \<open>Py_Prelude\<close>: exceptions as values (\<open>py_error\<close>, \<open>'a result\<close>), \<^verbatim>\<open>xs[0]\<close>
    (\<open>py_index0\<close>), \<^verbatim>\<open>str.split\<close>/\<^verbatim>\<open>str.join\<close> (\<open>py_split\<close>, \<open>str_join\<close>) and
    \<^verbatim>\<open>str(int)\<close> with the framework's reading of an int query parameter (\<open>int_str\<close>,
    \<open>parse_int\<close>), with their round trips.
  \<^item> \<open>Currency\<close>: the wallet entry, the gold-entry selection and the copper-to-gold floor
    division (\<^verbatim>\<open>main.py\<close> 87-88, 207-208): \<open>wallet_entry\<close>, \<open>gold_amount\<close>,
    \<open>copper_to_gold\<close>.
  \<^item> \<open>Prices\<close>: the price target resolver (105-112, 222-229): \<open>prices_reply\<close>,
    \<open>first_price\<close>, \<open>listing_target\<close>, \<open>resolve_target\<close>; next to it the spec's policy
    \<open>spec_target\<close> on an abstract \<open>quote\<close>.
  \<^item> \<open>Number_Format\<close>: Python's \<^verbatim>\<open>{n:n}\<close> formatting in a locale (\<open>lconv\<close>,
    \<open>group_digits\<close>, \<open>format_n\<close>), after CPython's thousands-grouping loop.
  \<^item> \<open>Locale_Resolver\<close>: the \<^verbatim>\<open>Accept-Language\<close> parsing and the loop over
    \<^verbatim>\<open>locale.setlocale\<close> (90-97, 210-217): \<open>parse_accept_language\<close>,
    \<open>activate_locale\<close>, over the interface \<open>locale_sys\<close> of the C library's locales.
  \<^item> \<open>Overlay_Templates\<close>: every f-string of the \<^verbatim>\<open>/gold\<close> page character for character
    (102-194), the text the page's script writes (\<open>js_update_text\<close>), and the browser's
    reading of the script's string literals (\<open>js_string_value\<close>, \<open>js_lit_read\<close>) with
    every escape sequence of a non-strict script (\<open>js_escape\<close>); beside it the escaping
    the spec asks for (\<open>js_quote\<close>), which the reading inverts.
  \<^item> \<open>Handlers\<close>: the two handlers \<open>gold_page\<close> (75-194) and \<open>gold_data\<close> (197-234)
    over the interface \<open>gw2_api\<close> of the game API, threading the process-wide locale
    (\<open>lconv\<close>) through; the poll of the page (\<open>poll_fields\<close>, \<open>browser_query\<close>,
    \<open>query_args\<close>, \<open>poll_update\<close>); a concrete example environment for the witnesses.
  \<^item> \<open>Concurrency\<close>: concurrent requests of both handlers on the event loop. Each
    handler is cut at its awaits into segments: \<^verbatim>\<open>/gold_data\<close> at the wallet (line
    205) and price fetches (line 220), \<open>gd_resume\<close> on the program points \<open>gd_pc\<close>;
    \<^verbatim>\<open>/gold\<close> at the wallet (85), item (99) and price fetches (100), \<open>gp_resume\<close> on
    \<open>gp_pc\<close>. A request in flight (\<open>ev_thread\<close>) is its call and its program point; the
    event loop (\<open>ev_step\<close>, an inductive relation) runs any unanswered request's next
    segment; all requests share the process-wide locale.
  \<^item> \<open>Settings\<close>: \<^verbatim>\<open>src/config/__init__.py\<close>: the class-body defaults read from the
    environment (\<open>settings_defaults\<close>), pydantic-settings' reading of the variables with
    the validation of the origins into URL objects (\<open>settings_of\<close>, \<open>http_url\<close>, over the
    interface \<open>pydantic_lib\<close>);
    the \<^verbatim>\<open>Meta\<close> model and \<^verbatim>\<open>/meta\<close> (\<open>meta_handler\<close>, lines 15-17, 70-72) and the
    schema's version string (\<open>openapi_version\<close>, line 33).
  \<^item> \<open>Cors\<close>: the CORS middleware built from the settings (lines 61-67,
    \<open>app_cors\<close>), its origin check by Python's \<^verbatim>\<open>in\<close> over strings and URL objects
    (\<open>py_obj\<close>, \<open>py_eq\<close>, \<open>is_allowed_origin\<close>) and the
    \<^verbatim>\<open>Access-Control-Allow-Origin\<close> header a response gets (\<open>cors_allow_origin\<close>, the
    contract), Starlette's preflight response (\<open>cors_preflight\<close>) and the rewriting of a
    simple response's headers (\<open>cors_simple\<close>), which refines the contract.
  \<^item> \<open>App\<close>: the application as one server (lines 12, 59-67 and the route decorators
    70, 75, 197): the app object (\<open>app_of\<close>), the route table with FastAPI's
    documentation routes, the router's 404, 405 and trailing-slash redirect
    (\<open>router\<close>), the endpoints with the 422 of a failed query validation
    (\<open>endpoint\<close>, \<open>gold_query\<close>), and the stack \<open>app_call\<close>: the server-error layer
    outside the CORS middleware outside the router, threading the process state
    \<open>world\<close> (the locale and the schema cache); \<open>app_run\<close> serves a sequence of requests.
  \<^item> \<open>Openapi\<close>: \<^verbatim>\<open>custom_openapi\<close> (lines 25-56) over a JSON datatype whose dicts
    are association lists: the Python operators on JSON values with their exceptions
    (\<open>str_in\<close>, \<open>json_get\<close>, \<open>json_set\<close>, \<open>json_truthy\<close>), the in-place loop over a
    dict's items (\<open>update_items\<close>), the two loops (\<open>mark_field\<close>, \<open>needs_marking\<close>,
    \<open>mark_component\<close>, \<open>nullable_schema\<close>) and the cached schema as state
    (\<open>app_state\<close>, \<open>custom_openapi\<close>); beside them the intended effect
    \<open>nullable_schema_spec\<close> and the shape of generated schemas \<open>schema_typed\<close>.

  \<^bold>\<open>How the parts interact.\<close> A request passes the server-error layer, the CORS
  middleware and the router (\<open>App\<close>) to an endpoint; both handlers run, in the source's order: wallet fetch,
  gold entry (\<open>gold_amount\<close>), header, locale activation (\<open>activate_locale\<close>, which
  changes the process-wide locale), then the item and price fetches with
  \<open>resolve_target\<close>, and format both amounts with \<open>format_n\<close> in the locale now active.
  The page's script polls \<^verbatim>\<open>/gold_data\<close> with the parameters spliced into it.

  \<^bold>\<open>What is proved.\<close> The resolver implements the spec's policy (refinement
  \<open>Prices.resolve_target_refines\<close>) and each branch of it; the conversion is floor
  division; the formatter only inserts separators (round trip) and groups digits as the
  locale says; the locale loop picks the first activatable language;
  \<^verbatim>\<open>/gold_data\<close> answers the formatted amounts and fails exactly on the unguarded
  lookups, leaving the locale switched when a late lookup fails; a page without an item
  and its poll agree (the line compared is the page's HTML source text: a label holding a
  character reference such as \<^verbatim>\<open>&amp;\<close> would display differently), and the condition on its label is exact: the browser reads a script
  literal back as the spliced text exactly when the text has no quote, backslash or line
  break (\<open>Overlay_Templates.js_string_value_exact\<close>), so a label such as
  \<^verbatim>\<open>C:\new\<close> is rewritten by the first poll (\<open>Handlers.poll_rewrites_escaped_label\<close>).
  Two further findings are theorems: with an item, the poll drops the
  caller's target (\<open>Handlers.poll_item_drops_target\<close>), and the API key is spliced into
  the script unescaped (\<open>Handlers.gold_page_apikey_verbatim\<close>).
  For concurrent requests: the locale is a race, shown on a concrete schedule in which
  the overlay page renders its amounts with a poll's separators
  (\<open>Concurrency.ev_race_foreign_locale\<close>), while a request without an item, which does
  not suspend between activation and formatting, is free of it in every interleaving
  (\<open>Concurrency.ev_noitem_own_locale\<close>, by rule induction over the event loop).
  For the configuration: the failure to load when \<^verbatim>\<open>HOSTNAME\<close> is not a URL
  (\<open>Settings.settings_of_hostname_not_url\<close>) and the agreement of the loaded fields with
  the environment and the class body's defaults; the CORS middleware allows
  no origin at all, the configured one included, since the origins it is given are URL
  objects and a request's \<^verbatim>\<open>Origin\<close> is a string (\<open>Cors.cors_no_origin_allowed\<close>), while
  the same check over strings allows exactly the configured origins. For the OpenAPI
  post-processing: on generated schemas the function raises nothing and computes
  exactly the marking of \<open>nullable_schema_spec\<close> (\<open>Openapi.nullable_schema_refines\<close>),
  which leaves the fields of a component without a non-empty \<^verbatim>\<open>required\<close> list (such
  as FastAPI's \<^verbatim>\<open>HTTPValidationError\<close>) non-nullable, against the comment of line 37;
  the schema is computed once and then served from the cache. For the application as a whole: the page and its poll agree through
  the full request stack (\<open>App.app_poll_consistent\<close>), a CORS preflight is refused
  without reaching a handler (\<open>App.app_preflight_refused\<close>), and over any request
  sequence the locale stays initial or installed and a cached schema is kept
  (\<open>App.app_run_invariant\<close>, by induction on the sequence); an exception of a handler
  becomes a bare 500 outside the CORS middleware while the locale it switched stays
  (\<open>App.app_price_error_500\<close>).

  \<^bold>\<open>Bounds and termination.\<close> Python ints are unbounded, so amounts are \<open>int\<close>; no
  fuel is needed: the only non-structural loop, the digit grouping, terminates by the
  measure \<open>length ds\<close>, the reading of a script literal by the measure \<open>length\<close> of the
  input (each escape consumes at least one character, \<open>js_escape_suffix\<close>), and the
  locale loop is structural on the language list. Every segment of the event loop is
  straight-line code (the game API's answers are given values), so a request answers
  after at most three (\<^verbatim>\<open>/gold_data\<close>) or four (\<^verbatim>\<open>/gold\<close>) segments; the model states no
  theorem about it.

  \<^bold>\<open>Not modelled.\<close> The pygw2 client and the network (an interface record whose
  results are arbitrary values or exceptions); pydantic validation beyond the query readings \<open>query_args\<close> and
  \<open>gold_query\<close>; the C library's
  locale tables (an interface \<open>locale_sys\<close>); URL encoding of the poll's query, which
  round-trips; FastAPI's \<^verbatim>\<open>get_openapi\<close> (an interface of the title and version) and
  aliasing between the JSON objects it returns (the model's schema is a tree); pydantic's
  JSON decoding of \<^verbatim>\<open>ORIGINS\<close> and its URL check (the interface \<open>pydantic_lib\<close>) and
  the normalisation of the URLs it keeps; JSON floats. The timing of the page's
  \<^verbatim>\<open>setInterval\<close> and the HTML tokenizer's treatment of \<^verbatim>\<open></script>\<close> inside the
  script (the literal reading assumes the script element reaches the JavaScript engine
  whole). Characters are 8-bit throughout: a \<^verbatim>\<open>\u\<close> escape above U+00FF denotes a code
  unit the model's strings cannot hold and is read as no value. Of the server: response
  serialisation (bodies are the handlers' values), the \<^verbatim>\<open>content-length\<close> and
  \<^verbatim>\<open>allow\<close> headers, the detail of a 422, the contents of the documentation pages,
  the dropping of a \<^verbatim>\<open>HEAD\<close> response's body by the ASGI server, and how a proxy and
  the server present the root path (the router sees the path relative to it). The
  module's imports carry no behaviour.
\<close>

end
